theory Spec2Isabelle
  imports Main "HOL-Library.Char_ord" "HOL-Library.List_Lexorder"
begin

section \<open>Python values used by the handlers\<close>

text \<open>
  Payload values, path segments and messages are Python strings; they are modelled as
  \<^typ>\<open>string\<close>: a \<^typ>\<open>char\<close> is a byte, and a character outside ASCII is the
  bytes of its UTF-8 encoding.

  \<open>upper\<close> is \<open>unicode.upper\<close>, which maps character by character. It is modelled on
  every character whose uppercase form is an ASCII character: the letters \<open>a\<close> to \<open>z\<close>,
  the long s (U+017F, bytes \<open>C5 BF\<close>), which becomes \<open>S\<close>, and the dotless i (U+0131,
  bytes \<open>C4 B1\<close>), which becomes \<open>I\<close>. Every other character outside ASCII is left
  as it is: its uppercase form is again outside ASCII, so the text it stands in is
  none of the ASCII words the handlers compare an uppercased text with, before and
  after the mapping alike.
\<close>

definition char_upper :: "char \<Rightarrow> char" where
  "char_upper c =
     (case map_of (zip ''abcdefghijklmnopqrstuvwxyz'' ''ABCDEFGHIJKLMNOPQRSTUVWXYZ'') c of
        Some u \<Rightarrow> u
      | None \<Rightarrow> c)"

fun upper :: "string \<Rightarrow> string" where
  "upper [] = []"
| "upper [c] = [char_upper c]"
| "upper (c # c' # cs) =
     (if c = CHR 0xC5 \<and> c' = CHR 0xBF then CHR ''S'' # upper cs
      else if c = CHR 0xC4 \<and> c' = CHR 0xB1 then CHR ''I'' # upper cs
      else char_upper c # upper (c' # cs))"

text \<open>
  \<open>if x:\<close> on an optional path segment: \<open>None\<close> and the empty string are false, every
  other string is true (also \<open>"0"\<close>: the URL dispatcher passes the segment as text).
\<close>

fun truthy :: "string option \<Rightarrow> bool" where
  "truthy None = False"
| "truthy (Some s) = (s \<noteq> [])"

text \<open>
  \<open>int(s)\<close>, which Django applies to a primary key given as text: surrounding white
  space is dropped, one sign is allowed, the rest must be decimal digits; anything else
  raises \<open>ValueError\<close> (the value \<open>None\<close> here).
\<close>

definition digit_of :: "char \<Rightarrow> nat option" where
  "digit_of c = map_of (zip ''0123456789'' [0, 1, 2, 3, 4, 5, 6, 7, 8, 9]) c"

fun digits_val :: "string \<Rightarrow> nat \<Rightarrow> nat option" where
  "digits_val [] acc = Some acc"
| "digits_val (c # cs) acc =
     (case digit_of c of None \<Rightarrow> None | Some d \<Rightarrow> digits_val cs (10 * acc + d))"

definition is_space :: "char \<Rightarrow> bool" where
  "is_space c = (c \<in> set [CHR '' '', CHR 0x09, CHR 0x0A, CHR 0x0B, CHR 0x0C, CHR 0x0D])"

definition strip :: "string \<Rightarrow> string" where
  "strip s = rev (dropWhile is_space (rev (dropWhile is_space s)))"

definition unsigned_int :: "string \<Rightarrow> int option" where
  "unsigned_int s = (if s = [] then None else map_option int (digits_val s 0))"

definition py_int :: "string \<Rightarrow> int option" where
  "py_int s =
     (case strip s of
        [] \<Rightarrow> None
      | c # cs \<Rightarrow>
          if c = CHR ''-'' then map_option uminus (unsigned_int cs)
          else if c = CHR ''+'' then unsigned_int cs
          else unsigned_int (c # cs))"

text \<open>
  The field map of a request (\<open>request.PUT.copy()\<close>, \<open>request.POST.copy()\<close>) is a
  dictionary from field names to text. It is an association list in which the first
  entry of a key is the value \<open>data[key]\<close> returns.
\<close>

type_synonym qdict = "(string \<times> string) list"

definition has_key :: "qdict \<Rightarrow> string \<Rightarrow> bool" where
  "has_key data key = (map_of data key \<noteq> None)"

definition delitem :: "qdict \<Rightarrow> string \<Rightarrow> qdict" where
  "delitem data key = filter (\<lambda>kv. fst kv \<noteq> key) data"

definition setitem :: "qdict \<Rightarrow> string \<Rightarrow> string \<Rightarrow> qdict" where
  "setitem data key val = (key, val) # delitem data key"

text \<open>\<open>for key in keys: if key in data: del data[key]\<close>\<close>

definition strip_keys :: "string list \<Rightarrow> qdict \<Rightarrow> qdict" where
  "strip_keys keys data = fold (\<lambda>key d. if has_key d key then delitem d key else d) keys data"

section \<open>The data model (models.py)\<close>

text \<open>
  One record per model class, with the columns the handlers read or write. A primary key
  and the year of an Event or ThemeCamp are optional because a freshly constructed
  object (\<open>PlayaEvent()\<close>, \<open>ThemeCamp()\<close>) has neither until they are assigned and the
  object is saved. A \<open>NullBooleanField\<close> is a \<^typ>\<open>bool option\<close>. Times are points on
  a discrete time line.
\<close>

record year =
  y_id :: int
  y_year :: string
  y_location :: string
  y_theme :: "string option"

record circular_street =
  cs_id :: int
  cs_year :: int
  cs_name :: string

record time_street =
  ts_id :: int
  ts_year :: int
  ts_name :: string

record art_installation =
  a_id :: int
  a_year :: int
  a_name :: string

record event_type =
  et_id :: int
  et_abbr :: string

record occurrence =
  o_event :: int
  o_start_time :: nat
  o_end_time :: nat

record theme_camp =
  c_id :: "int option"
  c_year :: "int option"
  c_name :: string
  c_slug :: "string option"
  c_description :: "string option"
  c_url :: "string option"
  c_hometown :: "string option"
  c_location_string :: "string option"
  c_list_online :: bool
  c_circular_street :: "int option"
  c_bm_fm_id :: "int option"
  c_deleted :: "bool option"

record playa_event =
  e_id :: "int option"
  e_year :: "int option"
  e_title :: string
  e_event_type :: "int option"
  e_print_description :: string
  e_slug :: string
  e_hosted_by_camp :: "int option"
  e_located_at_art :: "int option"
  e_other_location :: "string option"
  e_check_location :: "bool option"
  e_url :: "string option"
  e_contact_email :: "string option"
  e_all_day :: "bool option"
  e_list_online :: "bool option"
  e_list_contact_online :: "bool option"
  e_creator :: "int option"
  e_moderation :: string

text \<open>
  The database: one table per model, as the list of its rows. A query returns the rows
  it selects in the order of the table; the \<open>ORDER BY\<close> that a model's
  \<open>Meta.ordering\<close> adds to a query is not modelled (the example data below is stored
  in that order).
\<close>

record db =
  years :: "year list"
  circular_streets :: "circular_street list"
  time_streets :: "time_street list"
  arts :: "art_installation list"
  event_types :: "event_type list"
  occurrences :: "occurrence list"
  camps :: "theme_camp list"
  events :: "playa_event list"

text \<open>The field defaults of the two moderated models.\<close>

definition new_ThemeCamp :: theme_camp where
  "new_ThemeCamp =
     \<lparr>c_id = None, c_year = None, c_name = [], c_slug = None, c_description = None,
      c_url = None, c_hometown = None, c_location_string = None, c_list_online = True,
      c_circular_street = None, c_bm_fm_id = None, c_deleted = Some False\<rparr>"

definition new_PlayaEvent :: playa_event where
  "new_PlayaEvent =
     \<lparr>e_id = None, e_year = None, e_title = [], e_event_type = None,
      e_print_description = [], e_slug = [], e_hosted_by_camp = None,
      e_located_at_art = None, e_other_location = None, e_check_location = None,
      e_url = None, e_contact_email = None, e_all_day = None, e_list_online = None,
      e_list_contact_online = None, e_creator = None, e_moderation = ''U''\<rparr>"

subsection \<open>Exceptions, queries and managers\<close>

datatype exn = DoesNotExist | MultipleObjectsReturned | ValueError | IntegrityError

text \<open>\<open>Model.objects.get(...)\<close>: the one row that matches, or an exception.\<close>

definition get_row :: "('a \<Rightarrow> bool) \<Rightarrow> 'a list \<Rightarrow> exn + 'a" where
  "get_row P rows =
     (case filter P rows of
        [] \<Rightarrow> Inl DoesNotExist
      | [r] \<Rightarrow> Inr r
      | r # r' # rs \<Rightarrow> Inl MultipleObjectsReturned)"

text \<open>\<open>get(pk=key)\<close> with the key given as text.\<close>

definition get_pk :: "('a \<Rightarrow> int option) \<Rightarrow> string \<Rightarrow> 'a list \<Rightarrow> exn + 'a" where
  "get_pk pk key rows =
     (case py_int key of
        None \<Rightarrow> Inl ValueError
      | Some k \<Rightarrow> get_row (\<lambda>r. pk r = Some k) rows)"

text \<open>
  \<open>ThemeCamp.objects\<close> is a \<open>ThemeCampManager\<close>, whose \<open>get_query_set\<close> keeps
  \<open>list_online=True\<close>; \<open>ThemeCamp.all_objects\<close> and \<open>PlayaEvent.objects\<close> do not
  override \<open>get_query_set\<close>.
\<close>

definition ThemeCamp_objects :: "db \<Rightarrow> theme_camp list" where
  "ThemeCamp_objects d = filter c_list_online (camps d)"

definition ThemeCamp_all_objects :: "db \<Rightarrow> theme_camp list" where
  "ThemeCamp_all_objects d = camps d"

definition PlayaEvent_objects :: "db \<Rightarrow> playa_event list" where
  "PlayaEvent_objects d = events d"

text \<open>
  \<open>obj.save()\<close>: a row without a year violates the NOT NULL constraint of the column; an
  object with a primary key replaces the row of that key (or is inserted when there is
  none); an object without one is inserted under the next key of the table.
\<close>

definition next_pk :: "int option list \<Rightarrow> int" where
  "next_pk pks = fold (\<lambda>pk m. case pk of None \<Rightarrow> m | Some k \<Rightarrow> max m k) pks 0 + 1"

definition save_rows :: "('a \<Rightarrow> int option) \<Rightarrow> (int \<Rightarrow> 'a \<Rightarrow> 'a) \<Rightarrow> 'a \<Rightarrow> 'a list \<Rightarrow> 'a \<times> 'a list" where
  "save_rows pk set_pk obj rows =
     (case pk obj of
        Some k \<Rightarrow>
          if filter (\<lambda>r. pk r = Some k) rows \<noteq> []
          then (obj, map (\<lambda>r. if pk r = Some k then obj else r) rows)
          else (obj, rows @ [obj])
      | None \<Rightarrow>
          (let obj' = set_pk (next_pk (map pk rows)) obj in (obj', rows @ [obj'])))"

definition save_event :: "playa_event \<Rightarrow> db \<Rightarrow> exn + (playa_event \<times> db)" where
  "save_event obj d =
     (if e_year obj = None then Inl IntegrityError
      else (case save_rows e_id (\<lambda>k e. e\<lparr>e_id := Some k\<rparr>) obj (events d) of
              (obj', rows) \<Rightarrow> Inr (obj', d\<lparr>events := rows\<rparr>)))"

definition save_camp :: "theme_camp \<Rightarrow> db \<Rightarrow> exn + (theme_camp \<times> db)" where
  "save_camp obj d =
     (if c_year obj = None then Inl IntegrityError
      else (case save_rows c_id (\<lambda>k c. c\<lparr>c_id := Some k\<rparr>) obj (camps d) of
              (obj', rows) \<Rightarrow> Inr (obj', d\<lparr>camps := rows\<rparr>)))"

section \<open>Requests and responses (api/handlers.py)\<close>

record user =
  u_id :: int
  u_api_allowed :: bool

text \<open>
  A request: the acting user (\<open>request.user\<close>, whose profile carries \<open>api_allowed\<close>),
  the verb, the two field maps, and the two query parameters of a read. A query
  parameter is modelled by the time it denotes; \<open>None\<close> is a parameter that is absent
  or empty (\<open>request.GET.get(...)\<close> is then false).
\<close>

record request =
  req_user :: user
  req_method :: string
  req_PUT :: qdict
  req_POST :: qdict
  req_start_time :: "nat option"
  req_end_time :: "nat option"

datatype status = ALL_OK | CREATED | DELETED | BAD_REQUEST | NOT_HERE

text \<open>
  The body of a response: a message, or the JSON object \<open>{"pk": obj.id}\<close>.
\<close>

datatype content = Message string | PkJson "int option"

text \<open>
  What a handler call ends in: the response it returns, or an exception it does not
  catch.
\<close>

datatype outcome = Response status content | Raised exn

text \<open>
  Modelled from the spec: \<open>playaevents.api.utils.rc_response\<close> is not among the
  sources. Section 6 of the specification describes its result as a structured body
  carrying a human-readable message and an HTTP status drawn from a small fixed set.
\<close>

definition rc_response :: "status \<Rightarrow> string \<Rightarrow> outcome" where
  "rc_response st msg = Response st (Message msg)"

text \<open>\<open>except Model.DoesNotExist: return ...\<close>: every other exception propagates.\<close>

definition except_DoesNotExist :: "outcome \<Rightarrow> exn \<Rightarrow> outcome" where
  "except_DoesNotExist out e = (if e = DoesNotExist then out else Raised e)"

text \<open>
  The success responses are \<open>rc.ALL_OK\<close>, \<open>rc.CREATED\<close> and \<open>rc.DELETED\<close>; the
  handlers answer every failure they detect with \<open>rc.BAD_REQUEST\<close> or \<open>rc.NOT_HERE\<close>.
\<close>

definition is_success :: "outcome \<Rightarrow> bool" where
  "is_success out =
     (case out of
        Response st body \<Rightarrow> st = ALL_OK \<or> st = CREATED \<or> st = DELETED
      | Raised e \<Rightarrow> False)"

text \<open>
  The first steps of both \<open>_create_or_update\<close> methods: the field map of the verb
  (the handlers answer any verb other than PUT and POST with a bad request before they
  read it), then \<open>if year_year and 'year' not in data: data['year'] = year_year\<close>.
\<close>

definition verb_data :: "request \<Rightarrow> qdict" where
  "verb_data request = (if req_method request = ''PUT'' then req_PUT request else req_POST request)"

definition inject_year :: "string option \<Rightarrow> qdict \<Rightarrow> qdict" where
  "inject_year year_year data =
     (case year_year of
        None \<Rightarrow> data
      | Some y \<Rightarrow> if y \<noteq> [] \<and> \<not> has_key data ''year'' then setitem data ''year'' y else data)"

text \<open>\<open>val.upper() in ('1', 'T', 'Y', 'YES', 'TRUE', 'ON')\<close>\<close>

definition truthy_words :: "string list" where
  "truthy_words = [''1'', ''T'', ''Y'', ''YES'', ''TRUE'', ''ON'']"

definition to_bool :: "string \<Rightarrow> bool" where
  "to_bool val = (upper val \<in> set truthy_words)"

section \<open>Events: \<open>BasePlayaEventHandler\<close> and \<open>PlayaEventHandler\<close>\<close>

subsection \<open>read\<close>

definition event_read :: "request \<Rightarrow> string option \<Rightarrow> string option \<Rightarrow> db \<Rightarrow> exn + playa_event list" where
  "event_read request year_year playa_event_id d =
     (if truthy year_year then
        (case get_row (\<lambda>y. Some (y_year y) = year_year) (years d) of
           Inl e \<Rightarrow> Inl e
         | Inr year \<Rightarrow>
             if truthy playa_event_id then
               (case py_int (case playa_event_id of None \<Rightarrow> [] | Some s \<Rightarrow> s) of
                  None \<Rightarrow> Inl ValueError
                | Some k \<Rightarrow>
                    Inr (filter (\<lambda>e. e_year e = Some (y_id year) \<and> e_id e = Some k
                                   \<and> e_list_online e = Some True)
                           (PlayaEvent_objects d)))
             else
               (case (req_start_time request, req_end_time request) of
                  (Some s, Some t) \<Rightarrow>
                    (let event_list = map o_event (filter (\<lambda>occ. s \<le> o_start_time occ \<and> o_end_time occ \<le> t) (occurrences d))
                     in Inr (filter (\<lambda>e. e_id e \<in> Some ` set event_list) (PlayaEvent_objects d)))
                | (Some s, None) \<Rightarrow>
                    (let event_list = map o_event (filter (\<lambda>occ. s \<le> o_start_time occ) (occurrences d))
                     in Inr (filter (\<lambda>e. e_id e \<in> Some ` set event_list) (PlayaEvent_objects d)))
                | (None, Some t) \<Rightarrow>
                    (let event_list = map o_event (filter (\<lambda>occ. o_end_time occ \<le> t) (occurrences d))
                     in Inr (filter (\<lambda>e. e_id e \<in> Some ` set event_list) (PlayaEvent_objects d)))
                | (None, None) \<Rightarrow>
                    Inr (filter (\<lambda>e. e_year e = Some (y_id year) \<and> e_moderation e = ''A''
                                   \<and> e_list_online e = Some True)
                           (PlayaEvent_objects d))))
      else
        Inr (filter (\<lambda>e. e_moderation e = ''A'' \<and> e_list_online e = Some True)
               (PlayaEvent_objects d)))"

subsection \<open>_create_or_update\<close>

text \<open>
  \<open>setattr(obj, key, val)\<close> for the keys of the text loop and of the boolean loop, and
  \<open>getattr(obj, key)\<close> for the keys of the boolean loop, which reads back what was
  stored.
\<close>

definition event_setattr_text :: "string \<Rightarrow> string \<Rightarrow> playa_event \<Rightarrow> playa_event" where
  "event_setattr_text key val obj =
     (if key = ''print_description'' then obj\<lparr>e_print_description := val\<rparr>
      else if key = ''url'' then obj\<lparr>e_url := Some val\<rparr>
      else if key = ''contact_email'' then obj\<lparr>e_contact_email := Some val\<rparr>
      else if key = ''other_location'' then obj\<lparr>e_other_location := Some val\<rparr>
      else if key = ''slug'' then obj\<lparr>e_slug := val\<rparr>
      else obj)"

definition event_setattr_bool :: "string \<Rightarrow> bool \<Rightarrow> playa_event \<Rightarrow> playa_event" where
  "event_setattr_bool key val obj =
     (if key = ''check_location'' then obj\<lparr>e_check_location := Some val\<rparr>
      else if key = ''all_day'' then obj\<lparr>e_all_day := Some val\<rparr>
      else if key = ''list_online'' then obj\<lparr>e_list_online := Some val\<rparr>
      else if key = ''list_contact_online'' then obj\<lparr>e_list_contact_online := Some val\<rparr>
      else obj)"

definition event_getattr_bool :: "string \<Rightarrow> playa_event \<Rightarrow> bool option" where
  "event_getattr_bool key obj =
     (if key = ''check_location'' then e_check_location obj
      else if key = ''all_day'' then e_all_day obj
      else if key = ''list_online'' then e_list_online obj
      else if key = ''list_contact_online'' then e_list_contact_online obj
      else None)"

definition event_text_keys :: "string list" where
  "event_text_keys = [''print_description'', ''url'', ''contact_email'', ''other_location'', ''slug'']"

definition event_bool_keys :: "string list" where
  "event_bool_keys = [''check_location'', ''all_day'', ''list_online'', ''list_contact_online'']"

text \<open>
  Resolving the target: an existing event by primary key (and then \<open>del data['year']\<close>),
  or a new one with its creator and event type.
\<close>

definition event_target :: "request \<Rightarrow> string option \<Rightarrow> qdict \<Rightarrow> db \<Rightarrow> outcome + (playa_event \<times> qdict)" where
  "event_target request playa_event_id data d =
     (if truthy playa_event_id then
        (let pid = (case playa_event_id of None \<Rightarrow> [] | Some s \<Rightarrow> s) in
         case get_pk e_id pid (PlayaEvent_objects d) of
           Inl e \<Rightarrow> Inl (except_DoesNotExist (rc_response NOT_HERE (''Event not found #'' @ pid)) e)
         | Inr obj \<Rightarrow> Inr (obj, if has_key data ''year'' then delitem data ''year'' else data))
      else
        (let obj = new_PlayaEvent\<lparr>e_creator := Some (u_id (req_user request))\<rparr> in
         case map_of data ''event_type'' of
           None \<Rightarrow>
             (case get_row (\<lambda>t. et_id t = 1) (event_types d) of
                Inl e \<Rightarrow> Inl (Raised e)
              | Inr event_type \<Rightarrow> Inr (obj\<lparr>e_event_type := Some (et_id event_type)\<rparr>, data))
         | Some abbr \<Rightarrow>
             (case get_row (\<lambda>t. et_abbr t = abbr) (event_types d) of
                Inl e \<Rightarrow> Inl (except_DoesNotExist (rc_response NOT_HERE (''No such EventType: '' @ abbr)) e)
              | Inr event_type \<Rightarrow> Inr (obj\<lparr>e_event_type := Some (et_id event_type)\<rparr>, data))))"

text \<open>The steps between the stripping of the illegal keys and \<open>obj.save()\<close>, in order.\<close>

definition event_set_year :: "qdict \<Rightarrow> db \<Rightarrow> playa_event \<Rightarrow> outcome + playa_event" where
  "event_set_year data d obj =
     (case map_of data ''year'' of
        None \<Rightarrow> Inr obj
      | Some y \<Rightarrow>
          (case get_row (\<lambda>r. y_year r = y) (years d) of
             Inl e \<Rightarrow> Inl (except_DoesNotExist (rc_response NOT_HERE (''No such year: '' @ y)) e)
           | Inr year \<Rightarrow> Inr (obj\<lparr>e_year := Some (y_id year)\<rparr>)))"

definition event_set_text :: "qdict \<Rightarrow> playa_event \<Rightarrow> playa_event" where
  "event_set_text data obj =
     fold (\<lambda>key ob. case map_of data key of None \<Rightarrow> ob | Some val \<Rightarrow> event_setattr_text key val ob)
       event_text_keys obj"

definition event_set_moderation :: "qdict \<Rightarrow> playa_event \<Rightarrow> playa_event" where
  "event_set_moderation data obj =
     (case map_of data ''moderation'' of
        None \<Rightarrow> obj
      | Some v \<Rightarrow>
          (let modkey = upper v in
           if modkey \<in> set [''U'', ''A'', ''R''] then obj\<lparr>e_moderation := modkey\<rparr> else obj))"

definition event_set_camp :: "qdict \<Rightarrow> db \<Rightarrow> playa_event \<Rightarrow> outcome + playa_event" where
  "event_set_camp data d obj =
     (case map_of data ''hosted_by_camp'' of
        None \<Rightarrow> Inr obj
      | Some key \<Rightarrow>
          (case get_pk c_id key (ThemeCamp_objects d) of
             Inl e \<Rightarrow> Inl (except_DoesNotExist (rc_response NOT_HERE (''No such camp: '' @ key)) e)
           | Inr camp \<Rightarrow> Inr (obj\<lparr>e_hosted_by_camp := c_id camp\<rparr>)))"

definition event_set_art :: "qdict \<Rightarrow> db \<Rightarrow> playa_event \<Rightarrow> outcome + playa_event" where
  "event_set_art data d obj =
     (case map_of data ''located_at_art'' of
        None \<Rightarrow> Inr obj
      | Some key \<Rightarrow>
          (case get_pk (\<lambda>a. Some (a_id a)) key (arts d) of
             Inl e \<Rightarrow> Inl (except_DoesNotExist (rc_response NOT_HERE (''No such art: '' @ key)) e)
           | Inr art \<Rightarrow> Inr (obj\<lparr>e_located_at_art := Some (a_id art)\<rparr>)))"

definition event_set_bools :: "qdict \<Rightarrow> playa_event \<Rightarrow> playa_event" where
  "event_set_bools data obj =
     fold (\<lambda>key ob. case map_of data key of None \<Rightarrow> ob | Some val \<Rightarrow> event_setattr_bool key (to_bool val) ob)
       event_bool_keys obj"

definition event_assign :: "qdict \<Rightarrow> db \<Rightarrow> playa_event \<Rightarrow> outcome + playa_event" where
  "event_assign data d obj =
     (case event_set_year data d obj of
        Inl out \<Rightarrow> Inl out
      | Inr obj1 \<Rightarrow>
          (case event_set_camp data d (event_set_moderation data (event_set_text data obj1)) of
             Inl out \<Rightarrow> Inl out
           | Inr obj2 \<Rightarrow>
               (case event_set_art data d obj2 of
                  Inl out \<Rightarrow> Inl out
                | Inr obj3 \<Rightarrow> Inr (event_set_bools data obj3))))"

definition event_create_or_update :: "request \<Rightarrow> string option \<Rightarrow> string option \<Rightarrow> db \<Rightarrow> outcome \<times> db" where
  "event_create_or_update request year_year playa_event_id d =
     (if \<not> u_api_allowed (req_user request) then
        (rc_response BAD_REQUEST ''User not permitted to use the API'', d)
      else if req_method request \<noteq> ''PUT'' \<and> req_method request \<noteq> ''POST'' then
        (rc_response BAD_REQUEST (''Bad request method: '' @ req_method request), d)
      else
        (let data = inject_year year_year (verb_data request)
         in if data = [] then (rc_response BAD_REQUEST ''Missing critical information'', d)
            else
              (case event_target request playa_event_id data d of
                 Inl out \<Rightarrow> (out, d)
               | Inr (obj, data') \<Rightarrow>
                   (case event_assign (strip_keys [''id'', ''pk''] data') d obj of
                      Inl out \<Rightarrow> (out, d)
                    | Inr obj' \<Rightarrow>
                        (case save_event obj' d of
                           Inl e \<Rightarrow> (Raised e, d)
                         | Inr (saved, d') \<Rightarrow>
                             (Response (if req_method request = ''PUT'' then ALL_OK else CREATED)
                                (PkJson (e_id saved)), d'))))))"

subsection \<open>delete\<close>

definition event_delete :: "request \<Rightarrow> string option \<Rightarrow> string option \<Rightarrow> db \<Rightarrow> outcome \<times> db" where
  "event_delete request year_year playa_event_id d =
     (if \<not> u_api_allowed (req_user request) then
        (rc_response BAD_REQUEST ''User not permitted to use the API'', d)
      else if truthy playa_event_id then
        (let pid = (case playa_event_id of None \<Rightarrow> [] | Some s \<Rightarrow> s) in
         case get_pk e_id pid (PlayaEvent_objects d) of
           Inl e \<Rightarrow> (except_DoesNotExist (rc_response NOT_HERE (''Event not found #'' @ pid)) e, d)
         | Inr obj \<Rightarrow>
             (case save_event (obj\<lparr>e_moderation := ''R''\<rparr>) d of
                Inl e \<Rightarrow> (except_DoesNotExist (rc_response NOT_HERE (''Event not found #'' @ pid)) e, d)
              | Inr (saved, d') \<Rightarrow> (rc_response DELETED (''Event rejected #'' @ pid), d')))
      else (rc_response NOT_HERE ''Event ID required'', d))"

section \<open>Theme camps: \<open>BaseThemeCampHandler\<close> and \<open>ThemeCampHandler\<close>\<close>

subsection \<open>read\<close>

text \<open>
  Every query of \<open>read\<close> goes through \<open>ThemeCamp.objects\<close> and repeats its
  \<open>list_online=True\<close>.
\<close>

definition camp_read :: "request \<Rightarrow> string option \<Rightarrow> string option \<Rightarrow> db \<Rightarrow> exn + theme_camp list" where
  "camp_read request year_year camp_id d =
     (if truthy year_year then
        (case get_row (\<lambda>y. Some (y_year y) = year_year) (years d) of
           Inl e \<Rightarrow> Inl e
         | Inr year \<Rightarrow>
             if truthy camp_id then
               (case py_int (case camp_id of None \<Rightarrow> [] | Some s \<Rightarrow> s) of
                  None \<Rightarrow> Inl ValueError
                | Some k \<Rightarrow>
                    Inr (filter (\<lambda>c. c_year c = Some (y_id year) \<and> c_id c = Some k \<and> c_list_online c)
                           (ThemeCamp_objects d)))
             else
               Inr (filter (\<lambda>c. c_year c = Some (y_id year) \<and> c_list_online c)
                      (ThemeCamp_objects d)))
      else Inr (filter c_list_online (ThemeCamp_objects d)))"

subsection \<open>_create_or_update\<close>

definition camp_setattr_text :: "string \<Rightarrow> string \<Rightarrow> theme_camp \<Rightarrow> theme_camp" where
  "camp_setattr_text key val obj =
     (if key = ''name'' then obj\<lparr>c_name := val\<rparr>
      else if key = ''description'' then obj\<lparr>c_description := Some val\<rparr>
      else if key = ''url'' then obj\<lparr>c_url := Some val\<rparr>
      else if key = ''hometown'' then obj\<lparr>c_hometown := Some val\<rparr>
      else if key = ''location_string'' then obj\<lparr>c_location_string := Some val\<rparr>
      else if key = ''slug'' then obj\<lparr>c_slug := Some val\<rparr>
      else obj)"

definition camp_setattr_bool :: "string \<Rightarrow> bool \<Rightarrow> theme_camp \<Rightarrow> theme_camp" where
  "camp_setattr_bool key val obj =
     (if key = ''list_online'' then obj\<lparr>c_list_online := val\<rparr> else obj)"

definition camp_text_keys :: "string list" where
  "camp_text_keys = [''name'', ''description'', ''url'', ''hometown'', ''location_string'', ''slug'']"

definition camp_bool_keys :: "string list" where
  "camp_bool_keys = [''list_online'']"

text \<open>
  \<open>obj.creator = user\<close> on a new camp sets an attribute that is no column of
  \<open>ThemeCamp\<close>, so nothing of it is stored.
\<close>

definition camp_target :: "request \<Rightarrow> string option \<Rightarrow> qdict \<Rightarrow> db \<Rightarrow> outcome + (theme_camp \<times> qdict)" where
  "camp_target request camp_id data d =
     (if truthy camp_id then
        (let cid = (case camp_id of None \<Rightarrow> [] | Some s \<Rightarrow> s) in
         case get_pk c_id cid (ThemeCamp_objects d) of
           Inl e \<Rightarrow> Inl (except_DoesNotExist (rc_response NOT_HERE (''ThemeCamp not found #'' @ cid)) e)
         | Inr obj \<Rightarrow> Inr (obj, if has_key data ''year'' then delitem data ''year'' else data))
      else Inr (new_ThemeCamp, data))"

definition camp_set_year :: "qdict \<Rightarrow> db \<Rightarrow> theme_camp \<Rightarrow> outcome + theme_camp" where
  "camp_set_year data d obj =
     (case map_of data ''year'' of
        None \<Rightarrow> Inr obj
      | Some y \<Rightarrow>
          (case get_row (\<lambda>r. y_year r = y) (years d) of
             Inl e \<Rightarrow> Inl (except_DoesNotExist (rc_response NOT_HERE (''No such year: '' @ y)) e)
           | Inr year \<Rightarrow> Inr (obj\<lparr>c_year := Some (y_id year)\<rparr>)))"

definition camp_set_circular_street :: "qdict \<Rightarrow> db \<Rightarrow> theme_camp \<Rightarrow> outcome + theme_camp" where
  "camp_set_circular_street data d obj =
     (case map_of data ''circular_street'' of
        None \<Rightarrow> Inr obj
      | Some key \<Rightarrow>
          (case get_pk (\<lambda>r. Some (cs_id r)) key (circular_streets d) of
             Inl e \<Rightarrow> Inl (except_DoesNotExist (rc_response NOT_HERE (''No such CircularStreet: '' @ key)) e)
           | Inr street \<Rightarrow> Inr (obj\<lparr>c_circular_street := Some (cs_id street)\<rparr>)))"

text \<open>
  \<open>ThemeCamp\<close> has no \<open>time_street\<close> column: a street that resolves is assigned to an
  attribute that \<open>save\<close> does not store, one that does not resolve ends the call.
\<close>

definition camp_set_time_street :: "qdict \<Rightarrow> db \<Rightarrow> theme_camp \<Rightarrow> outcome + theme_camp" where
  "camp_set_time_street data d obj =
     (case map_of data ''time_street'' of
        None \<Rightarrow> Inr obj
      | Some key \<Rightarrow>
          (case get_pk (\<lambda>r. Some (ts_id r)) key (time_streets d) of
             Inl e \<Rightarrow> Inl (except_DoesNotExist (rc_response NOT_HERE (''No such TimeStreet: '' @ key)) e)
           | Inr street \<Rightarrow> Inr obj))"

definition camp_set_text :: "qdict \<Rightarrow> theme_camp \<Rightarrow> theme_camp" where
  "camp_set_text data obj =
     fold (\<lambda>key ob. case map_of data key of None \<Rightarrow> ob | Some val \<Rightarrow> camp_setattr_text key val ob)
       camp_text_keys obj"

definition camp_set_bools :: "qdict \<Rightarrow> theme_camp \<Rightarrow> theme_camp" where
  "camp_set_bools data obj =
     fold (\<lambda>key ob. case map_of data key of None \<Rightarrow> ob | Some val \<Rightarrow> camp_setattr_bool key (to_bool val) ob)
       camp_bool_keys obj"

definition camp_assign :: "qdict \<Rightarrow> db \<Rightarrow> theme_camp \<Rightarrow> outcome + theme_camp" where
  "camp_assign data d obj =
     (case camp_set_year data d obj of
        Inl out \<Rightarrow> Inl out
      | Inr obj1 \<Rightarrow>
          (case camp_set_circular_street data d obj1 of
             Inl out \<Rightarrow> Inl out
           | Inr obj2 \<Rightarrow>
               (case camp_set_time_street data d obj2 of
                  Inl out \<Rightarrow> Inl out
                | Inr obj3 \<Rightarrow> Inr (camp_set_bools data (camp_set_text data obj3)))))"

definition camp_create_or_update :: "request \<Rightarrow> string option \<Rightarrow> string option \<Rightarrow> db \<Rightarrow> outcome \<times> db" where
  "camp_create_or_update request year_year camp_id d =
     (if \<not> u_api_allowed (req_user request) then
        (rc_response BAD_REQUEST ''User not permitted to use the API'', d)
      else if req_method request \<noteq> ''PUT'' \<and> req_method request \<noteq> ''POST'' then
        (rc_response BAD_REQUEST (''Bad request method: '' @ req_method request), d)
      else
        (let data = inject_year year_year (verb_data request)
         in if data = [] then (rc_response BAD_REQUEST ''Missing critical information'', d)
            else
              (case camp_target request camp_id data d of
                 Inl out \<Rightarrow> (out, d)
               | Inr (obj, data') \<Rightarrow>
                   (case camp_assign (strip_keys [''id'', ''pk'', ''bm_fm_id'', ''deleted''] data') d obj of
                      Inl out \<Rightarrow> (out, d)
                    | Inr obj' \<Rightarrow>
                        (case save_camp obj' d of
                           Inl e \<Rightarrow> (Raised e, d)
                         | Inr (saved, d') \<Rightarrow>
                             (Response (if req_method request = ''PUT'' then ALL_OK else CREATED)
                                (PkJson (c_id saved)), d'))))))"

subsection \<open>delete\<close>

definition camp_delete :: "request \<Rightarrow> string option \<Rightarrow> string option \<Rightarrow> db \<Rightarrow> outcome \<times> db" where
  "camp_delete request year_year camp_id d =
     (if \<not> u_api_allowed (req_user request) then
        (rc_response BAD_REQUEST ''User not permitted to use the API'', d)
      else if truthy camp_id then
        (let cid = (case camp_id of None \<Rightarrow> [] | Some s \<Rightarrow> s) in
         case get_pk c_id cid (ThemeCamp_objects d) of
           Inl e \<Rightarrow> (except_DoesNotExist (rc_response NOT_HERE (''Camp not found #'' @ cid)) e, d)
         | Inr obj \<Rightarrow>
             (case save_camp (obj\<lparr>c_deleted := Some True\<rparr>) d of
                Inl e \<Rightarrow> (except_DoesNotExist (rc_response NOT_HERE (''Camp not found #'' @ cid)) e, d)
              | Inr (saved, d') \<Rightarrow> (rc_response DELETED (''Camp deleted #'' @ cid), d')))
      else (rc_response NOT_HERE ''Camp ID required'', d))"

section \<open>The cached listings: \<open>get_and_cache\<close> (models.py)\<close>

text \<open>
  Modelled from the spec: \<open>cache_key\<close>, \<open>cache_get\<close> and \<open>cache_set\<close> come from the
  \<open>keyedcache\<close> library, which is not among the sources. Sections 4.1 and 6 of the
  specification give their contract: a deterministic key built from the entity kind and
  the sorted query parameters; \<open>get\<close> and \<open>set\<close> with a time to live, where \<open>get\<close>
  raises a distinguishable not-found condition on a miss. The cache maps a key to the
  stored value and the time at which the entry expires; the clock counts seconds.
\<close>

datatype cache_error = NotCachedError

type_synonym kwargs = "(string \<times> string) list"

type_synonym cache_key = "string list"

type_synonym 'v cache = "cache_key \<Rightarrow> ('v \<times> nat) option"

definition cache_key :: "string \<Rightarrow> string \<Rightarrow> kwargs \<Rightarrow> cache_key" where
  "cache_key kind tag pairs = kind # tag # concat (map (\<lambda>(k, v). [k, v]) (sort_key fst pairs))"

definition cache_get :: "'v cache \<Rightarrow> nat \<Rightarrow> cache_key \<Rightarrow> cache_error + 'v" where
  "cache_get c now key =
     (case c key of
        None \<Rightarrow> Inl NotCachedError
      | Some (v, expires) \<Rightarrow> if now < expires then Inr v else Inl NotCachedError)"

definition cache_set :: "'v cache \<Rightarrow> nat \<Rightarrow> cache_key \<Rightarrow> 'v \<Rightarrow> nat \<Rightarrow> 'v cache" where
  "cache_set c now key val seconds = c(key \<mapsto> (val, now + seconds))"

text \<open>
  The three \<open>get_and_cache\<close> methods have the same body and differ in the kind of the
  key and in the manager they query. \<open>base\<close> is the manager's query set
  (\<open>self.all()\<close>), \<open>matches\<close> is Django's reading of the keyword arguments as a row
  filter (\<open>self.filter(**kwargs)\<close>), \<open>now\<close> is the time of the call. The result is the
  returned list and the cache after the call.
\<close>

definition get_and_cache :: "string \<Rightarrow> (kwargs \<Rightarrow> 'a \<Rightarrow> bool) \<Rightarrow> 'a list \<Rightarrow> kwargs \<Rightarrow> nat \<Rightarrow> 'a list cache \<Rightarrow> 'a list \<times> 'a list cache" where
  "get_and_cache kind matches base kw now c =
     (let key = cache_key kind ''all'' kw in
      case cache_get c now key of
        Inr results \<Rightarrow> (results, c)
      | Inl NotCachedError \<Rightarrow>
          (let results = (if kw \<noteq> [] then filter (matches kw) base else base)
           in (results, cache_set c now key results (60 * 60 * 24))))"

definition PlayaEventManager_get_and_cache :: "(kwargs \<Rightarrow> playa_event \<Rightarrow> bool) \<Rightarrow> db \<Rightarrow> kwargs \<Rightarrow> nat \<Rightarrow> playa_event list cache \<Rightarrow> playa_event list \<times> playa_event list cache" where
  "PlayaEventManager_get_and_cache matches d = get_and_cache ''PlayaEvent'' matches (PlayaEvent_objects d)"

definition ThemeCampManager_get_and_cache :: "(kwargs \<Rightarrow> theme_camp \<Rightarrow> bool) \<Rightarrow> db \<Rightarrow> kwargs \<Rightarrow> nat \<Rightarrow> theme_camp list cache \<Rightarrow> theme_camp list \<times> theme_camp list cache" where
  "ThemeCampManager_get_and_cache matches d = get_and_cache ''ThemeCamp'' matches (ThemeCamp_objects d)"

definition ThemeCampAllManager_get_and_cache :: "(kwargs \<Rightarrow> theme_camp \<Rightarrow> bool) \<Rightarrow> db \<Rightarrow> kwargs \<Rightarrow> nat \<Rightarrow> theme_camp list cache \<Rightarrow> theme_camp list \<times> theme_camp list cache" where
  "ThemeCampAllManager_get_and_cache matches d = get_and_cache ''ThemeCampAll'' matches (ThemeCamp_all_objects d)"

section \<open>Requests that differ in the text of the moderation field\<close>

text \<open>
  Used to state that the answer of a write does not depend on what the \<open>moderation\<close>
  field says: the field map, and the request, with that text replaced by \<open>v\<close>.
\<close>

definition with_moderation :: "string \<Rightarrow> qdict \<Rightarrow> qdict" where
  "with_moderation v data = map (\<lambda>kv. if fst kv = ''moderation'' then (fst kv, v) else kv) data"

definition request_with_moderation :: "string \<Rightarrow> request \<Rightarrow> request" where
  "request_with_moderation v request =
     request\<lparr>req_PUT := with_moderation v (req_PUT request),
             req_POST := with_moderation v (req_POST request)\<rparr>"

section \<open>Example data\<close>

text \<open>
  A small database used to run the handlers on concrete requests: two years, three events
  of 2012 (one accepted and listed, one rejected, one accepted but not listed online),
  each with one occurrence, and two camps of 2012 (one listed online, one not).
\<close>

definition demo_years :: "year list" where
  "demo_years =
     [\<lparr>y_id = 1, y_year = ''2012'', y_location = ''Black Rock City'', y_theme = Some ''Fertility 2.0''\<rparr>,
      \<lparr>y_id = 2, y_year = ''2011'', y_location = ''Black Rock City'', y_theme = Some ''Rites of Passage''\<rparr>]"

definition accepted_event :: playa_event where
  "accepted_event =
     \<lparr>e_id = Some 7, e_year = Some 1, e_title = ''Acro Yoga'', e_event_type = Some 1,
      e_print_description = [], e_slug = ''acro-yoga'', e_hosted_by_camp = None,
      e_located_at_art = None, e_other_location = None, e_check_location = None,
      e_url = None, e_contact_email = None, e_all_day = Some False, e_list_online = Some True,
      e_list_contact_online = None, e_creator = Some 9, e_moderation = ''A''\<rparr>"

definition rejected_event :: playa_event where
  "rejected_event = accepted_event\<lparr>e_id := Some 8, e_title := ''Noise Night'', e_moderation := ''R''\<rparr>"

definition unlisted_event :: playa_event where
  "unlisted_event = accepted_event\<lparr>e_id := Some 9, e_title := ''Sunset Crew Dinner'', e_list_online := Some False\<rparr>"

definition listed_camp :: theme_camp where
  "listed_camp =
     \<lparr>c_id = Some 3, c_year = Some 1, c_name = ''Camp Open'', c_slug = None, c_description = None,
      c_url = None, c_hometown = None, c_location_string = None, c_list_online = True,
      c_circular_street = None, c_bm_fm_id = None, c_deleted = Some False\<rparr>"

definition hidden_camp :: theme_camp where
  "hidden_camp = listed_camp\<lparr>c_id := Some 4, c_name := ''Camp Quiet'', c_list_online := False\<rparr>"

definition demo_db :: db where
  "demo_db =
     \<lparr>years = demo_years, circular_streets = [], time_streets = [], arts = [],
      event_types = [\<lparr>et_id = 1, et_abbr = ''WS''\<rparr>],
      occurrences =
        [\<lparr>o_event = 7, o_start_time = 10, o_end_time = 20\<rparr>,
         \<lparr>o_event = 8, o_start_time = 12, o_end_time = 18\<rparr>,
         \<lparr>o_event = 9, o_start_time = 30, o_end_time = 40\<rparr>],
      camps = [listed_camp, hidden_camp],
      events = [accepted_event, rejected_event, unlisted_event]\<rparr>"

definition demo_request :: request where
  "demo_request =
     \<lparr>req_user = \<lparr>u_id = 9, u_api_allowed = True\<rparr>, req_method = ''PUT'',
      req_PUT = [], req_POST = [], req_start_time = None, req_end_time = None\<rparr>"

text \<open>
  Keyword arguments of \<open>filter\<close> used in the examples: a pair \<open>field=value\<close> keeps the
  rows whose field has exactly that value. The examples filter events on \<open>moderation\<close>
  and camps on \<open>name\<close>; they use no other keyword.
\<close>

definition event_kwargs :: "kwargs \<Rightarrow> playa_event \<Rightarrow> bool" where
  "event_kwargs kw e =
     list_all (\<lambda>kv. if fst kv = ''moderation'' then e_moderation e = snd kv else True) kw"

definition camp_kwargs :: "kwargs \<Rightarrow> theme_camp \<Rightarrow> bool" where
  "camp_kwargs kw c =
     list_all (\<lambda>kv. if fst kv = ''name'' then c_name c = snd kv else True) kw"

section \<open>Auxiliary facts\<close>

subsection \<open>Field maps\<close>

lemma map_of_delitem: "map_of (delitem data k) k' = (if k' = k then None else map_of data k')"
  by (induction data) (auto simp: delitem_def)

lemma has_key_delitem: "has_key (delitem data k) k' = (k' \<noteq> k \<and> has_key data k')"
  by (simp add: has_key_def map_of_delitem)

lemma map_of_setitem: "map_of (setitem data k v) k' = (if k' = k then Some v else map_of data k')"
  by (simp add: setitem_def map_of_delitem)

lemma map_of_strip_keys: "map_of (strip_keys ks data) k = (if k \<in> set ks then None else map_of data k)"
proof (induction ks arbitrary: data)
  case Nil
  then show ?case by (simp add: strip_keys_def)
next
  case (Cons a ks)
  have step: "strip_keys (a # ks) data = strip_keys ks (if has_key data a then delitem data a else data)"
    by (simp add: strip_keys_def)
  show ?case
    unfolding step using Cons.IH
    by (auto simp: map_of_delitem has_key_def)
qed

lemma map_of_inject_year: "k \<noteq> ''year'' \<Longrightarrow> map_of (inject_year yy data) k = map_of data k"
  by (simp add: inject_year_def map_of_setitem split: option.splits)

subsection \<open>Queries\<close>

lemma get_row_Inr: "get_row P rows = Inr r \<longleftrightarrow> filter P rows = [r]"
  by (auto simp: get_row_def split: list.splits)

lemma get_row_DoesNotExist: "get_row P rows = Inl DoesNotExist \<longleftrightarrow> filter P rows = []"
  by (auto simp: get_row_def split: list.splits)

lemma filter_single_mem: "filter P rows = [r] \<Longrightarrow> r \<in> set rows \<and> P r"
proof -
  assume h: "filter P rows = [r]"
  have "r \<in> set (filter P rows)" by (simp add: h)
  then show ?thesis by simp
qed

lemma filter_single_unique: "filter P rows = [r] \<Longrightarrow> x \<in> set rows \<Longrightarrow> P x \<Longrightarrow> x = r"
proof -
  assume h: "filter P rows = [r]" and x: "x \<in> set rows" "P x"
  from x have "x \<in> set (filter P rows)" by simp
  then show ?thesis by (simp add: h)
qed

lemma py_int_Nil: "py_int [] = None"
  by (simp add: py_int_def strip_def)

subsection \<open>Outcomes\<close>

lemma except_not_success: "\<not> is_success (except_DoesNotExist (rc_response NOT_HERE msg) e)"
  by (simp add: except_DoesNotExist_def rc_response_def is_success_def)

lemma Raised_not_success: "\<not> is_success (Raised e)"
  by (simp add: is_success_def)

lemma event_target_Inl: "event_target request pid data d = Inl out \<Longrightarrow> \<not> is_success out"
  by (auto simp: event_target_def Let_def except_not_success Raised_not_success
      split: if_splits sum.splits option.splits)

lemma event_set_year_Inl: "event_set_year data d obj = Inl out \<Longrightarrow> \<not> is_success out"
  by (auto simp: event_set_year_def except_not_success split: sum.splits option.splits)

lemma event_set_camp_Inl: "event_set_camp data d obj = Inl out \<Longrightarrow> \<not> is_success out"
  by (auto simp: event_set_camp_def except_not_success split: sum.splits option.splits)

lemma event_set_art_Inl: "event_set_art data d obj = Inl out \<Longrightarrow> \<not> is_success out"
  by (auto simp: event_set_art_def except_not_success split: sum.splits option.splits)

lemma event_assign_Inl: "event_assign data d obj = Inl out \<Longrightarrow> \<not> is_success out"
  by (auto simp: event_assign_def split: sum.splits
      dest: event_set_year_Inl event_set_camp_Inl event_set_art_Inl)

lemma event_write_cases:
  assumes "event_create_or_update request year_year playa_event_id d = (out, d')"
  shows "(d' = d \<and> \<not> is_success out)
         \<or> (\<exists>obj data obj' saved.
               event_target request playa_event_id (inject_year year_year (verb_data request)) d = Inr (obj, data)
             \<and> event_assign (strip_keys [''id'', ''pk''] data) d obj = Inr obj'
             \<and> save_event obj' d = Inr (saved, d')
             \<and> out = Response (if req_method request = ''PUT'' then ALL_OK else CREATED) (PkJson (e_id saved)))"
  using assms unfolding event_create_or_update_def Let_def
  by (auto simp: rc_response_def is_success_def Raised_not_success
      split: if_splits sum.splits prod.splits dest: event_target_Inl event_assign_Inl)


subsection \<open>Targets\<close>

lemma event_target_update:
  assumes "truthy playa_event_id"
    and "event_target request playa_event_id data d = Inr (obj, data')"
  shows "\<exists>pid k. playa_event_id = Some pid \<and> py_int pid = Some k
           \<and> filter (\<lambda>r. e_id r = Some k) (events d) = [obj]
           \<and> data' = (if has_key data ''year'' then delitem data ''year'' else data)"
  using assms
  by (cases playa_event_id)
     (auto simp: event_target_def get_pk_def get_row_Inr PlayaEvent_objects_def
       split: sum.splits option.splits if_splits)

lemma event_target_create:
  assumes "\<not> truthy playa_event_id"
    and "event_target request playa_event_id data d = Inr (obj, data')"
  shows "data' = data
         \<and> obj = new_PlayaEvent\<lparr>e_event_type := e_event_type obj, e_creator := Some (u_id (req_user request))\<rparr>"
  using assms
  by (auto simp: event_target_def Let_def split: sum.splits option.splits)

subsection \<open>Field assignments\<close>

lemma event_set_year_None:
  "event_set_year data d obj = Inr obj' \<Longrightarrow> map_of data ''year'' = None \<Longrightarrow> obj' = obj"
  by (simp add: event_set_year_def)

lemma event_set_year_Inr:
  assumes "event_set_year data d obj = Inr obj'"
  shows "\<exists>x. obj' = obj\<lparr>e_year := x\<rparr>"
proof (cases "map_of data ''year''")
  case None
  with assms have "obj' = obj" by (simp add: event_set_year_def)
  then have "obj' = obj\<lparr>e_year := e_year obj\<rparr>" by simp
  then show ?thesis ..
next
  case (Some y)
  with assms show ?thesis by (auto simp: event_set_year_def split: sum.splits)
qed

lemma event_set_camp_Inr:
  assumes "event_set_camp data d obj = Inr obj'"
  shows "\<exists>x. obj' = obj\<lparr>e_hosted_by_camp := x\<rparr>"
proof (cases "map_of data ''hosted_by_camp''")
  case None
  with assms have "obj' = obj" by (simp add: event_set_camp_def)
  then have "obj' = obj\<lparr>e_hosted_by_camp := e_hosted_by_camp obj\<rparr>" by simp
  then show ?thesis ..
next
  case (Some key)
  with assms show ?thesis by (auto simp: event_set_camp_def split: sum.splits)
qed

lemma event_set_art_Inr:
  assumes "event_set_art data d obj = Inr obj'"
  shows "\<exists>x. obj' = obj\<lparr>e_located_at_art := x\<rparr>"
proof (cases "map_of data ''located_at_art''")
  case None
  with assms have "obj' = obj" by (simp add: event_set_art_def)
  then have "obj' = obj\<lparr>e_located_at_art := e_located_at_art obj\<rparr>" by simp
  then show ?thesis ..
next
  case (Some key)
  with assms show ?thesis by (auto simp: event_set_art_def split: sum.splits)
qed

lemma event_set_year_frame:
  assumes "event_set_year data d obj = Inr obj'"
  shows "e_id obj' = e_id obj"
    and "e_moderation obj' = e_moderation obj"
    and "event_getattr_bool key obj' = event_getattr_bool key obj"
proof -
  from event_set_year_Inr [OF assms] obtain x where eq: "obj' = obj\<lparr>e_year := x\<rparr>"
    by blast
  show "e_id obj' = e_id obj" "e_moderation obj' = e_moderation obj"
    "event_getattr_bool key obj' = event_getattr_bool key obj"
    by (simp_all add: eq event_getattr_bool_def)
qed

lemma event_set_camp_frame:
  assumes "event_set_camp data d obj = Inr obj'"
  shows "e_id obj' = e_id obj"
    and "e_year obj' = e_year obj"
    and "e_moderation obj' = e_moderation obj"
    and "event_getattr_bool key obj' = event_getattr_bool key obj"
proof -
  from event_set_camp_Inr [OF assms] obtain x where eq: "obj' = obj\<lparr>e_hosted_by_camp := x\<rparr>"
    by blast
  show "e_id obj' = e_id obj" "e_year obj' = e_year obj" "e_moderation obj' = e_moderation obj"
    "event_getattr_bool key obj' = event_getattr_bool key obj"
    by (simp_all add: eq event_getattr_bool_def)
qed

lemma event_set_art_frame:
  assumes "event_set_art data d obj = Inr obj'"
  shows "e_id obj' = e_id obj"
    and "e_year obj' = e_year obj"
    and "e_moderation obj' = e_moderation obj"
    and "event_getattr_bool key obj' = event_getattr_bool key obj"
proof -
  from event_set_art_Inr [OF assms] obtain x where eq: "obj' = obj\<lparr>e_located_at_art := x\<rparr>"
    by blast
  show "e_id obj' = e_id obj" "e_year obj' = e_year obj" "e_moderation obj' = e_moderation obj"
    "event_getattr_bool key obj' = event_getattr_bool key obj"
    by (simp_all add: eq event_getattr_bool_def)
qed

lemma event_set_text_frame:
  "e_id (event_set_text data obj) = e_id obj"
  "e_year (event_set_text data obj) = e_year obj"
  "e_moderation (event_set_text data obj) = e_moderation obj"
  "event_getattr_bool key (event_set_text data obj) = event_getattr_bool key obj"
  by (simp_all add: event_set_text_def event_text_keys_def event_setattr_text_def
      event_getattr_bool_def split: option.split)

lemma event_set_moderation_frame:
  "e_id (event_set_moderation data obj) = e_id obj"
  "e_year (event_set_moderation data obj) = e_year obj"
  "event_getattr_bool key (event_set_moderation data obj) = event_getattr_bool key obj"
  by (simp_all add: event_set_moderation_def Let_def event_getattr_bool_def split: option.split)

lemma event_set_bools_frame:
  "e_id (event_set_bools data obj) = e_id obj"
  "e_year (event_set_bools data obj) = e_year obj"
  "e_moderation (event_set_bools data obj) = e_moderation obj"
  by (simp_all add: event_set_bools_def event_bool_keys_def event_setattr_bool_def
      split: option.split)

lemma event_set_bools_value:
  assumes "key \<in> set event_bool_keys"
  shows "event_getattr_bool key (event_set_bools data obj) =
           (case map_of data key of
              None \<Rightarrow> event_getattr_bool key obj
            | Some val \<Rightarrow> Some (to_bool val))"
  using assms
  by (auto simp: event_set_bools_def event_bool_keys_def event_setattr_bool_def
      event_getattr_bool_def split: option.split)


lemma event_set_moderation_value:
  "e_moderation (event_set_moderation data obj) =
     (case map_of data ''moderation'' of
        None \<Rightarrow> e_moderation obj
      | Some v \<Rightarrow> if upper v \<in> set [''U'', ''A'', ''R''] then upper v else e_moderation obj)"
  by (simp add: event_set_moderation_def Let_def split: option.split)

lemma event_assign_Inr:
  assumes "event_assign data d obj = Inr obj'"
  shows "e_id obj' = e_id obj"
    and "map_of data ''year'' = None \<Longrightarrow> e_year obj' = e_year obj"
    and "e_moderation obj' =
           (case map_of data ''moderation'' of
              None \<Rightarrow> e_moderation obj
            | Some v \<Rightarrow> if upper v \<in> set [''U'', ''A'', ''R''] then upper v else e_moderation obj)"
    and "key \<in> set event_bool_keys \<Longrightarrow>
           event_getattr_bool key obj' =
             (case map_of data key of
                None \<Rightarrow> event_getattr_bool key obj
              | Some val \<Rightarrow> Some (to_bool val))"
proof -
  from assms obtain obj1 obj2 obj3 where
    y: "event_set_year data d obj = Inr obj1" and
    c: "event_set_camp data d (event_set_moderation data (event_set_text data obj1)) = Inr obj2" and
    a: "event_set_art data d obj2 = Inr obj3" and
    b: "obj' = event_set_bools data obj3"
    by (auto simp: event_assign_def split: sum.splits)
  note y' = event_set_year_frame [OF y] and c' = event_set_camp_frame [OF c]
    and a' = event_set_art_frame [OF a]
  show "e_id obj' = e_id obj"
    by (simp add: b event_set_bools_frame a' c' y' event_set_moderation_frame event_set_text_frame)
  show "e_year obj' = e_year obj" if "map_of data ''year'' = None"
    using event_set_year_None [OF y that]
    by (simp add: b event_set_bools_frame a' c' event_set_moderation_frame event_set_text_frame)
  show "e_moderation obj' =
          (case map_of data ''moderation'' of
             None \<Rightarrow> e_moderation obj
           | Some v \<Rightarrow> if upper v \<in> set [''U'', ''A'', ''R''] then upper v else e_moderation obj)"
    by (simp only: b event_set_bools_frame a' c' event_set_moderation_value event_set_text_frame y')
  show "event_getattr_bool key obj' =
          (case map_of data key of None \<Rightarrow> event_getattr_bool key obj | Some val \<Rightarrow> Some (to_bool val))"
    if "key \<in> set event_bool_keys"
    by (simp only: b event_set_bools_value [OF that] a' c' event_set_moderation_frame
        event_set_text_frame y')
qed

subsection \<open>Saving\<close>

lemma fold_max_pk_ge:
  "acc \<le> fold (\<lambda>pk m. case pk of None \<Rightarrow> m | Some k \<Rightarrow> max m k) pks (acc :: int)"
proof (induction pks arbitrary: acc)
  case Nil
  show ?case by simp
next
  case (Cons p pks)
  show ?case
  proof (cases p)
    case None
    then show ?thesis using Cons.IH [of acc] by simp
  next
    case (Some k)
    then show ?thesis using Cons.IH [of "max acc k"] by simp
  qed
qed

lemma fold_max_pk_mem:
  "Some k \<in> set pks \<Longrightarrow> k \<le> fold (\<lambda>pk m. case pk of None \<Rightarrow> m | Some k \<Rightarrow> max m k) pks (acc :: int)"
proof (induction pks arbitrary: acc)
  case Nil
  then show ?case by simp
next
  case (Cons p pks)
  show ?case
  proof (cases "p = Some k")
    case True
    have "max acc k \<le> fold (\<lambda>pk m. case pk of None \<Rightarrow> m | Some k \<Rightarrow> max m k) pks (max acc k)"
      by (rule fold_max_pk_ge)
    with True show ?thesis by simp
  next
    case False
    with Cons.prems have "Some k \<in> set pks" by simp
    from Cons.IH [OF this] show ?thesis by (cases p) simp_all
  qed
qed

lemma next_pk_fresh: "Some k \<in> set pks \<Longrightarrow> k < next_pk pks"
  using fold_max_pk_mem [of k pks 0] by (simp add: next_pk_def)

lemma filter_replace:
  "P obj' \<Longrightarrow> filter P (map (\<lambda>r. if P r then obj' else r) rows) = map (\<lambda>r. obj') (filter P rows)"
  by (induction rows) auto

lemma save_rows_update:
  assumes "pk obj' = Some k" and "filter (\<lambda>r. pk r = Some k) rows = [obj]"
  shows "save_rows pk set_pk obj' rows = (obj', map (\<lambda>r. if pk r = Some k then obj' else r) rows)"
    and "filter (\<lambda>r. pk r = Some k) (map (\<lambda>r. if pk r = Some k then obj' else r) rows) = [obj']"
proof -
  show "save_rows pk set_pk obj' rows = (obj', map (\<lambda>r. if pk r = Some k then obj' else r) rows)"
    by (simp add: save_rows_def assms)
  show "filter (\<lambda>r. pk r = Some k) (map (\<lambda>r. if pk r = Some k then obj' else r) rows) = [obj']"
    using filter_replace [of "\<lambda>r. pk r = Some k" obj' rows] assms by simp
qed

lemma save_rows_insert:
  assumes "pk obj' = None" and "pk (set_pk (next_pk (map pk rows)) obj') = Some (next_pk (map pk rows))"
  shows "save_rows pk set_pk obj' rows =
           (set_pk (next_pk (map pk rows)) obj', rows @ [set_pk (next_pk (map pk rows)) obj'])"
    and "filter (\<lambda>r. pk r = Some (next_pk (map pk rows))) (rows @ [set_pk (next_pk (map pk rows)) obj'])
           = [set_pk (next_pk (map pk rows)) obj']"
    and "filter (\<lambda>r. pk r = Some (next_pk (map pk rows))) rows = []"
proof -
  show "save_rows pk set_pk obj' rows =
           (set_pk (next_pk (map pk rows)) obj', rows @ [set_pk (next_pk (map pk rows)) obj'])"
    by (simp add: save_rows_def assms Let_def)
  have fresh: "pk r \<noteq> Some (next_pk (map pk rows))" if "r \<in> set rows" for r
  proof
    assume "pk r = Some (next_pk (map pk rows))"
    with that have "Some (next_pk (map pk rows)) \<in> set (map pk rows)" by force
    from next_pk_fresh [OF this] show False by simp
  qed
  then show none: "filter (\<lambda>r. pk r = Some (next_pk (map pk rows))) rows = []"
    by (simp add: filter_empty_conv)
  show "filter (\<lambda>r. pk r = Some (next_pk (map pk rows))) (rows @ [set_pk (next_pk (map pk rows)) obj'])
           = [set_pk (next_pk (map pk rows)) obj']"
    by (simp add: none assms)
qed

subsection \<open>Outcomes of the camp handler\<close>

lemma camp_target_Inl: "camp_target request cid data d = Inl out \<Longrightarrow> \<not> is_success out"
  by (auto simp: camp_target_def Let_def except_not_success split: if_splits sum.splits)

lemma camp_set_year_Inl: "camp_set_year data d obj = Inl out \<Longrightarrow> \<not> is_success out"
  by (auto simp: camp_set_year_def except_not_success split: sum.splits option.splits)

lemma camp_set_circular_street_Inl: "camp_set_circular_street data d obj = Inl out \<Longrightarrow> \<not> is_success out"
  by (auto simp: camp_set_circular_street_def except_not_success split: sum.splits option.splits)

lemma camp_set_time_street_Inl: "camp_set_time_street data d obj = Inl out \<Longrightarrow> \<not> is_success out"
  by (auto simp: camp_set_time_street_def except_not_success split: sum.splits option.splits)

lemma camp_assign_Inl: "camp_assign data d obj = Inl out \<Longrightarrow> \<not> is_success out"
  by (auto simp: camp_assign_def split: sum.splits
      dest: camp_set_year_Inl camp_set_circular_street_Inl camp_set_time_street_Inl)

lemma camp_write_cases:
  assumes "camp_create_or_update request year_year camp_id d = (out, d')"
  shows "(d' = d \<and> \<not> is_success out)
         \<or> (\<exists>obj data obj' saved.
               camp_target request camp_id (inject_year year_year (verb_data request)) d = Inr (obj, data)
             \<and> camp_assign (strip_keys [''id'', ''pk'', ''bm_fm_id'', ''deleted''] data) d obj = Inr obj'
             \<and> save_camp obj' d = Inr (saved, d')
             \<and> out = Response (if req_method request = ''PUT'' then ALL_OK else CREATED) (PkJson (c_id saved)))"
  using assms unfolding camp_create_or_update_def Let_def
  by (auto simp: rc_response_def is_success_def Raised_not_success
      split: if_splits sum.splits prod.splits dest: camp_target_Inl camp_assign_Inl)

subsection \<open>Targets and field assignments of the camp handler\<close>

lemma camp_target_update:
  assumes "truthy camp_id"
    and "camp_target request camp_id data d = Inr (obj, data')"
  shows "\<exists>cid k. camp_id = Some cid \<and> py_int cid = Some k
           \<and> filter (\<lambda>r. c_id r = Some k) (ThemeCamp_objects d) = [obj]
           \<and> data' = (if has_key data ''year'' then delitem data ''year'' else data)"
  using assms
  by (cases camp_id)
     (auto simp: camp_target_def get_pk_def get_row_Inr split: sum.splits option.splits if_splits)

lemma camp_target_create:
  assumes "\<not> truthy camp_id"
    and "camp_target request camp_id data d = Inr (obj, data')"
  shows "data' = data \<and> obj = new_ThemeCamp"
  using assms
  by (auto simp: camp_target_def)

lemma camp_set_year_None:
  "camp_set_year data d obj = Inr obj' \<Longrightarrow> map_of data ''year'' = None \<Longrightarrow> obj' = obj"
  by (simp add: camp_set_year_def)

lemma camp_set_year_Inr:
  assumes "camp_set_year data d obj = Inr obj'"
  shows "\<exists>x. obj' = obj\<lparr>c_year := x\<rparr>"
proof (cases "map_of data ''year''")
  case None
  with assms have "obj' = obj" by (simp add: camp_set_year_def)
  then have "obj' = obj\<lparr>c_year := c_year obj\<rparr>" by simp
  then show ?thesis ..
next
  case (Some y)
  with assms show ?thesis by (auto simp: camp_set_year_def split: sum.splits)
qed

lemma camp_set_circular_street_Inr:
  assumes "camp_set_circular_street data d obj = Inr obj'"
  shows "\<exists>x. obj' = obj\<lparr>c_circular_street := x\<rparr>"
proof (cases "map_of data ''circular_street''")
  case None
  with assms have "obj' = obj" by (simp add: camp_set_circular_street_def)
  then have "obj' = obj\<lparr>c_circular_street := c_circular_street obj\<rparr>" by simp
  then show ?thesis ..
next
  case (Some key)
  with assms show ?thesis by (auto simp: camp_set_circular_street_def split: sum.splits)
qed

lemma camp_set_time_street_Inr:
  "camp_set_time_street data d obj = Inr obj' \<Longrightarrow> obj' = obj"
  by (auto simp: camp_set_time_street_def split: sum.splits option.splits)

lemma camp_set_text_frame:
  "c_id (camp_set_text data obj) = c_id obj"
  "c_year (camp_set_text data obj) = c_year obj"
  "c_list_online (camp_set_text data obj) = c_list_online obj"
  by (simp_all add: camp_set_text_def camp_text_keys_def camp_setattr_text_def split: option.split)

lemma camp_set_bools_frame:
  "c_id (camp_set_bools data obj) = c_id obj"
  "c_year (camp_set_bools data obj) = c_year obj"
  "c_list_online (camp_set_bools data obj) =
     (case map_of data ''list_online'' of None \<Rightarrow> c_list_online obj | Some val \<Rightarrow> to_bool val)"
  by (simp_all add: camp_set_bools_def camp_bool_keys_def camp_setattr_bool_def split: option.split)

lemma camp_assign_Inr:
  assumes "camp_assign data d obj = Inr obj'"
  shows "c_id obj' = c_id obj"
    and "map_of data ''year'' = None \<Longrightarrow> c_year obj' = c_year obj"
    and "c_list_online obj' =
           (case map_of data ''list_online'' of None \<Rightarrow> c_list_online obj | Some val \<Rightarrow> to_bool val)"
proof -
  from assms obtain obj1 obj2 obj3 where
    y: "camp_set_year data d obj = Inr obj1" and
    c: "camp_set_circular_street data d obj1 = Inr obj2" and
    t: "camp_set_time_street data d obj2 = Inr obj3" and
    b: "obj' = camp_set_bools data (camp_set_text data obj3)"
    by (auto simp: camp_assign_def split: sum.splits)
  from camp_set_year_Inr [OF y] obtain x where y': "obj1 = obj\<lparr>c_year := x\<rparr>"
    by blast
  from camp_set_circular_street_Inr [OF c] obtain s where c': "obj2 = obj1\<lparr>c_circular_street := s\<rparr>"
    by blast
  note t' = camp_set_time_street_Inr [OF t]
  show "c_id obj' = c_id obj"
    by (simp add: b t' c' y' camp_set_bools_frame camp_set_text_frame)
  show "c_year obj' = c_year obj" if "map_of data ''year'' = None"
    using camp_set_year_None [OF y that]
    by (simp add: b t' c' camp_set_bools_frame camp_set_text_frame)
  show "c_list_online obj' =
          (case map_of data ''list_online'' of None \<Rightarrow> c_list_online obj | Some val \<Rightarrow> to_bool val)"
    by (simp add: b t' c' y' camp_set_bools_frame camp_set_text_frame split: option.split)
qed

subsection \<open>Saving an event or a camp\<close>

lemma map_replace_same:
  assumes "\<And>r. r \<in> set rows \<Longrightarrow> P r \<Longrightarrow> f obj' = f r"
  shows "map f (map (\<lambda>r. if P r then obj' else r) rows) = map f rows"
  using assms by (induction rows) auto

lemma save_event_update:
  assumes "save_event obj' d = Inr (saved, d')"
    and "e_id obj' = Some k"
    and "filter (\<lambda>r. e_id r = Some k) (events d) = [obj]"
  shows "saved = obj'"
    and "d' = d\<lparr>events := map (\<lambda>r. if e_id r = Some k then obj' else r) (events d)\<rparr>"
    and "filter (\<lambda>r. e_id r = Some k) (events d') = [obj']"
proof -
  note s = save_rows_update(1) [where pk = e_id and set_pk = "\<lambda>k e. e\<lparr>e_id := Some k\<rparr>", OF assms(2,3)]
    save_rows_update(2) [where pk = e_id, OF assms(2,3)]
  from assms(1) show "saved = obj'"
    by (simp add: save_event_def s(1) split: if_splits)
  from assms(1) show d': "d' = d\<lparr>events := map (\<lambda>r. if e_id r = Some k then obj' else r) (events d)\<rparr>"
    by (auto simp: save_event_def s(1) split: if_splits)
  show "filter (\<lambda>r. e_id r = Some k) (events d') = [obj']"
    by (simp add: d' s(2))
qed

lemma save_event_insert:
  assumes "save_event obj' d = Inr (saved, d')"
    and "e_id obj' = None"
  shows "saved = obj'\<lparr>e_id := Some (next_pk (map e_id (events d)))\<rparr>"
    and "d' = d\<lparr>events := events d @ [saved]\<rparr>"
    and "filter (\<lambda>r. e_id r = e_id saved) (events d') = [saved]"
    and "filter (\<lambda>r. e_id r = e_id saved) (events d) = []"
proof -
  have pk: "e_id (obj'\<lparr>e_id := Some (next_pk (map e_id (events d)))\<rparr>) = Some (next_pk (map e_id (events d)))"
    by simp
  note s = save_rows_insert [where pk = e_id and set_pk = "\<lambda>k e. e\<lparr>e_id := Some k\<rparr>"
      and rows = "events d" and obj' = obj', OF assms(2) pk]
  from assms(1) show saved: "saved = obj'\<lparr>e_id := Some (next_pk (map e_id (events d)))\<rparr>"
    by (auto simp: save_event_def s(1) split: if_splits)
  from assms(1) show d': "d' = d\<lparr>events := events d @ [saved]\<rparr>"
    by (auto simp: save_event_def s(1) split: if_splits)
  show "filter (\<lambda>r. e_id r = e_id saved) (events d') = [saved]"
    using s(2) by (simp add: d' saved)
  show "filter (\<lambda>r. e_id r = e_id saved) (events d) = []"
    using s(3) by (simp add: saved)
qed

lemma save_camp_update:
  assumes "save_camp obj' d = Inr (saved, d')"
    and "c_id obj' = Some k"
    and "filter (\<lambda>r. c_id r = Some k) (camps d) = [obj]"
  shows "saved = obj'"
    and "d' = d\<lparr>camps := map (\<lambda>r. if c_id r = Some k then obj' else r) (camps d)\<rparr>"
    and "filter (\<lambda>r. c_id r = Some k) (camps d') = [obj']"
proof -
  note s = save_rows_update(1) [where pk = c_id and set_pk = "\<lambda>k c. c\<lparr>c_id := Some k\<rparr>", OF assms(2,3)]
    save_rows_update(2) [where pk = c_id, OF assms(2,3)]
  from assms(1) show "saved = obj'"
    by (simp add: save_camp_def s(1) split: if_splits)
  from assms(1) show d': "d' = d\<lparr>camps := map (\<lambda>r. if c_id r = Some k then obj' else r) (camps d)\<rparr>"
    by (auto simp: save_camp_def s(1) split: if_splits)
  show "filter (\<lambda>r. c_id r = Some k) (camps d') = [obj']"
    by (simp add: d' s(2))
qed

lemma save_camp_insert:
  assumes "save_camp obj' d = Inr (saved, d')"
    and "c_id obj' = None"
  shows "saved = obj'\<lparr>c_id := Some (next_pk (map c_id (camps d)))\<rparr>"
    and "d' = d\<lparr>camps := camps d @ [saved]\<rparr>"
    and "filter (\<lambda>r. c_id r = c_id saved) (camps d') = [saved]"
    and "filter (\<lambda>r. c_id r = c_id saved) (camps d) = []"
proof -
  have pk: "c_id (obj'\<lparr>c_id := Some (next_pk (map c_id (camps d)))\<rparr>) = Some (next_pk (map c_id (camps d)))"
    by simp
  note s = save_rows_insert [where pk = c_id and set_pk = "\<lambda>k c. c\<lparr>c_id := Some k\<rparr>"
      and rows = "camps d" and obj' = obj', OF assms(2) pk]
  from assms(1) show saved: "saved = obj'\<lparr>c_id := Some (next_pk (map c_id (camps d)))\<rparr>"
    by (auto simp: save_camp_def s(1) split: if_splits)
  from assms(1) show d': "d' = d\<lparr>camps := camps d @ [saved]\<rparr>"
    by (auto simp: save_camp_def s(1) split: if_splits)
  show "filter (\<lambda>r. c_id r = c_id saved) (camps d') = [saved]"
    using s(2) by (simp add: d' saved)
  show "filter (\<lambda>r. c_id r = c_id saved) (camps d) = []"
    using s(3) by (simp add: saved)
qed

text \<open>With unique primary keys, the one visible row of a key is the one row of that key.\<close>

lemma filter_visible_single:
  assumes "distinct (map pk rows)" and "filter (\<lambda>r. pk r = Some k) (filter vis rows) = [obj]"
  shows "filter (\<lambda>r. pk r = Some k) rows = [obj]"
  using assms
proof (induction rows)
  case Nil
  then show ?case by simp
next
  case (Cons r rows)
  show ?case
  proof (cases "pk r = Some k")
    case True
    with Cons.prems(1) have "\<forall>x \<in> set rows. pk x \<noteq> Some k"
      by (metis distinct.simps(2) image_eqI list.simps(9) set_map)
    then have none: "filter (\<lambda>r. pk r = Some k) rows = []"
      by (simp add: filter_empty_conv)
    then have "filter (\<lambda>r. pk r = Some k) (filter vis rows) = []"
      by (simp add: filter_empty_conv)
    with Cons.prems(2) True have "vis r \<and> r = obj"
      by (cases "vis r") simp_all
    with True none show ?thesis by simp
  next
    case False
    with Cons.prems have "filter (\<lambda>r. pk r = Some k) (filter vis rows) = [obj]"
      by (cases "vis r") simp_all
    moreover from Cons.prems(1) have "distinct (map pk rows)" by simp
    ultimately have "filter (\<lambda>r. pk r = Some k) rows = [obj]" by (rule Cons.IH [rotated])
    with False show ?thesis by simp
  qed
qed


lemma no_year_after_target:
  "map_of (strip_keys ks (if has_key data ''year'' then delitem data ''year'' else data)) ''year'' = None"
  by (auto simp: map_of_strip_keys map_of_delitem has_key_def)


lemma map_of_payload:
  assumes "key \<noteq> ''year''" and "key \<notin> set ks"
  shows "map_of (strip_keys ks (if has_key (inject_year yy data) ''year''
                                  then delitem (inject_year yy data) ''year''
                                  else inject_year yy data)) key = map_of data key"
    and "map_of (strip_keys ks (inject_year yy data)) key = map_of data key"
  using assms by (simp_all add: map_of_strip_keys map_of_delitem map_of_inject_year)

lemma event_target_create_obj:
  assumes "\<not> truthy playa_event_id"
    and "event_target request playa_event_id data d = Inr (obj, data')"
  shows "\<exists>t. obj = new_PlayaEvent\<lparr>e_creator := Some (u_id (req_user request)), e_event_type := t\<rparr>"
  using assms
  by (auto simp: event_target_def Let_def split: sum.splits option.splits)

lemma event_write_success:
  assumes r: "event_create_or_update request year_year playa_event_id d = (out, d')"
    and ok: "is_success out"
  shows "\<exists>obj data obj' pk.
      event_assign (strip_keys [''id'', ''pk''] data) d obj = Inr obj'
    \<and> out = Response (if req_method request = ''PUT'' then ALL_OK else CREATED) (PkJson (Some pk))
    \<and> get_row (\<lambda>e. e_id e = Some pk) (events d') = Inr (obj'\<lparr>e_id := Some pk\<rparr>)
    \<and> (if truthy playa_event_id
        then get_row (\<lambda>e. e_id e = Some pk) (events d) = Inr obj
           \<and> data = (if has_key (inject_year year_year (verb_data request)) ''year''
                      then delitem (inject_year year_year (verb_data request)) ''year''
                      else inject_year year_year (verb_data request))
        else get_row (\<lambda>e. e_id e = Some pk) (events d) = Inl DoesNotExist
           \<and> data = inject_year year_year (verb_data request)
           \<and> (\<exists>t. obj = new_PlayaEvent\<lparr>e_creator := Some (u_id (req_user request)), e_event_type := t\<rparr>))"
  using event_write_cases [OF r]
proof (elim disjE exE conjE)
  assume "\<not> is_success out"
  with ok show ?thesis by simp
next
  fix obj data obj' saved
  assume target: "event_target request playa_event_id (inject_year year_year (verb_data request)) d
      = Inr (obj, data)"
    and assign: "event_assign (strip_keys [''id'', ''pk''] data) d obj = Inr obj'"
    and save: "save_event obj' d = Inr (saved, d')"
    and out: "out = Response (if req_method request = ''PUT'' then ALL_OK else CREATED) (PkJson (e_id saved))"
  note same = event_assign_Inr(1) [OF assign]
  show ?thesis
  proof (cases "truthy playa_event_id")
    case True
    from event_target_update [OF True target] obtain pid k where
      row: "filter (\<lambda>r. e_id r = Some k) (events d) = [obj]" and
      data: "data = (if has_key (inject_year year_year (verb_data request)) ''year''
                      then delitem (inject_year year_year (verb_data request)) ''year''
                      else inject_year year_year (verb_data request))"
      by blast
    from filter_single_mem [OF row] same have k': "e_id obj' = Some k"
      by simp
    note saved = save_event_update [OF save k' row]
    have unchanged: "obj'\<lparr>e_id := Some k\<rparr> = obj'"
      using k' by simp
    have 1: "out = Response (if req_method request = ''PUT'' then ALL_OK else CREATED) (PkJson (Some k))"
      by (simp add: out saved(1) k')
    have 2: "get_row (\<lambda>e. e_id e = Some k) (events d') = Inr (obj'\<lparr>e_id := Some k\<rparr>)"
      by (simp only: unchanged get_row_Inr saved(3))
    have 3: "get_row (\<lambda>e. e_id e = Some k) (events d) = Inr obj"
      by (simp only: get_row_Inr row)
    from True assign 1 2 3 data show ?thesis
      by (intro exI [of _ obj] exI [of _ data] exI [of _ obj'] exI [of _ k]) simp
  next
    case False
    from event_target_create [OF False target] have data: "data = inject_year year_year (verb_data request)"
      by simp
    note fresh = event_target_create_obj [OF False target]
    then have "e_id obj = None"
      by (auto simp: new_PlayaEvent_def)
    with same have none: "e_id obj' = None"
      by simp
    note saved = save_event_insert [OF save none]
    define n where "n = next_pk (map e_id (events d))"
    have sv: "saved = obj'\<lparr>e_id := Some n\<rparr>"
      unfolding n_def by (rule saved(1))
    have 1: "out = Response (if req_method request = ''PUT'' then ALL_OK else CREATED) (PkJson (Some n))"
      by (simp add: out sv)
    have 2: "get_row (\<lambda>e. e_id e = Some n) (events d') = Inr (obj'\<lparr>e_id := Some n\<rparr>)"
      using saved(3) by (simp add: sv get_row_Inr)
    have 3: "get_row (\<lambda>e. e_id e = Some n) (events d) = Inl DoesNotExist"
      using saved(4) by (simp add: sv get_row_DoesNotExist)
    from False assign 1 2 3 data fresh show ?thesis
      by (intro exI [of _ obj] exI [of _ data] exI [of _ obj'] exI [of _ n]) simp
  qed
qed

lemma camp_write_success:
  assumes r: "camp_create_or_update request year_year camp_id d = (out, d')"
    and ok: "is_success out"
    and uniq: "distinct (map c_id (camps d))"
  shows "\<exists>obj data obj' pk.
      camp_assign (strip_keys [''id'', ''pk'', ''bm_fm_id'', ''deleted''] data) d obj = Inr obj'
    \<and> out = Response (if req_method request = ''PUT'' then ALL_OK else CREATED) (PkJson (Some pk))
    \<and> get_row (\<lambda>c. c_id c = Some pk) (camps d') = Inr (obj'\<lparr>c_id := Some pk\<rparr>)
    \<and> (if truthy camp_id
        then get_row (\<lambda>c. c_id c = Some pk) (camps d) = Inr obj
           \<and> data = (if has_key (inject_year year_year (verb_data request)) ''year''
                      then delitem (inject_year year_year (verb_data request)) ''year''
                      else inject_year year_year (verb_data request))
        else get_row (\<lambda>c. c_id c = Some pk) (camps d) = Inl DoesNotExist
           \<and> data = inject_year year_year (verb_data request)
           \<and> obj = new_ThemeCamp)"
  using camp_write_cases [OF r]
proof (elim disjE exE conjE)
  assume "\<not> is_success out"
  with ok show ?thesis by simp
next
  fix obj data obj' saved
  assume target: "camp_target request camp_id (inject_year year_year (verb_data request)) d
      = Inr (obj, data)"
    and assign: "camp_assign (strip_keys [''id'', ''pk'', ''bm_fm_id'', ''deleted''] data) d obj = Inr obj'"
    and save: "save_camp obj' d = Inr (saved, d')"
    and out: "out = Response (if req_method request = ''PUT'' then ALL_OK else CREATED) (PkJson (c_id saved))"
  note same = camp_assign_Inr(1) [OF assign]
  show ?thesis
  proof (cases "truthy camp_id")
    case True
    from camp_target_update [OF True target] obtain cid k where
      visible: "filter (\<lambda>r. c_id r = Some k) (ThemeCamp_objects d) = [obj]" and
      data: "data = (if has_key (inject_year year_year (verb_data request)) ''year''
                      then delitem (inject_year year_year (verb_data request)) ''year''
                      else inject_year year_year (verb_data request))"
      by blast
    from visible uniq have row: "filter (\<lambda>r. c_id r = Some k) (camps d) = [obj]"
      unfolding ThemeCamp_objects_def by (rule filter_visible_single [rotated])
    from filter_single_mem [OF row] same have k': "c_id obj' = Some k"
      by simp
    note saved = save_camp_update [OF save k' row]
    have unchanged: "obj'\<lparr>c_id := Some k\<rparr> = obj'"
      using k' by simp
    have 1: "out = Response (if req_method request = ''PUT'' then ALL_OK else CREATED) (PkJson (Some k))"
      by (simp add: out saved(1) k')
    have 2: "get_row (\<lambda>c. c_id c = Some k) (camps d') = Inr (obj'\<lparr>c_id := Some k\<rparr>)"
      by (simp only: unchanged get_row_Inr saved(3))
    have 3: "get_row (\<lambda>c. c_id c = Some k) (camps d) = Inr obj"
      by (simp only: get_row_Inr row)
    from True assign 1 2 3 data show ?thesis
      by (intro exI [of _ obj] exI [of _ data] exI [of _ obj'] exI [of _ k]) simp
  next
    case False
    from camp_target_create [OF False target] have data: "data = inject_year year_year (verb_data request)"
      and fresh: "obj = new_ThemeCamp"
      by simp_all
    then have "c_id obj = None"
      by (simp add: new_ThemeCamp_def)
    with same have none: "c_id obj' = None"
      by simp
    note saved = save_camp_insert [OF save none]
    define n where "n = next_pk (map c_id (camps d))"
    have sv: "saved = obj'\<lparr>c_id := Some n\<rparr>"
      unfolding n_def by (rule saved(1))
    have 1: "out = Response (if req_method request = ''PUT'' then ALL_OK else CREATED) (PkJson (Some n))"
      by (simp add: out sv)
    have 2: "get_row (\<lambda>c. c_id c = Some n) (camps d') = Inr (obj'\<lparr>c_id := Some n\<rparr>)"
      using saved(3) by (simp add: sv get_row_Inr)
    have 3: "get_row (\<lambda>c. c_id c = Some n) (camps d) = Inl DoesNotExist"
      using saved(4) by (simp add: sv get_row_DoesNotExist)
    from False assign 1 2 3 data fresh show ?thesis
      by (intro exI [of _ obj] exI [of _ data] exI [of _ obj'] exI [of _ n]) simp
  qed
qed


lemma event_bool_keys_kept:
  "key \<in> set event_bool_keys \<Longrightarrow> key \<noteq> ''year'' \<and> key \<notin> set [''id'', ''pk'']"
  by (auto simp: event_bool_keys_def)

subsection \<open>The text of the moderation field\<close>

lemma map_of_with_moderation:
  "map_of (with_moderation v data) k =
     (if k = ''moderation'' then map_option (\<lambda>x. v) (map_of data k) else map_of data k)"
  by (induction data) (auto simp: with_moderation_def)

lemma has_key_with_moderation: "has_key (with_moderation v data) k = has_key data k"
  by (simp add: has_key_def map_of_with_moderation)

lemma delitem_with_moderation: "delitem (with_moderation v data) k = with_moderation v (delitem data k)"
  by (induction data) (auto simp: with_moderation_def delitem_def)

lemma inject_year_with_moderation:
  "inject_year yy (with_moderation v data) = with_moderation v (inject_year yy data)"
  by (auto simp: inject_year_def has_key_with_moderation setitem_def delitem_with_moderation
      split: option.splits)
     (simp add: with_moderation_def)

lemma strip_keys_with_moderation:
  "strip_keys ks (with_moderation v data) = with_moderation v (strip_keys ks data)"
proof (induction ks arbitrary: data)
  case Nil
  show ?case by (simp add: strip_keys_def)
next
  case (Cons a ks)
  have step: "strip_keys (a # ks) x = strip_keys ks (if has_key x a then delitem x a else x)" for x
    by (simp add: strip_keys_def)
  show ?case
    by (simp add: step has_key_with_moderation delitem_with_moderation Cons.IH)
qed

lemma with_moderation_Nil: "(with_moderation v data = []) = (data = [])"
  by (simp add: with_moderation_def)

lemma verb_data_with_moderation:
  "verb_data (request_with_moderation v request) = with_moderation v (verb_data request)"
  by (simp add: verb_data_def request_with_moderation_def)

lemma event_target_with_moderation:
  "event_target (request_with_moderation v request) pid (with_moderation v data) d =
     (case event_target request pid data d of
        Inl out \<Rightarrow> Inl out
      | Inr (obj, data') \<Rightarrow> Inr (obj, with_moderation v data'))"
  by (simp add: event_target_def Let_def has_key_with_moderation delitem_with_moderation
      map_of_with_moderation request_with_moderation_def split: sum.split option.split)


lemma event_set_moderation_upd: "\<exists>m. event_set_moderation data obj = obj\<lparr>e_moderation := m\<rparr>"
proof (cases "map_of data ''moderation''")
  case None
  then have "event_set_moderation data obj = obj\<lparr>e_moderation := e_moderation obj\<rparr>"
    by (simp add: event_set_moderation_def)
  then show ?thesis ..
next
  case (Some v)
  show ?thesis
  proof (cases "upper v \<in> set [''U'', ''A'', ''R'']")
    case True
    with Some have "event_set_moderation data obj = obj\<lparr>e_moderation := upper v\<rparr>"
      by (simp add: event_set_moderation_def Let_def)
    then show ?thesis ..
  next
    case False
    with Some have "event_set_moderation data obj = obj\<lparr>e_moderation := e_moderation obj\<rparr>"
      by (simp add: event_set_moderation_def Let_def)
    then show ?thesis ..
  qed
qed

lemma event_set_camp_lift:
  "event_set_camp data d (obj\<lparr>e_moderation := m\<rparr>) =
     (case event_set_camp data d obj of Inl out \<Rightarrow> Inl out | Inr ob \<Rightarrow> Inr (ob\<lparr>e_moderation := m\<rparr>))"
  by (simp add: event_set_camp_def split: option.split sum.split)

lemma event_set_art_lift:
  "event_set_art data d (obj\<lparr>e_moderation := m\<rparr>) =
     (case event_set_art data d obj of Inl out \<Rightarrow> Inl out | Inr ob \<Rightarrow> Inr (ob\<lparr>e_moderation := m\<rparr>))"
  by (simp add: event_set_art_def split: option.split sum.split)

lemma event_set_bools_lift:
  "event_set_bools data (obj\<lparr>e_moderation := m\<rparr>) = (event_set_bools data obj)\<lparr>e_moderation := m\<rparr>"
  by (simp add: event_set_bools_def event_bool_keys_def event_setattr_bool_def split: option.split)

lemma event_steps_with_moderation:
  "event_set_year (with_moderation v data) d obj = event_set_year data d obj"
  "event_set_text (with_moderation v data) obj = event_set_text data obj"
  "event_set_camp (with_moderation v data) d obj = event_set_camp data d obj"
  "event_set_art (with_moderation v data) d obj = event_set_art data d obj"
  "event_set_bools (with_moderation v data) obj = event_set_bools data obj"
  by (simp_all add: event_set_year_def event_set_text_def event_set_camp_def event_set_art_def
      event_set_bools_def event_text_keys_def event_bool_keys_def map_of_with_moderation)

lemma event_assign_with_moderation:
  "\<exists>m. event_assign (with_moderation v data) d obj =
     (case event_assign data d obj of Inl out \<Rightarrow> Inl out | Inr ob \<Rightarrow> Inr (ob\<lparr>e_moderation := m\<rparr>))"
proof (cases "event_set_year data d obj")
  case (Inl out)
  then show ?thesis
    by (simp add: event_assign_def event_steps_with_moderation)
next
  case (Inr obj1)
  obtain m1 where m1: "event_set_moderation data (event_set_text data obj1)
      = (event_set_text data obj1)\<lparr>e_moderation := m1\<rparr>"
    using event_set_moderation_upd by blast
  obtain m2 where m2: "event_set_moderation (with_moderation v data) (event_set_text data obj1)
      = (event_set_text data obj1)\<lparr>e_moderation := m2\<rparr>"
    using event_set_moderation_upd by blast
  have "event_assign (with_moderation v data) d obj =
     (case event_assign data d obj of Inl out \<Rightarrow> Inl out | Inr ob \<Rightarrow> Inr (ob\<lparr>e_moderation := m2\<rparr>))"
    by (simp add: event_assign_def event_steps_with_moderation Inr m1 m2 event_set_camp_lift
        event_set_art_lift event_set_bools_lift split: sum.split)
  then show ?thesis ..
qed

lemma save_event_moderation:
  "(case save_event (obj\<lparr>e_moderation := m\<rparr>) d of Inl e \<Rightarrow> Inl e | Inr (saved, d') \<Rightarrow> Inr (e_id saved))
     = (case save_event obj d of Inl e \<Rightarrow> Inl e | Inr (saved, d') \<Rightarrow> Inr (e_id saved))"
  by (simp add: save_event_def save_rows_def Let_def split: option.split)

lemma event_write_with_moderation:
  "fst (event_create_or_update (request_with_moderation v request) year_year playa_event_id d)
     = fst (event_create_or_update request year_year playa_event_id d)"
proof -
  have same: "u_api_allowed (req_user (request_with_moderation v request)) = u_api_allowed (req_user request)"
    "req_method (request_with_moderation v request) = req_method request"
    by (simp_all add: request_with_moderation_def)
  show ?thesis
  proof (cases "event_target request playa_event_id (inject_year year_year (verb_data request)) d")
    case (Inl out)
    then show ?thesis
      by (simp add: event_create_or_update_def Let_def same verb_data_with_moderation
          inject_year_with_moderation with_moderation_Nil event_target_with_moderation)
  next
    case (Inr target)
    obtain obj data where target: "target = (obj, data)"
      by (cases target)
    obtain m where m: "event_assign (with_moderation v (strip_keys [''id'', ''pk''] data)) d obj =
       (case event_assign (strip_keys [''id'', ''pk''] data) d obj of
          Inl out \<Rightarrow> Inl out | Inr ob \<Rightarrow> Inr (ob\<lparr>e_moderation := m\<rparr>))"
      using event_assign_with_moderation by blast
    show ?thesis
    proof (cases "event_assign (strip_keys [''id'', ''pk''] data) d obj")
      case (Inl out)
      with Inr target m show ?thesis
        by (simp add: event_create_or_update_def Let_def same verb_data_with_moderation
          inject_year_with_moderation with_moderation_Nil event_target_with_moderation
          strip_keys_with_moderation)
    next
      case assigned: (Inr ob)
      from save_event_moderation [where obj = ob and m = m and d = d] Inr target m assigned show ?thesis
        by (simp add: event_create_or_update_def Let_def same verb_data_with_moderation
          inject_year_with_moderation with_moderation_Nil event_target_with_moderation
          strip_keys_with_moderation split: sum.splits prod.splits)
    qed
  qed
qed

subsection \<open>Looking a camp up through the default manager\<close>

lemma hidden_camp_lookup:
  assumes "py_int cid = Some k"
    and "filter (\<lambda>c. c_id c = Some k) (camps d) = [camp]"
    and "\<not> c_list_online camp"
  shows "get_pk c_id cid (ThemeCamp_objects d) = Inl DoesNotExist"
proof -
  have "filter (\<lambda>c. c_id c = Some k) (filter c_list_online (camps d))
      = filter c_list_online (filter (\<lambda>c. c_id c = Some k) (camps d))"
    by (simp add: conj_commute)
  also have "\<dots> = []"
    by (simp add: assms)
  finally show ?thesis
    by (simp add: get_pk_def assms(1) ThemeCamp_objects_def get_row_DoesNotExist)
qed

lemma listed_camp_lookup:
  assumes "py_int cid = Some k"
    and "filter (\<lambda>c. c_id c = Some k) (camps d) = [camp]"
    and "c_list_online camp"
  shows "get_pk c_id cid (ThemeCamp_objects d) = Inr camp"
proof -
  have "filter (\<lambda>c. c_id c = Some k) (filter c_list_online (camps d))
      = filter c_list_online (filter (\<lambda>c. c_id c = Some k) (camps d))"
    by (simp add: conj_commute)
  also have "\<dots> = [camp]"
    by (simp add: assms)
  finally show ?thesis
    by (simp add: get_pk_def assms(1) ThemeCamp_objects_def get_row_Inr)
qed

lemma py_int_truthy: "py_int s = Some k \<Longrightarrow> truthy (Some s)"
  by (cases s) (simp_all add: py_int_Nil)

lemma event_target_keeps:
  assumes "event_target request pid data d = Inr (obj, data')" and "k \<noteq> ''year''"
  shows "map_of data' k = map_of data k"
  using assms
  by (auto simp: event_target_def Let_def map_of_delitem split: if_splits sum.splits option.splits)

subsection \<open>An update seen from its primary key\<close>

lemma delitem_absent: "\<not> has_key data k \<Longrightarrow> delitem data k = data"
proof -
  assume "\<not> has_key data k"
  then have "k \<notin> fst ` set data"
    by (simp add: has_key_def map_of_eq_None_iff)
  then have "\<forall>kv \<in> set data. fst kv \<noteq> k"
    by auto
  then show ?thesis
    by (simp add: delitem_def)
qed

lemma delitem_inject_year:
  assumes "y \<noteq> []"
  shows "inject_year (Some y) data \<noteq> []"
    and "has_key (inject_year (Some y) data) ''year''"
    and "delitem (inject_year (Some y) data) ''year'' = delitem data ''year''"
proof -
  show "inject_year (Some y) data \<noteq> []"
    using assms by (auto simp: inject_year_def setitem_def has_key_def)
  show "has_key (inject_year (Some y) data) ''year''"
    using assms by (auto simp: inject_year_def setitem_def has_key_def)
  show "delitem (inject_year (Some y) data) ''year'' = delitem data ''year''"
    using assms by (auto simp: inject_year_def setitem_def delitem_def)
qed

lemma event_update_by_pk:
  assumes "pid \<noteq> []" and "y \<noteq> []"
  shows "event_create_or_update request (Some y) (Some pid) d =
     (if \<not> u_api_allowed (req_user request) then
        (rc_response BAD_REQUEST ''User not permitted to use the API'', d)
      else if req_method request \<noteq> ''PUT'' \<and> req_method request \<noteq> ''POST'' then
        (rc_response BAD_REQUEST (''Bad request method: '' @ req_method request), d)
      else
        (case get_pk e_id pid (PlayaEvent_objects d) of
           Inl e \<Rightarrow> (except_DoesNotExist (rc_response NOT_HERE (''Event not found #'' @ pid)) e, d)
         | Inr obj \<Rightarrow>
             (case event_assign (strip_keys [''id'', ''pk''] (delitem (verb_data request) ''year'')) d obj of
                Inl out \<Rightarrow> (out, d)
              | Inr obj' \<Rightarrow>
                  (case save_event obj' d of
                     Inl e \<Rightarrow> (Raised e, d)
                   | Inr (saved, d') \<Rightarrow>
                       (Response (if req_method request = ''PUT'' then ALL_OK else CREATED)
                          (PkJson (e_id saved)), d')))))"
  using assms
  by (simp add: event_create_or_update_def event_target_def Let_def delitem_inject_year
      split: sum.split)

lemma camp_update_by_pk:
  assumes "cid \<noteq> []" and "y \<noteq> []"
  shows "camp_create_or_update request (Some y) (Some cid) d =
     (if \<not> u_api_allowed (req_user request) then
        (rc_response BAD_REQUEST ''User not permitted to use the API'', d)
      else if req_method request \<noteq> ''PUT'' \<and> req_method request \<noteq> ''POST'' then
        (rc_response BAD_REQUEST (''Bad request method: '' @ req_method request), d)
      else
        (case get_pk c_id cid (ThemeCamp_objects d) of
           Inl e \<Rightarrow> (except_DoesNotExist (rc_response NOT_HERE (''ThemeCamp not found #'' @ cid)) e, d)
         | Inr obj \<Rightarrow>
             (case camp_assign (strip_keys [''id'', ''pk'', ''bm_fm_id'', ''deleted'']
                     (delitem (verb_data request) ''year'')) d obj of
                Inl out \<Rightarrow> (out, d)
              | Inr obj' \<Rightarrow>
                  (case save_camp obj' d of
                     Inl e \<Rightarrow> (Raised e, d)
                   | Inr (saved, d') \<Rightarrow>
                       (Response (if req_method request = ''PUT'' then ALL_OK else CREATED)
                          (PkJson (c_id saved)), d')))))"
  using assms
  by (simp add: camp_create_or_update_def camp_target_def Let_def delitem_inject_year
      split: sum.split)

lemma save_event_replaces:
  assumes "e_year obj' \<noteq> None" and "e_id obj' = Some k"
    and "filter (\<lambda>r. e_id r = Some k) (events d) = [obj]"
  shows "save_event obj' d
     = Inr (obj', d\<lparr>events := map (\<lambda>r. if e_id r = Some k then obj' else r) (events d)\<rparr>)"
  using assms(1)
    save_rows_update(1) [where pk = e_id and set_pk = "\<lambda>k e. e\<lparr>e_id := Some k\<rparr>", OF assms(2,3)]
  by (simp add: save_event_def)

lemma save_camp_replaces:
  assumes "c_year obj' \<noteq> None" and "c_id obj' = Some k"
    and "filter (\<lambda>r. c_id r = Some k) (camps d) = [obj]"
  shows "save_camp obj' d
     = Inr (obj', d\<lparr>camps := map (\<lambda>r. if c_id r = Some k then obj' else r) (camps d)\<rparr>)"
  using assms(1)
    save_rows_update(1) [where pk = c_id and set_pk = "\<lambda>k c. c\<lparr>c_id := Some k\<rparr>", OF assms(2,3)]
  by (simp add: save_camp_def)

lemma event_pk_lookup:
  "py_int pid = Some k \<Longrightarrow> filter (\<lambda>e. e_id e = Some k) (events d) = [obj] \<Longrightarrow>
     get_pk e_id pid (PlayaEvent_objects d) = Inr obj"
  by (simp add: get_pk_def PlayaEvent_objects_def get_row_Inr)

subsection \<open>What an update stores\<close>

lemma event_update_stores:
  assumes "u_api_allowed (req_user request)"
    and "req_method request = ''PUT'' \<or> req_method request = ''POST''"
    and "y \<noteq> []" and "py_int pid = Some k"
    and row: "filter (\<lambda>e. e_id e = Some k) (events d) = [obj]"
    and year: "e_year obj \<noteq> None"
    and assign: "event_assign (strip_keys [''id'', ''pk''] (delitem (verb_data request) ''year'')) d obj = Inr obj'"
  shows "event_create_or_update request (Some y) (Some pid) d
      = (Response (if req_method request = ''PUT'' then ALL_OK else CREATED) (PkJson (Some k)),
         d\<lparr>events := map (\<lambda>r. if e_id r = Some k then obj' else r) (events d)\<rparr>)"
    and "get_row (\<lambda>e. e_id e = Some k) (map (\<lambda>r. if e_id r = Some k then obj' else r) (events d))
      = Inr obj'"
    and "key \<in> set event_bool_keys \<Longrightarrow>
      event_getattr_bool key obj' =
        (case map_of (verb_data request) key of
           None \<Rightarrow> event_getattr_bool key obj
         | Some val \<Rightarrow> Some (to_bool val))"
proof -
  from assms have found: "get_pk e_id pid (PlayaEvent_objects d) = Inr obj"
    using event_pk_lookup by blast
  from assms have given: "pid \<noteq> []"
    using py_int_Nil by auto
  have no_year: "map_of (strip_keys [''id'', ''pk''] (delitem (verb_data request) ''year'')) ''year'' = None"
    by (simp add: map_of_strip_keys map_of_delitem)
  from filter_single_mem [OF row] have "e_id obj = Some k"
    by simp
  with event_assign_Inr(1) [OF assign] event_assign_Inr(2) [OF assign no_year] year
  have k': "e_id obj' = Some k" and year': "e_year obj' \<noteq> None"
    by simp_all
  note saved = save_event_replaces [OF year' k' row]
  from assms(1,2,3) given show "event_create_or_update request (Some y) (Some pid) d
      = (Response (if req_method request = ''PUT'' then ALL_OK else CREATED) (PkJson (Some k)),
         d\<lparr>events := map (\<lambda>r. if e_id r = Some k then obj' else r) (events d)\<rparr>)"
    by (auto simp: event_update_by_pk found assign saved k')
  show "get_row (\<lambda>e. e_id e = Some k) (map (\<lambda>r. if e_id r = Some k then obj' else r) (events d))
      = Inr obj'"
    using save_rows_update(2) [where pk = e_id, OF k' row] by (simp add: get_row_Inr)
  show "event_getattr_bool key obj' =
        (case map_of (verb_data request) key of
           None \<Rightarrow> event_getattr_bool key obj
         | Some val \<Rightarrow> Some (to_bool val))" if key: "key \<in> set event_bool_keys"
  proof -
    from event_bool_keys_kept [OF key]
    have "map_of (strip_keys [''id'', ''pk''] (delitem (verb_data request) ''year'')) key
        = map_of (verb_data request) key"
      by (simp add: map_of_strip_keys map_of_delitem)
    with event_assign_Inr(4) [OF assign key] show ?thesis
      by simp
  qed
qed

lemma camp_update_stores:
  assumes "u_api_allowed (req_user request)"
    and "req_method request = ''PUT'' \<or> req_method request = ''POST''"
    and "y \<noteq> []" and "py_int cid = Some k"
    and row: "filter (\<lambda>c. c_id c = Some k) (camps d) = [camp]"
    and listed: "c_list_online camp"
    and year: "c_year camp \<noteq> None"
    and assign: "camp_assign (strip_keys [''id'', ''pk'', ''bm_fm_id'', ''deleted'']
            (delitem (verb_data request) ''year'')) d camp = Inr camp'"
  shows "camp_create_or_update request (Some y) (Some cid) d
      = (Response (if req_method request = ''PUT'' then ALL_OK else CREATED) (PkJson (Some k)),
         d\<lparr>camps := map (\<lambda>r. if c_id r = Some k then camp' else r) (camps d)\<rparr>)"
    and "get_row (\<lambda>c. c_id c = Some k) (map (\<lambda>r. if c_id r = Some k then camp' else r) (camps d))
      = Inr camp'"
    and "c_list_online camp' =
        (case map_of (verb_data request) ''list_online'' of
           None \<Rightarrow> c_list_online camp
         | Some val \<Rightarrow> to_bool val)"
proof -
  from assms have found: "get_pk c_id cid (ThemeCamp_objects d) = Inr camp"
    using listed_camp_lookup by blast
  from assms have given: "cid \<noteq> []"
    using py_int_Nil by auto
  have no_year: "map_of (strip_keys [''id'', ''pk'', ''bm_fm_id'', ''deleted'']
      (delitem (verb_data request) ''year'')) ''year'' = None"
    by (simp add: map_of_strip_keys map_of_delitem)
  from filter_single_mem [OF row] have "c_id camp = Some k"
    by simp
  with camp_assign_Inr(1) [OF assign] camp_assign_Inr(2) [OF assign no_year] year
  have k': "c_id camp' = Some k" and year': "c_year camp' \<noteq> None"
    by simp_all
  note saved = save_camp_replaces [OF year' k' row]
  from assms(1,2,3) given show "camp_create_or_update request (Some y) (Some cid) d
      = (Response (if req_method request = ''PUT'' then ALL_OK else CREATED) (PkJson (Some k)),
         d\<lparr>camps := map (\<lambda>r. if c_id r = Some k then camp' else r) (camps d)\<rparr>)"
    by (auto simp: camp_update_by_pk found assign saved k')
  show "get_row (\<lambda>c. c_id c = Some k) (map (\<lambda>r. if c_id r = Some k then camp' else r) (camps d))
      = Inr camp'"
    using save_rows_update(2) [where pk = c_id, OF k' row] by (simp add: get_row_Inr)
  have "map_of (strip_keys [''id'', ''pk'', ''bm_fm_id'', ''deleted'']
      (delitem (verb_data request) ''year'')) ''list_online'' = map_of (verb_data request) ''list_online''"
    by (simp add: map_of_strip_keys map_of_delitem)
  with camp_assign_Inr(3) [OF assign] show "c_list_online camp' =
        (case map_of (verb_data request) ''list_online'' of
           None \<Rightarrow> c_list_online camp
         | Some val \<Rightarrow> to_bool val)"
    by simp
qed

subsection \<open>A call of \<open>get_and_cache\<close>\<close>

lemma get_and_cache_cases:
  fixes c :: "'a list cache"
  shows
  "(cache_get c now (cache_key kind ''all'' kw) = Inr v \<longrightarrow>
      get_and_cache kind matches base kw now c = (v, c))
   \<and> (cache_get c now (cache_key kind ''all'' kw) = Inl NotCachedError \<longrightarrow>
      get_and_cache kind matches base kw now c =
        (if kw \<noteq> [] then filter (matches kw) base else base,
         cache_set c now (cache_key kind ''all'' kw)
           (if kw \<noteq> [] then filter (matches kw) base else base) (60 * 60 * 24)))
   \<and> (cache_get c now (cache_key kind ''all'' kw) = Inl NotCachedError \<and> now' < now + 60 * 60 * 24 \<longrightarrow>
      fst (get_and_cache kind matches base' kw now' (snd (get_and_cache kind matches base kw now c)))
        = fst (get_and_cache kind matches base kw now c))
   \<and> (c (cache_key kind ''all'' kw) = Some (v, expires) \<and> now < expires \<and> now' < expires \<longrightarrow>
      fst (get_and_cache kind matches base' kw now' (snd (get_and_cache kind matches base kw now c)))
        = fst (get_and_cache kind matches base kw now c))"
  by (simp add: get_and_cache_def cache_get_def cache_set_def Let_def split: option.splits)

section \<open>Public reads\<close>

text \<open>
  C1. The specification requires that no event or camp of a year that is not accepted
  or not listed online ever appears in a public read of that year, whether a listing, a
  lookup by id or an event read narrowed by \<open>start_time\<close>/\<open>end_time\<close>. The plain
  listing of \<open>read\<close> filters on \<open>moderation='A'\<close> and \<open>list_online=True\<close>, but the
  lookup by id leaves out the moderation filter and the narrowed reads filter on the
  occurrence ids alone. On the example data: the lookup of event 8 of 2012, which is
  rejected, returns it; the read narrowed by \<open>start_time\<close> under the path of 2011
  returns the three events of 2012, the rejected and the unlisted one among them.
\<close>

theorem public_event_read_shows_rejected:
  "event_read demo_request (Some ''2012'') (Some ''8'') demo_db = Inr [rejected_event]
   \<and> e_moderation rejected_event = ''R''
   \<and> event_read (demo_request\<lparr>req_start_time := Some 5\<rparr>) (Some ''2011'') None demo_db
       = Inr [accepted_event, rejected_event, unlisted_event]
   \<and> e_list_online unlisted_event = Some False"
  by code_simp

text \<open>
  C2. The specification requires that after a delete the camp, or the event, no longer
  appears in public reads. \<open>delete\<close> sets \<open>deleted\<close> on a camp, a column no query of
  \<open>read\<close> looks at, so the listing of the year still returns the camp; it sets the
  moderation of an event to \<open>'R'\<close>, which the lookup by id does not filter on, so that
  lookup still returns the event.
\<close>

theorem deleted_still_public:
  "camp_delete demo_request (Some ''2012'') (Some ''3'') demo_db
     = (Response DELETED (Message ''Camp deleted #3''),
        demo_db\<lparr>camps := [listed_camp\<lparr>c_deleted := Some True\<rparr>, hidden_camp]\<rparr>)
   \<and> camp_read demo_request (Some ''2012'') None
        (snd (camp_delete demo_request (Some ''2012'') (Some ''3'') demo_db))
     = Inr [listed_camp\<lparr>c_deleted := Some True\<rparr>]
   \<and> event_delete demo_request (Some ''2012'') (Some ''7'') demo_db
     = (Response DELETED (Message ''Event rejected #7''),
        demo_db\<lparr>events := [accepted_event\<lparr>e_moderation := ''R''\<rparr>, rejected_event, unlisted_event]\<rparr>)
   \<and> event_read demo_request (Some ''2012'') (Some ''7'')
        (snd (event_delete demo_request (Some ''2012'') (Some ''7'') demo_db))
     = Inr [accepted_event\<lparr>e_moderation := ''R''\<rparr>]"
  by code_simp

text \<open>
  C3. The listing of events for a year that resolves, with no event id in the path.
  With both bounds the result is the events whose id is among the ids of the
  occurrences with \<open>start_time \<ge> s\<close> and \<open>end_time \<le> t\<close>, that is, exactly the events
  owning such an occurrence; with one bound the occurrences are filtered on that bound
  alone; with neither the result is the listing of the year (its accepted events listed
  online), in which occurrences play no part. In each narrowed case the ids of the
  matching occurrences are resolved first and the events are then selected by id.
\<close>

theorem event_read_time_window:
  assumes "truthy year_year"
    and "get_row (\<lambda>y. Some (y_year y) = year_year) (years d) = Inr year"
    and "\<not> truthy playa_event_id"
  shows
  "(req_start_time request = Some s \<and> req_end_time request = Some t \<longrightarrow>
      event_read request year_year playa_event_id d =
        Inr (filter (\<lambda>e. e_id e \<in> Some ` set (map o_event
                 (filter (\<lambda>occ. s \<le> o_start_time occ \<and> o_end_time occ \<le> t) (occurrences d))))
               (events d))
      \<and> (\<forall>e. (e_id e \<in> Some ` set (map o_event
                 (filter (\<lambda>occ. s \<le> o_start_time occ \<and> o_end_time occ \<le> t) (occurrences d))))
            = (\<exists>occ \<in> set (occurrences d). e_id e = Some (o_event occ)
                 \<and> s \<le> o_start_time occ \<and> o_end_time occ \<le> t)))
   \<and> (req_start_time request = Some s \<and> req_end_time request = None \<longrightarrow>
      event_read request year_year playa_event_id d =
        Inr (filter (\<lambda>e. e_id e \<in> Some ` set (map o_event
                 (filter (\<lambda>occ. s \<le> o_start_time occ) (occurrences d))))
               (events d))
      \<and> (\<forall>e. (e_id e \<in> Some ` set (map o_event
                 (filter (\<lambda>occ. s \<le> o_start_time occ) (occurrences d))))
            = (\<exists>occ \<in> set (occurrences d). e_id e = Some (o_event occ) \<and> s \<le> o_start_time occ)))
   \<and> (req_start_time request = None \<and> req_end_time request = Some t \<longrightarrow>
      event_read request year_year playa_event_id d =
        Inr (filter (\<lambda>e. e_id e \<in> Some ` set (map o_event
                 (filter (\<lambda>occ. o_end_time occ \<le> t) (occurrences d))))
               (events d))
      \<and> (\<forall>e. (e_id e \<in> Some ` set (map o_event
                 (filter (\<lambda>occ. o_end_time occ \<le> t) (occurrences d))))
            = (\<exists>occ \<in> set (occurrences d). e_id e = Some (o_event occ) \<and> o_end_time occ \<le> t)))
   \<and> (req_start_time request = None \<and> req_end_time request = None \<longrightarrow>
      event_read request year_year playa_event_id d =
        Inr (filter (\<lambda>e. e_year e = Some (y_id year) \<and> e_moderation e = ''A''
                        \<and> e_list_online e = Some True) (events d)))"
  using assms
  by (auto simp: event_read_def PlayaEvent_objects_def)

theorem event_read_time_window_witness:
  "event_read (demo_request\<lparr>req_start_time := Some 5, req_end_time := Some 25\<rparr>) (Some ''2012'') None demo_db
     = Inr [accepted_event, rejected_event]
   \<and> event_read (demo_request\<lparr>req_end_time := Some 19\<rparr>) (Some ''2012'') None demo_db
     = Inr [rejected_event]
   \<and> event_read demo_request (Some ''2012'') None demo_db = Inr [accepted_event]"
proof -
  have y: "truthy (Some ''2012'')"
    by simp
  have r: "get_row (\<lambda>y. Some (y_year y) = Some ''2012'') (years demo_db) = Inr (hd demo_years)"
    by code_simp
  have n: "\<not> truthy None"
    by simp
  note t = event_read_time_window [OF y r n]
  have h1: "req_start_time (demo_request\<lparr>req_start_time := Some 5, req_end_time := Some 25\<rparr>) = Some 5
      \<and> req_end_time (demo_request\<lparr>req_start_time := Some 5, req_end_time := Some 25\<rparr>) = Some 25"
    by simp
  have h2: "req_start_time (demo_request\<lparr>req_end_time := Some 19\<rparr>) = None
      \<and> req_end_time (demo_request\<lparr>req_end_time := Some 19\<rparr>) = Some 19"
    by (simp add: demo_request_def)
  have h3: "req_start_time demo_request = None \<and> req_end_time demo_request = None"
    by (simp add: demo_request_def)
  have "event_read (demo_request\<lparr>req_start_time := Some 5, req_end_time := Some 25\<rparr>) (Some ''2012'') None demo_db
      = Inr (filter (\<lambda>e. e_id e \<in> Some ` set (map o_event
                 (filter (\<lambda>occ. 5 \<le> o_start_time occ \<and> o_end_time occ \<le> 25) (occurrences demo_db))))
               (events demo_db))"
    by (rule t [THEN conjunct1, THEN mp, OF h1, THEN conjunct1])
  also have "\<dots> = Inr [accepted_event, rejected_event]"
    by code_simp
  finally have both: "event_read (demo_request\<lparr>req_start_time := Some 5, req_end_time := Some 25\<rparr>)
      (Some ''2012'') None demo_db = Inr [accepted_event, rejected_event]" .
  have "event_read (demo_request\<lparr>req_end_time := Some 19\<rparr>) (Some ''2012'') None demo_db
      = Inr (filter (\<lambda>e. e_id e \<in> Some ` set (map o_event
                 (filter (\<lambda>occ. o_end_time occ \<le> 19) (occurrences demo_db))))
               (events demo_db))"
    by (rule t [THEN conjunct2, THEN conjunct2, THEN conjunct1, THEN mp, OF h2, THEN conjunct1])
  also have "\<dots> = Inr [rejected_event]"
    by code_simp
  finally have upper_only: "event_read (demo_request\<lparr>req_end_time := Some 19\<rparr>) (Some ''2012'') None demo_db
      = Inr [rejected_event]" .
  have "event_read demo_request (Some ''2012'') None demo_db
      = Inr (filter (\<lambda>e. e_year e = Some (y_id (hd demo_years)) \<and> e_moderation e = ''A''
                        \<and> e_list_online e = Some True) (events demo_db))"
    by (rule t [THEN conjunct2, THEN conjunct2, THEN conjunct2, THEN mp, OF h3])
  also have "\<dots> = Inr [accepted_event]"
    by code_simp
  finally have neither: "event_read demo_request (Some ''2012'') None demo_db = Inr [accepted_event]" .
  from both upper_only neither show ?thesis
    by simp
qed

section \<open>Writes\<close>

text \<open>
  C5. A create or update of an event or of a camp that does not end in a success
  response (a permission error, a bad verb, an empty field map, a reference that is not
  found, or an exception that is not caught) leaves the database as it was: the
  assignments were made to the object in memory, and \<open>save\<close> is the last step.
\<close>

theorem failed_write_persists_nothing:
  "(\<not> is_success (fst (event_create_or_update request year_year playa_event_id d))
      \<longrightarrow> snd (event_create_or_update request year_year playa_event_id d) = d)
   \<and> (\<not> is_success (fst (camp_create_or_update request year_year camp_id d))
      \<longrightarrow> snd (camp_create_or_update request year_year camp_id d) = d)"
proof (intro conjI impI)
  assume fails: "\<not> is_success (fst (event_create_or_update request year_year playa_event_id d))"
  obtain out d' where r: "event_create_or_update request year_year playa_event_id d = (out, d')"
    by (cases "event_create_or_update request year_year playa_event_id d")
  from event_write_cases [OF r] fails r
  show "snd (event_create_or_update request year_year playa_event_id d) = d"
    by (auto simp: is_success_def split: if_splits)
next
  assume fails: "\<not> is_success (fst (camp_create_or_update request year_year camp_id d))"
  obtain out d' where r: "camp_create_or_update request year_year camp_id d = (out, d')"
    by (cases "camp_create_or_update request year_year camp_id d")
  from camp_write_cases [OF r] fails r
  show "snd (camp_create_or_update request year_year camp_id d) = d"
    by (auto simp: is_success_def split: if_splits)
qed

theorem failed_write_persists_nothing_witness:
  "fst (event_create_or_update
          (demo_request\<lparr>req_PUT := [(''all_day'', ''yes''), (''hosted_by_camp'', ''4'')]\<rparr>)
          (Some ''2012'') (Some ''7'') demo_db)
     = Response NOT_HERE (Message ''No such camp: 4'')
   \<and> snd (event_create_or_update
          (demo_request\<lparr>req_PUT := [(''all_day'', ''yes''), (''hosted_by_camp'', ''4'')]\<rparr>)
          (Some ''2012'') (Some ''7'') demo_db)
     = demo_db
   \<and> fst (camp_create_or_update
          (demo_request\<lparr>req_method := ''POST'', req_POST := [(''name'', ''Camp New''), (''year'', ''1999'')]\<rparr>)
          None None demo_db)
     = Response NOT_HERE (Message ''No such year: 1999'')
   \<and> snd (camp_create_or_update
          (demo_request\<lparr>req_method := ''POST'', req_POST := [(''name'', ''Camp New''), (''year'', ''1999'')]\<rparr>)
          None None demo_db)
     = demo_db"
proof -
  have e: "fst (event_create_or_update
          (demo_request\<lparr>req_PUT := [(''all_day'', ''yes''), (''hosted_by_camp'', ''4'')]\<rparr>)
          (Some ''2012'') (Some ''7'') demo_db)
     = Response NOT_HERE (Message ''No such camp: 4'')"
    by code_simp
  have c: "fst (camp_create_or_update
          (demo_request\<lparr>req_method := ''POST'', req_POST := [(''name'', ''Camp New''), (''year'', ''1999'')]\<rparr>)
          None None demo_db)
     = Response NOT_HERE (Message ''No such year: 1999'')"
    by code_simp
  from e c
    failed_write_persists_nothing
      [of "demo_request\<lparr>req_PUT := [(''all_day'', ''yes''), (''hosted_by_camp'', ''4'')]\<rparr>"
          "Some ''2012''" "Some ''7''" demo_db]
    failed_write_persists_nothing
      [of "demo_request\<lparr>req_method := ''POST'', req_POST := [(''name'', ''Camp New''), (''year'', ''1999'')]\<rparr>"
          None _ demo_db None]
  show ?thesis
    by (simp add: is_success_def)
qed

text \<open>
  C4. An update (a call with an entity id in the path) leaves the year of every event,
  and of every camp, as it was, whatever the field map says about \<open>year\<close> and whatever
  year the path carries: row by row, the primary keys and the years of the table after
  the call are those before it. For camps the primary keys of the table are taken to be
  unique, as the database guarantees.
\<close>

theorem update_keeps_year:
  "(truthy playa_event_id \<longrightarrow>
      map (\<lambda>e. (e_id e, e_year e)) (events (snd (event_create_or_update request year_year playa_event_id d)))
        = map (\<lambda>e. (e_id e, e_year e)) (events d))
   \<and> (truthy camp_id \<and> distinct (map c_id (camps d)) \<longrightarrow>
      map (\<lambda>c. (c_id c, c_year c)) (camps (snd (camp_create_or_update request year_year camp_id d)))
        = map (\<lambda>c. (c_id c, c_year c)) (camps d))"
proof (intro conjI impI)
  assume given: "truthy playa_event_id"
  obtain out d' where r: "event_create_or_update request year_year playa_event_id d = (out, d')"
    by (cases "event_create_or_update request year_year playa_event_id d")
  have "map (\<lambda>e. (e_id e, e_year e)) (events d') = map (\<lambda>e. (e_id e, e_year e)) (events d)"
    using event_write_cases [OF r]
  proof (elim disjE exE conjE)
    assume "d' = d"
    then show ?thesis by simp
  next
    fix obj data obj' saved
    assume target: "event_target request playa_event_id (inject_year year_year (verb_data request)) d
        = Inr (obj, data)"
      and assign: "event_assign (strip_keys [''id'', ''pk''] data) d obj = Inr obj'"
      and save: "save_event obj' d = Inr (saved, d')"
    from event_target_update [OF given target] obtain pid k where
      row: "filter (\<lambda>r. e_id r = Some k) (events d) = [obj]" and
      data: "data = (if has_key (inject_year year_year (verb_data request)) ''year''
                     then delitem (inject_year year_year (verb_data request)) ''year''
                     else inject_year year_year (verb_data request))"
      by blast
    have no_year: "map_of (strip_keys [''id'', ''pk''] data) ''year'' = None"
      unfolding data by (rule no_year_after_target)
    from filter_single_mem [OF row] have k: "e_id obj = Some k"
      by simp
    note same = event_assign_Inr(1) [OF assign] event_assign_Inr(2) [OF assign no_year]
    from same k have k': "e_id obj' = Some k"
      by simp
    note saved = save_event_update [OF save k' row]
    have "map (\<lambda>e. (e_id e, e_year e)) (map (\<lambda>r. if e_id r = Some k then obj' else r) (events d))
        = map (\<lambda>e. (e_id e, e_year e)) (events d)"
    proof (rule map_replace_same)
      fix r assume "r \<in> set (events d)" and "e_id r = Some k"
      with filter_single_unique [OF row] have "r = obj" by blast
      with same show "(e_id obj', e_year obj') = (e_id r, e_year r)" by simp
    qed
    then show ?thesis by (simp add: saved(2))
  qed
  with r show "map (\<lambda>e. (e_id e, e_year e)) (events (snd (event_create_or_update request year_year playa_event_id d)))
        = map (\<lambda>e. (e_id e, e_year e)) (events d)"
    by simp
next
  assume "truthy camp_id \<and> distinct (map c_id (camps d))"
  then have given: "truthy camp_id" and uniq: "distinct (map c_id (camps d))"
    by simp_all
  obtain out d' where r: "camp_create_or_update request year_year camp_id d = (out, d')"
    by (cases "camp_create_or_update request year_year camp_id d")
  have "map (\<lambda>c. (c_id c, c_year c)) (camps d') = map (\<lambda>c. (c_id c, c_year c)) (camps d)"
    using camp_write_cases [OF r]
  proof (elim disjE exE conjE)
    assume "d' = d"
    then show ?thesis by simp
  next
    fix obj data obj' saved
    assume target: "camp_target request camp_id (inject_year year_year (verb_data request)) d
        = Inr (obj, data)"
      and assign: "camp_assign (strip_keys [''id'', ''pk'', ''bm_fm_id'', ''deleted''] data) d obj = Inr obj'"
      and save: "save_camp obj' d = Inr (saved, d')"
    from camp_target_update [OF given target] obtain cid k where
      visible: "filter (\<lambda>r. c_id r = Some k) (ThemeCamp_objects d) = [obj]" and
      data: "data = (if has_key (inject_year year_year (verb_data request)) ''year''
                     then delitem (inject_year year_year (verb_data request)) ''year''
                     else inject_year year_year (verb_data request))"
      by blast
    from visible uniq have row: "filter (\<lambda>r. c_id r = Some k) (camps d) = [obj]"
      unfolding ThemeCamp_objects_def by (rule filter_visible_single [rotated])
    have no_year: "map_of (strip_keys [''id'', ''pk'', ''bm_fm_id'', ''deleted''] data) ''year'' = None"
      unfolding data by (rule no_year_after_target)
    from filter_single_mem [OF row] have k: "c_id obj = Some k"
      by simp
    note same = camp_assign_Inr(1) [OF assign] camp_assign_Inr(2) [OF assign no_year]
    from same k have k': "c_id obj' = Some k"
      by simp
    note saved = save_camp_update [OF save k' row]
    have "map (\<lambda>c. (c_id c, c_year c)) (map (\<lambda>r. if c_id r = Some k then obj' else r) (camps d))
        = map (\<lambda>c. (c_id c, c_year c)) (camps d)"
    proof (rule map_replace_same)
      fix r assume "r \<in> set (camps d)" and "c_id r = Some k"
      with filter_single_unique [OF row] have "r = obj" by blast
      with same show "(c_id obj', c_year obj') = (c_id r, c_year r)" by simp
    qed
    then show ?thesis by (simp add: saved(2))
  qed
  with r show "map (\<lambda>c. (c_id c, c_year c)) (camps (snd (camp_create_or_update request year_year camp_id d)))
        = map (\<lambda>c. (c_id c, c_year c)) (camps d)"
    by simp
qed

theorem update_keeps_year_witness:
  "fst (event_create_or_update
          (demo_request\<lparr>req_PUT := [(''year'', ''2011''), (''slug'', ''moved'')]\<rparr>)
          (Some ''2011'') (Some ''7'') demo_db)
     = Response ALL_OK (PkJson (Some 7))
   \<and> map (\<lambda>e. (e_id e, e_year e)) (events (snd (event_create_or_update
          (demo_request\<lparr>req_PUT := [(''year'', ''2011''), (''slug'', ''moved'')]\<rparr>)
          (Some ''2011'') (Some ''7'') demo_db)))
     = [(Some 7, Some 1), (Some 8, Some 1), (Some 9, Some 1)]
   \<and> fst (camp_create_or_update
          (demo_request\<lparr>req_PUT := [(''year'', ''2011''), (''name'', ''Camp Moved'')]\<rparr>)
          (Some ''2011'') (Some ''3'') demo_db)
     = Response ALL_OK (PkJson (Some 3))
   \<and> map (\<lambda>c. (c_id c, c_year c)) (camps (snd (camp_create_or_update
          (demo_request\<lparr>req_PUT := [(''year'', ''2011''), (''name'', ''Camp Moved'')]\<rparr>)
          (Some ''2011'') (Some ''3'') demo_db)))
     = [(Some 3, Some 1), (Some 4, Some 1)]"
proof -
  have e: "fst (event_create_or_update
          (demo_request\<lparr>req_PUT := [(''year'', ''2011''), (''slug'', ''moved'')]\<rparr>)
          (Some ''2011'') (Some ''7'') demo_db)
     = Response ALL_OK (PkJson (Some 7))"
    by code_simp
  have c: "fst (camp_create_or_update
          (demo_request\<lparr>req_PUT := [(''year'', ''2011''), (''name'', ''Camp Moved'')]\<rparr>)
          (Some ''2011'') (Some ''3'') demo_db)
     = Response ALL_OK (PkJson (Some 3))"
    by code_simp
  have given: "truthy (Some ''7'')" "truthy (Some ''3'') \<and> distinct (map c_id (camps demo_db))"
    by code_simp+
  have before: "map (\<lambda>e. (e_id e, e_year e)) (events demo_db) = [(Some 7, Some 1), (Some 8, Some 1), (Some 9, Some 1)]"
    "map (\<lambda>c. (c_id c, c_year c)) (camps demo_db) = [(Some 3, Some 1), (Some 4, Some 1)]"
    by code_simp+
  note t = update_keeps_year [where d = demo_db and year_year = "Some ''2011''"]
  from t [where playa_event_id = "Some ''7''", THEN conjunct1, THEN mp, OF given(1)]
    t [where camp_id = "Some ''3''", THEN conjunct2, THEN mp, OF given(2)]
    e c before
  show ?thesis
    by simp
qed

text \<open>
  C6. After a successful create or update, each boolean field of the whitelist that is
  present in the field map is stored as true exactly when its text, uppercased, is one
  of \<open>1\<close>, \<open>T\<close>, \<open>Y\<close>, \<open>YES\<close>, \<open>TRUE\<close>, \<open>ON\<close>, and as false for every other text; a
  field that is absent keeps the value the entity had before the call (for a new entity,
  the default of the field). The whitelist is \<open>check_location\<close>, \<open>all_day\<close>,
  \<open>list_online\<close>, \<open>list_contact_online\<close> for events and \<open>list_online\<close> for camps.
  The stored value is read from the row the response names. The first two parts say this
  of every call that answers with a success; the last two say that an update of an
  existing row whose fields are all assigned does answer with a success, names that row,
  and stores the row with the booleans so coerced.
\<close>

theorem boolean_coercion:
  "(event_create_or_update request year_year playa_event_id d = (out, d') \<and> is_success out
      \<and> key \<in> set event_bool_keys \<longrightarrow>
      (\<exists>pk saved.
          out = Response (if req_method request = ''PUT'' then ALL_OK else CREATED) (PkJson (Some pk))
        \<and> get_row (\<lambda>e. e_id e = Some pk) (events d') = Inr saved
        \<and> event_getattr_bool key saved =
            (case map_of (verb_data request) key of
               Some val \<Rightarrow> Some (upper val \<in> set [''1'', ''T'', ''Y'', ''YES'', ''TRUE'', ''ON''])
             | None \<Rightarrow>
                 (case get_row (\<lambda>e. e_id e = Some pk) (events d) of
                    Inr old \<Rightarrow> event_getattr_bool key old
                  | Inl e \<Rightarrow> event_getattr_bool key new_PlayaEvent))))
   \<and> (camp_create_or_update request year_year camp_id d = (cout, cd') \<and> is_success cout
      \<and> distinct (map c_id (camps d)) \<longrightarrow>
      (\<exists>pk saved.
          cout = Response (if req_method request = ''PUT'' then ALL_OK else CREATED) (PkJson (Some pk))
        \<and> get_row (\<lambda>c. c_id c = Some pk) (camps cd') = Inr saved
        \<and> c_list_online saved =
            (case map_of (verb_data request) ''list_online'' of
               Some val \<Rightarrow> upper val \<in> set [''1'', ''T'', ''Y'', ''YES'', ''TRUE'', ''ON'']
             | None \<Rightarrow>
                 (case get_row (\<lambda>c. c_id c = Some pk) (camps d) of
                    Inr old \<Rightarrow> c_list_online old
                  | Inl e \<Rightarrow> c_list_online new_ThemeCamp))))
   \<and> (u_api_allowed (req_user request) \<and> (req_method request = ''PUT'' \<or> req_method request = ''POST'')
      \<and> y \<noteq> [] \<and> py_int pid = Some k \<and> filter (\<lambda>e. e_id e = Some k) (events d) = [obj]
      \<and> e_year obj \<noteq> None
      \<and> event_assign (strip_keys [''id'', ''pk''] (delitem (verb_data request) ''year'')) d obj = Inr obj'
      \<and> key \<in> set event_bool_keys \<longrightarrow>
      fst (event_create_or_update request (Some y) (Some pid) d)
          = Response (if req_method request = ''PUT'' then ALL_OK else CREATED) (PkJson (Some k))
      \<and> get_row (\<lambda>e. e_id e = Some k) (events (snd (event_create_or_update request (Some y) (Some pid) d)))
          = Inr obj'
      \<and> event_getattr_bool key obj' =
          (case map_of (verb_data request) key of
             Some val \<Rightarrow> Some (upper val \<in> set [''1'', ''T'', ''Y'', ''YES'', ''TRUE'', ''ON''])
           | None \<Rightarrow> event_getattr_bool key obj))
   \<and> (u_api_allowed (req_user request) \<and> (req_method request = ''PUT'' \<or> req_method request = ''POST'')
      \<and> y \<noteq> [] \<and> py_int cid = Some k \<and> filter (\<lambda>c. c_id c = Some k) (camps d) = [camp]
      \<and> c_list_online camp \<and> c_year camp \<noteq> None
      \<and> camp_assign (strip_keys [''id'', ''pk'', ''bm_fm_id'', ''deleted'']
            (delitem (verb_data request) ''year'')) d camp = Inr camp' \<longrightarrow>
      fst (camp_create_or_update request (Some y) (Some cid) d)
          = Response (if req_method request = ''PUT'' then ALL_OK else CREATED) (PkJson (Some k))
      \<and> get_row (\<lambda>c. c_id c = Some k) (camps (snd (camp_create_or_update request (Some y) (Some cid) d)))
          = Inr camp'
      \<and> c_list_online camp' =
          (case map_of (verb_data request) ''list_online'' of
             Some val \<Rightarrow> upper val \<in> set [''1'', ''T'', ''Y'', ''YES'', ''TRUE'', ''ON'']
           | None \<Rightarrow> c_list_online camp))"
proof -
  have event_any: "event_create_or_update request year_year playa_event_id d = (out, d') \<and> is_success out
      \<and> key \<in> set event_bool_keys \<longrightarrow>
      (\<exists>pk saved.
          out = Response (if req_method request = ''PUT'' then ALL_OK else CREATED) (PkJson (Some pk))
        \<and> get_row (\<lambda>e. e_id e = Some pk) (events d') = Inr saved
        \<and> event_getattr_bool key saved =
            (case map_of (verb_data request) key of
               Some val \<Rightarrow> Some (upper val \<in> set [''1'', ''T'', ''Y'', ''YES'', ''TRUE'', ''ON''])
             | None \<Rightarrow>
                 (case get_row (\<lambda>e. e_id e = Some pk) (events d) of
                    Inr old \<Rightarrow> event_getattr_bool key old
                  | Inl e \<Rightarrow> event_getattr_bool key new_PlayaEvent)))"
  proof (rule impI)
    assume "event_create_or_update request year_year playa_event_id d = (out, d') \<and> is_success out
        \<and> key \<in> set event_bool_keys"
    then have r: "event_create_or_update request year_year playa_event_id d = (out, d')"
      and ok: "is_success out" and key: "key \<in> set event_bool_keys"
      by simp_all
    from event_write_success [OF r ok] obtain obj data obj' pk where
      assign: "event_assign (strip_keys [''id'', ''pk''] data) d obj = Inr obj'" and
      out: "out = Response (if req_method request = ''PUT'' then ALL_OK else CREATED) (PkJson (Some pk))" and
      row: "get_row (\<lambda>e. e_id e = Some pk) (events d') = Inr (obj'\<lparr>e_id := Some pk\<rparr>)" and
      before: "if truthy playa_event_id
          then get_row (\<lambda>e. e_id e = Some pk) (events d) = Inr obj
             \<and> data = (if has_key (inject_year year_year (verb_data request)) ''year''
                        then delitem (inject_year year_year (verb_data request)) ''year''
                        else inject_year year_year (verb_data request))
          else get_row (\<lambda>e. e_id e = Some pk) (events d) = Inl DoesNotExist
             \<and> data = inject_year year_year (verb_data request)
             \<and> (\<exists>t. obj = new_PlayaEvent\<lparr>e_creator := Some (u_id (req_user request)), e_event_type := t\<rparr>)"
      by blast
    note kept = event_bool_keys_kept [OF key]
    have payload: "map_of (strip_keys [''id'', ''pk''] data) key = map_of (verb_data request) key"
    proof (cases "truthy playa_event_id")
      case True
      with before have "data = (if has_key (inject_year year_year (verb_data request)) ''year''
                        then delitem (inject_year year_year (verb_data request)) ''year''
                        else inject_year year_year (verb_data request))"
        by simp
      then show ?thesis
        using map_of_payload(1) [of key "[''id'', ''pk'']" year_year "verb_data request"] kept by simp
    next
      case False
      with before have "data = inject_year year_year (verb_data request)"
        by simp
      then show ?thesis
        using map_of_payload(2) [of key "[''id'', ''pk'']" year_year "verb_data request"] kept by simp
    qed
    have old: "(case get_row (\<lambda>e. e_id e = Some pk) (events d) of
                  Inr old \<Rightarrow> event_getattr_bool key old
                | Inl e \<Rightarrow> event_getattr_bool key new_PlayaEvent) = event_getattr_bool key obj"
    proof (cases "truthy playa_event_id")
      case True
      with before show ?thesis by simp
    next
      case False
      with before obtain t where
        "get_row (\<lambda>e. e_id e = Some pk) (events d) = Inl DoesNotExist"
        "obj = new_PlayaEvent\<lparr>e_creator := Some (u_id (req_user request)), e_event_type := t\<rparr>"
        by auto
      then show ?thesis by (simp add: event_getattr_bool_def)
    qed
    have "event_getattr_bool key (obj'\<lparr>e_id := Some pk\<rparr>) = event_getattr_bool key obj'"
      by (simp add: event_getattr_bool_def)
    also have "\<dots> = (case map_of (verb_data request) key of
                        None \<Rightarrow> event_getattr_bool key obj
                      | Some val \<Rightarrow> Some (to_bool val))"
      using event_assign_Inr(4) [OF assign key] by (simp only: payload)
    also have "\<dots> = (case map_of (verb_data request) key of
                 Some val \<Rightarrow> Some (upper val \<in> set [''1'', ''T'', ''Y'', ''YES'', ''TRUE'', ''ON''])
               | None \<Rightarrow>
                   (case get_row (\<lambda>e. e_id e = Some pk) (events d) of
                      Inr old \<Rightarrow> event_getattr_bool key old
                    | Inl e \<Rightarrow> event_getattr_bool key new_PlayaEvent))"
      by (simp only: old to_bool_def truthy_words_def split: option.split)
    finally have "event_getattr_bool key (obj'\<lparr>e_id := Some pk\<rparr>) =
        (case map_of (verb_data request) key of
                 Some val \<Rightarrow> Some (upper val \<in> set [''1'', ''T'', ''Y'', ''YES'', ''TRUE'', ''ON''])
               | None \<Rightarrow>
                   (case get_row (\<lambda>e. e_id e = Some pk) (events d) of
                      Inr old \<Rightarrow> event_getattr_bool key old
                    | Inl e \<Rightarrow> event_getattr_bool key new_PlayaEvent))" .
    with out row show "\<exists>pk saved.
            out = Response (if req_method request = ''PUT'' then ALL_OK else CREATED) (PkJson (Some pk))
          \<and> get_row (\<lambda>e. e_id e = Some pk) (events d') = Inr saved
          \<and> event_getattr_bool key saved =
              (case map_of (verb_data request) key of
                 Some val \<Rightarrow> Some (upper val \<in> set [''1'', ''T'', ''Y'', ''YES'', ''TRUE'', ''ON''])
               | None \<Rightarrow>
                   (case get_row (\<lambda>e. e_id e = Some pk) (events d) of
                      Inr old \<Rightarrow> event_getattr_bool key old
                    | Inl e \<Rightarrow> event_getattr_bool key new_PlayaEvent))"
      by blast
  qed
  have camp_any: "camp_create_or_update request year_year camp_id d = (cout, cd') \<and> is_success cout
      \<and> distinct (map c_id (camps d)) \<longrightarrow>
      (\<exists>pk saved.
          cout = Response (if req_method request = ''PUT'' then ALL_OK else CREATED) (PkJson (Some pk))
        \<and> get_row (\<lambda>c. c_id c = Some pk) (camps cd') = Inr saved
        \<and> c_list_online saved =
            (case map_of (verb_data request) ''list_online'' of
               Some val \<Rightarrow> upper val \<in> set [''1'', ''T'', ''Y'', ''YES'', ''TRUE'', ''ON'']
             | None \<Rightarrow>
                 (case get_row (\<lambda>c. c_id c = Some pk) (camps d) of
                    Inr old \<Rightarrow> c_list_online old
                  | Inl e \<Rightarrow> c_list_online new_ThemeCamp)))"
  proof (rule impI)
    assume "camp_create_or_update request year_year camp_id d = (cout, cd') \<and> is_success cout
        \<and> distinct (map c_id (camps d))"
    then have r: "camp_create_or_update request year_year camp_id d = (cout, cd')"
      and ok: "is_success cout" and uniq: "distinct (map c_id (camps d))"
      by simp_all
    from camp_write_success [OF r ok uniq] obtain obj data obj' pk where
      assign: "camp_assign (strip_keys [''id'', ''pk'', ''bm_fm_id'', ''deleted''] data) d obj = Inr obj'" and
      out: "cout = Response (if req_method request = ''PUT'' then ALL_OK else CREATED) (PkJson (Some pk))" and
      row: "get_row (\<lambda>c. c_id c = Some pk) (camps cd') = Inr (obj'\<lparr>c_id := Some pk\<rparr>)" and
      before: "if truthy camp_id
          then get_row (\<lambda>c. c_id c = Some pk) (camps d) = Inr obj
             \<and> data = (if has_key (inject_year year_year (verb_data request)) ''year''
                        then delitem (inject_year year_year (verb_data request)) ''year''
                        else inject_year year_year (verb_data request))
          else get_row (\<lambda>c. c_id c = Some pk) (camps d) = Inl DoesNotExist
             \<and> data = inject_year year_year (verb_data request)
             \<and> obj = new_ThemeCamp"
      by blast
    have payload: "map_of (strip_keys [''id'', ''pk'', ''bm_fm_id'', ''deleted''] data) ''list_online''
        = map_of (verb_data request) ''list_online''"
    proof (cases "truthy camp_id")
      case True
      with before have "data = (if has_key (inject_year year_year (verb_data request)) ''year''
                        then delitem (inject_year year_year (verb_data request)) ''year''
                        else inject_year year_year (verb_data request))"
        by simp
      then show ?thesis
        using map_of_payload(1) [of "''list_online''" "[''id'', ''pk'', ''bm_fm_id'', ''deleted'']"
            year_year "verb_data request"] by simp
    next
      case False
      with before have "data = inject_year year_year (verb_data request)"
        by simp
      then show ?thesis
        using map_of_payload(2) [of "''list_online''" "[''id'', ''pk'', ''bm_fm_id'', ''deleted'']"
            year_year "verb_data request"] by simp
    qed
    have old: "(case get_row (\<lambda>c. c_id c = Some pk) (camps d) of
                  Inr old \<Rightarrow> c_list_online old
                | Inl e \<Rightarrow> c_list_online new_ThemeCamp) = c_list_online obj"
      using before by (cases "truthy camp_id") simp_all
    have "c_list_online (obj'\<lparr>c_id := Some pk\<rparr>) = c_list_online obj'"
      by simp
    also have "\<dots> = (case map_of (verb_data request) ''list_online'' of
                        None \<Rightarrow> c_list_online obj
                      | Some val \<Rightarrow> to_bool val)"
      using camp_assign_Inr(3) [OF assign] by (simp only: payload)
    also have "\<dots> = (case map_of (verb_data request) ''list_online'' of
                 Some val \<Rightarrow> upper val \<in> set [''1'', ''T'', ''Y'', ''YES'', ''TRUE'', ''ON'']
               | None \<Rightarrow>
                   (case get_row (\<lambda>c. c_id c = Some pk) (camps d) of
                      Inr old \<Rightarrow> c_list_online old
                    | Inl e \<Rightarrow> c_list_online new_ThemeCamp))"
      by (simp only: old to_bool_def truthy_words_def split: option.split)
    finally have "c_list_online (obj'\<lparr>c_id := Some pk\<rparr>) =
        (case map_of (verb_data request) ''list_online'' of
                 Some val \<Rightarrow> upper val \<in> set [''1'', ''T'', ''Y'', ''YES'', ''TRUE'', ''ON'']
               | None \<Rightarrow>
                   (case get_row (\<lambda>c. c_id c = Some pk) (camps d) of
                      Inr old \<Rightarrow> c_list_online old
                    | Inl e \<Rightarrow> c_list_online new_ThemeCamp))" .
    with out row show "\<exists>pk saved.
            cout = Response (if req_method request = ''PUT'' then ALL_OK else CREATED) (PkJson (Some pk))
          \<and> get_row (\<lambda>c. c_id c = Some pk) (camps cd') = Inr saved
          \<and> c_list_online saved =
              (case map_of (verb_data request) ''list_online'' of
                 Some val \<Rightarrow> upper val \<in> set [''1'', ''T'', ''Y'', ''YES'', ''TRUE'', ''ON'']
               | None \<Rightarrow>
                   (case get_row (\<lambda>c. c_id c = Some pk) (camps d) of
                      Inr old \<Rightarrow> c_list_online old
                    | Inl e \<Rightarrow> c_list_online new_ThemeCamp))"
      by blast
  qed
  have event_update: "u_api_allowed (req_user request) \<and> (req_method request = ''PUT'' \<or> req_method request = ''POST'')
      \<and> y \<noteq> [] \<and> py_int pid = Some k \<and> filter (\<lambda>e. e_id e = Some k) (events d) = [obj]
      \<and> e_year obj \<noteq> None
      \<and> event_assign (strip_keys [''id'', ''pk''] (delitem (verb_data request) ''year'')) d obj = Inr obj'
      \<and> key \<in> set event_bool_keys \<longrightarrow>
      fst (event_create_or_update request (Some y) (Some pid) d)
          = Response (if req_method request = ''PUT'' then ALL_OK else CREATED) (PkJson (Some k))
      \<and> get_row (\<lambda>e. e_id e = Some k) (events (snd (event_create_or_update request (Some y) (Some pid) d)))
          = Inr obj'
      \<and> event_getattr_bool key obj' =
          (case map_of (verb_data request) key of
             Some val \<Rightarrow> Some (upper val \<in> set [''1'', ''T'', ''Y'', ''YES'', ''TRUE'', ''ON''])
           | None \<Rightarrow> event_getattr_bool key obj)"
  proof (rule impI)
    assume h: "u_api_allowed (req_user request) \<and> (req_method request = ''PUT'' \<or> req_method request = ''POST'')
        \<and> y \<noteq> [] \<and> py_int pid = Some k \<and> filter (\<lambda>e. e_id e = Some k) (events d) = [obj]
        \<and> e_year obj \<noteq> None
        \<and> event_assign (strip_keys [''id'', ''pk''] (delitem (verb_data request) ''year'')) d obj = Inr obj'
        \<and> key \<in> set event_bool_keys"
    then have key: "key \<in> set event_bool_keys"
      by simp
    from h have stored: "event_create_or_update request (Some y) (Some pid) d
        = (Response (if req_method request = ''PUT'' then ALL_OK else CREATED) (PkJson (Some k)),
           d\<lparr>events := map (\<lambda>r. if e_id r = Some k then obj' else r) (events d)\<rparr>)"
      and row: "get_row (\<lambda>e. e_id e = Some k) (map (\<lambda>r. if e_id r = Some k then obj' else r) (events d))
        = Inr obj'"
      using event_update_stores by blast+
    from h have "event_getattr_bool key obj' =
        (case map_of (verb_data request) key of
           None \<Rightarrow> event_getattr_bool key obj
         | Some val \<Rightarrow> Some (to_bool val))"
      using event_update_stores(3) by blast
    then have "event_getattr_bool key obj' =
            (case map_of (verb_data request) key of
               Some val \<Rightarrow> Some (upper val \<in> set [''1'', ''T'', ''Y'', ''YES'', ''TRUE'', ''ON''])
             | None \<Rightarrow> event_getattr_bool key obj)"
      by (simp only: to_bool_def truthy_words_def split: option.split)
    with stored row show "fst (event_create_or_update request (Some y) (Some pid) d)
            = Response (if req_method request = ''PUT'' then ALL_OK else CREATED) (PkJson (Some k))
        \<and> get_row (\<lambda>e. e_id e = Some k) (events (snd (event_create_or_update request (Some y) (Some pid) d)))
            = Inr obj'
        \<and> event_getattr_bool key obj' =
            (case map_of (verb_data request) key of
               Some val \<Rightarrow> Some (upper val \<in> set [''1'', ''T'', ''Y'', ''YES'', ''TRUE'', ''ON''])
             | None \<Rightarrow> event_getattr_bool key obj)"
      by simp
  qed
  have camp_update: "u_api_allowed (req_user request) \<and> (req_method request = ''PUT'' \<or> req_method request = ''POST'')
      \<and> y \<noteq> [] \<and> py_int cid = Some k \<and> filter (\<lambda>c. c_id c = Some k) (camps d) = [camp]
      \<and> c_list_online camp \<and> c_year camp \<noteq> None
      \<and> camp_assign (strip_keys [''id'', ''pk'', ''bm_fm_id'', ''deleted'']
            (delitem (verb_data request) ''year'')) d camp = Inr camp' \<longrightarrow>
      fst (camp_create_or_update request (Some y) (Some cid) d)
          = Response (if req_method request = ''PUT'' then ALL_OK else CREATED) (PkJson (Some k))
      \<and> get_row (\<lambda>c. c_id c = Some k) (camps (snd (camp_create_or_update request (Some y) (Some cid) d)))
          = Inr camp'
      \<and> c_list_online camp' =
          (case map_of (verb_data request) ''list_online'' of
             Some val \<Rightarrow> upper val \<in> set [''1'', ''T'', ''Y'', ''YES'', ''TRUE'', ''ON'']
           | None \<Rightarrow> c_list_online camp)"
  proof (rule impI)
    assume h: "u_api_allowed (req_user request) \<and> (req_method request = ''PUT'' \<or> req_method request = ''POST'')
        \<and> y \<noteq> [] \<and> py_int cid = Some k \<and> filter (\<lambda>c. c_id c = Some k) (camps d) = [camp]
        \<and> c_list_online camp \<and> c_year camp \<noteq> None
        \<and> camp_assign (strip_keys [''id'', ''pk'', ''bm_fm_id'', ''deleted'']
              (delitem (verb_data request) ''year'')) d camp = Inr camp'"
    from h have stored: "camp_create_or_update request (Some y) (Some cid) d
        = (Response (if req_method request = ''PUT'' then ALL_OK else CREATED) (PkJson (Some k)),
           d\<lparr>camps := map (\<lambda>r. if c_id r = Some k then camp' else r) (camps d)\<rparr>)"
      and row: "get_row (\<lambda>c. c_id c = Some k) (map (\<lambda>r. if c_id r = Some k then camp' else r) (camps d))
        = Inr camp'"
      using camp_update_stores by blast+
    from h have "c_list_online camp' =
        (case map_of (verb_data request) ''list_online'' of
           None \<Rightarrow> c_list_online camp
         | Some val \<Rightarrow> to_bool val)"
      using camp_update_stores(3) by blast
    then have "c_list_online camp' =
            (case map_of (verb_data request) ''list_online'' of
               Some val \<Rightarrow> upper val \<in> set [''1'', ''T'', ''Y'', ''YES'', ''TRUE'', ''ON'']
             | None \<Rightarrow> c_list_online camp)"
      by (simp only: to_bool_def truthy_words_def split: option.split)
    with stored row show "fst (camp_create_or_update request (Some y) (Some cid) d)
            = Response (if req_method request = ''PUT'' then ALL_OK else CREATED) (PkJson (Some k))
        \<and> get_row (\<lambda>c. c_id c = Some k) (camps (snd (camp_create_or_update request (Some y) (Some cid) d)))
            = Inr camp'
        \<and> c_list_online camp' =
            (case map_of (verb_data request) ''list_online'' of
               Some val \<Rightarrow> upper val \<in> set [''1'', ''T'', ''Y'', ''YES'', ''TRUE'', ''ON'']
             | None \<Rightarrow> c_list_online camp)"
      by simp
  qed
  show ?thesis
    by (rule conjI [OF event_any conjI [OF camp_any conjI [OF event_update camp_update]]])
qed

theorem boolean_coercion_witness:
  "fst (event_create_or_update
        (demo_request\<lparr>req_PUT := [(''all_day'', ''yes''), (''check_location'', ''0''),
           (''list_contact_online'', ''ye'' @ [CHR 0xC5, CHR 0xBF])]\<rparr>)
        (Some ''2012'') (Some ''7'') demo_db)
     = Response ALL_OK (PkJson (Some 7))
   \<and> (\<exists>saved.
      get_row (\<lambda>e. e_id e = Some 7) (events (snd (event_create_or_update
        (demo_request\<lparr>req_PUT := [(''all_day'', ''yes''), (''check_location'', ''0''),
           (''list_contact_online'', ''ye'' @ [CHR 0xC5, CHR 0xBF])]\<rparr>)
        (Some ''2012'') (Some ''7'') demo_db))) = Inr saved
      \<and> event_getattr_bool ''all_day'' saved = Some True
      \<and> event_getattr_bool ''check_location'' saved = Some False
      \<and> event_getattr_bool ''list_contact_online'' saved = Some True
      \<and> event_getattr_bool ''list_online'' saved = Some True)
   \<and> fst (camp_create_or_update (demo_request\<lparr>req_PUT := [(''list_online'', ''No'')]\<rparr>)
        (Some ''2012'') (Some ''3'') demo_db)
     = Response ALL_OK (PkJson (Some 3))
   \<and> (\<exists>saved.
      get_row (\<lambda>c. c_id c = Some 3) (camps (snd (camp_create_or_update (demo_request\<lparr>req_PUT := [(''list_online'', ''No'')]\<rparr>)
        (Some ''2012'') (Some ''3'') demo_db))) = Inr saved
      \<and> c_list_online saved = False)
   \<and> fst (camp_create_or_update
        (demo_request\<lparr>req_method := ''POST'', req_POST := [(''name'', ''Camp New''), (''list_online'', ''off'')]\<rparr>)
        (Some ''2012'') None demo_db)
     = Response CREATED (PkJson (Some 5))
   \<and> (\<exists>saved.
      get_row (\<lambda>c. c_id c = Some 5) (camps (snd (camp_create_or_update
        (demo_request\<lparr>req_method := ''POST'', req_POST := [(''name'', ''Camp New''), (''list_online'', ''off'')]\<rparr>)
        (Some ''2012'') None demo_db))) = Inr saved
      \<and> c_list_online saved = False)
   \<and> fst (event_create_or_update
        (demo_request\<lparr>req_method := ''POST'', req_POST := [(''all_day'', ''TRUE'')]\<rparr>)
        (Some ''2012'') None demo_db)
     = Response CREATED (PkJson (Some 10))
   \<and> (\<exists>saved.
      get_row (\<lambda>e. e_id e = Some 10) (events (snd (event_create_or_update
        (demo_request\<lparr>req_method := ''POST'', req_POST := [(''all_day'', ''TRUE'')]\<rparr>)
        (Some ''2012'') None demo_db))) = Inr saved
      \<and> event_getattr_bool ''all_day'' saved = Some True)"
proof -
  let ?req = "demo_request\<lparr>req_PUT := [(''all_day'', ''yes''), (''check_location'', ''0''),
      (''list_contact_online'', ''ye'' @ [CHR 0xC5, CHR 0xBF])]\<rparr>"
  let ?obj' = "accepted_event\<lparr>e_check_location := Some False, e_all_day := Some True,
      e_list_contact_online := Some True\<rparr>"
  have words: "upper ''yes'' \<in> set [''1'', ''T'', ''Y'', ''YES'', ''TRUE'', ''ON'']"
    "upper ''0'' \<notin> set [''1'', ''T'', ''Y'', ''YES'', ''TRUE'', ''ON'']"
    "upper (''ye'' @ [CHR 0xC5, CHR 0xBF]) \<in> set [''1'', ''T'', ''Y'', ''YES'', ''TRUE'', ''ON'']"
    "upper ''No'' \<notin> set [''1'', ''T'', ''Y'', ''YES'', ''TRUE'', ''ON'']"
    "upper ''off'' \<notin> set [''1'', ''T'', ''Y'', ''YES'', ''TRUE'', ''ON'']"
    "upper ''TRUE'' \<in> set [''1'', ''T'', ''Y'', ''YES'', ''TRUE'', ''ON'']"
    by code_simp+
  have old: "event_getattr_bool ''list_online'' accepted_event = Some True"
    by code_simp
  have h1: "u_api_allowed (req_user ?req) \<and> (req_method ?req = ''PUT'' \<or> req_method ?req = ''POST'')
      \<and> ''2012'' \<noteq> [] \<and> py_int ''7'' = Some 7
      \<and> filter (\<lambda>e. e_id e = Some 7) (events demo_db) = [accepted_event]
      \<and> e_year accepted_event \<noteq> None
      \<and> event_assign (strip_keys [''id'', ''pk''] (delitem (verb_data ?req) ''year'')) demo_db accepted_event
          = Inr ?obj'
      \<and> ''all_day'' \<in> set event_bool_keys"
    by code_simp
  have p1: "map_of (verb_data ?req) ''all_day'' = Some ''yes''"
    by code_simp
  note t1 = boolean_coercion [THEN conjunct2, THEN conjunct2, THEN conjunct1, THEN mp, OF h1]
  from t1 p1 words old have a1: "event_getattr_bool ''all_day'' ?obj' = Some True"
    by (simp only: option.case simp_thms)
  have h2: "u_api_allowed (req_user ?req) \<and> (req_method ?req = ''PUT'' \<or> req_method ?req = ''POST'')
      \<and> ''2012'' \<noteq> [] \<and> py_int ''7'' = Some 7
      \<and> filter (\<lambda>e. e_id e = Some 7) (events demo_db) = [accepted_event]
      \<and> e_year accepted_event \<noteq> None
      \<and> event_assign (strip_keys [''id'', ''pk''] (delitem (verb_data ?req) ''year'')) demo_db accepted_event
          = Inr ?obj'
      \<and> ''check_location'' \<in> set event_bool_keys"
    by code_simp
  have p2: "map_of (verb_data ?req) ''check_location'' = Some ''0''"
    by code_simp
  note t2 = boolean_coercion [THEN conjunct2, THEN conjunct2, THEN conjunct1, THEN mp, OF h2]
  from t2 p2 words old have a2: "event_getattr_bool ''check_location'' ?obj' = Some False"
    by (simp only: option.case simp_thms)
  have h3: "u_api_allowed (req_user ?req) \<and> (req_method ?req = ''PUT'' \<or> req_method ?req = ''POST'')
      \<and> ''2012'' \<noteq> [] \<and> py_int ''7'' = Some 7
      \<and> filter (\<lambda>e. e_id e = Some 7) (events demo_db) = [accepted_event]
      \<and> e_year accepted_event \<noteq> None
      \<and> event_assign (strip_keys [''id'', ''pk''] (delitem (verb_data ?req) ''year'')) demo_db accepted_event
          = Inr ?obj'
      \<and> ''list_contact_online'' \<in> set event_bool_keys"
    by code_simp
  have p3: "map_of (verb_data ?req) ''list_contact_online'' = Some (''ye'' @ [CHR 0xC5, CHR 0xBF])"
    by code_simp
  note t3 = boolean_coercion [THEN conjunct2, THEN conjunct2, THEN conjunct1, THEN mp, OF h3]
  from t3 p3 words old have a3: "event_getattr_bool ''list_contact_online'' ?obj' = Some True"
    by (simp only: option.case simp_thms)
  have h4: "u_api_allowed (req_user ?req) \<and> (req_method ?req = ''PUT'' \<or> req_method ?req = ''POST'')
      \<and> ''2012'' \<noteq> [] \<and> py_int ''7'' = Some 7
      \<and> filter (\<lambda>e. e_id e = Some 7) (events demo_db) = [accepted_event]
      \<and> e_year accepted_event \<noteq> None
      \<and> event_assign (strip_keys [''id'', ''pk''] (delitem (verb_data ?req) ''year'')) demo_db accepted_event
          = Inr ?obj'
      \<and> ''list_online'' \<in> set event_bool_keys"
    by code_simp
  have p4: "map_of (verb_data ?req) ''list_online'' = None"
    by code_simp
  note t4 = boolean_coercion [THEN conjunct2, THEN conjunct2, THEN conjunct1, THEN mp, OF h4]
  from t4 p4 words old have a4: "event_getattr_bool ''list_online'' ?obj' = Some True"
    by (simp only: option.case simp_thms)
  have put: "(if req_method ?req = ''PUT'' then ALL_OK else CREATED) = ALL_OK"
    by (simp add: demo_request_def)
  from t1 put have e1: "fst (event_create_or_update ?req (Some ''2012'') (Some ''7'') demo_db)
      = Response ALL_OK (PkJson (Some 7))"
    by (simp only: simp_thms)
  from t1 have "get_row (\<lambda>e. e_id e = Some 7)
      (events (snd (event_create_or_update ?req (Some ''2012'') (Some ''7'') demo_db))) = Inr ?obj'"
    by (rule conjunct2 [THEN conjunct1])
  with a1 a2 a3 a4 have e2: "\<exists>saved. get_row (\<lambda>e. e_id e = Some 7)
        (events (snd (event_create_or_update ?req (Some ''2012'') (Some ''7'') demo_db))) = Inr saved
      \<and> event_getattr_bool ''all_day'' saved = Some True
      \<and> event_getattr_bool ''check_location'' saved = Some False
      \<and> event_getattr_bool ''list_contact_online'' saved = Some True
      \<and> event_getattr_bool ''list_online'' saved = Some True"
    by (intro exI [of _ ?obj'] conjI)
  let ?creq = "demo_request\<lparr>req_PUT := [(''list_online'', ''No'')]\<rparr>"
  let ?camp' = "listed_camp\<lparr>c_list_online := False\<rparr>"
  have hc: "u_api_allowed (req_user ?creq) \<and> (req_method ?creq = ''PUT'' \<or> req_method ?creq = ''POST'')
      \<and> ''2012'' \<noteq> [] \<and> py_int ''3'' = Some 3
      \<and> filter (\<lambda>c. c_id c = Some 3) (camps demo_db) = [listed_camp]
      \<and> c_list_online listed_camp \<and> c_year listed_camp \<noteq> None
      \<and> camp_assign (strip_keys [''id'', ''pk'', ''bm_fm_id'', ''deleted'']
            (delitem (verb_data ?creq) ''year'')) demo_db listed_camp = Inr ?camp'"
    by code_simp
  note tc = boolean_coercion [THEN conjunct2, THEN conjunct2, THEN conjunct2, THEN mp, OF hc]
  have cput: "(if req_method ?creq = ''PUT'' then ALL_OK else CREATED) = ALL_OK"
    by (simp add: demo_request_def)
  from tc cput have c1: "fst (camp_create_or_update ?creq (Some ''2012'') (Some ''3'') demo_db)
      = Response ALL_OK (PkJson (Some 3))"
    by (simp only: simp_thms)
  have "c_list_online ?camp' = False"
    by simp
  with tc have c2: "\<exists>saved. get_row (\<lambda>c. c_id c = Some 3)
        (camps (snd (camp_create_or_update ?creq (Some ''2012'') (Some ''3'') demo_db))) = Inr saved
      \<and> c_list_online saved = False"
    by (intro exI [of _ ?camp'] conjI) (rule conjunct2 [THEN conjunct1])
  let ?cnew = "demo_request\<lparr>req_method := ''POST'', req_POST := [(''name'', ''Camp New''), (''list_online'', ''off'')]\<rparr>"
  let ?cout = "Response CREATED (PkJson (Some 5))"
  let ?cd' = "demo_db\<lparr>camps := [listed_camp, hidden_camp,
      new_ThemeCamp\<lparr>c_id := Some 5, c_year := Some 1, c_name := ''Camp New'', c_list_online := False\<rparr>]\<rparr>"
  have crun: "camp_create_or_update ?cnew (Some ''2012'') None demo_db = (?cout, ?cd')"
    by code_simp
  have cn: "camp_create_or_update ?cnew (Some ''2012'') None demo_db = (?cout, ?cd') \<and> is_success ?cout
      \<and> distinct (map c_id (camps demo_db))"
    using crun by (simp add: is_success_def) code_simp
  have cpost: "(if req_method ?cnew = ''PUT'' then ALL_OK else CREATED) = CREATED"
    by (simp add: demo_request_def)
  have cpayload: "map_of (verb_data ?cnew) ''list_online'' = Some ''off''"
    by code_simp
  from boolean_coercion [THEN conjunct2, THEN conjunct1, THEN mp, OF cn] cpost cpayload words
  have n2: "\<exists>saved. get_row (\<lambda>c. c_id c = Some 5) (camps ?cd') = Inr saved \<and> c_list_online saved = False"
    by (simp only: option.case simp_thms) auto
  let ?enew = "demo_request\<lparr>req_method := ''POST'', req_POST := [(''all_day'', ''TRUE'')]\<rparr>"
  let ?eout = "Response CREATED (PkJson (Some 10))"
  let ?ed' = "demo_db\<lparr>events := [accepted_event, rejected_event, unlisted_event,
      new_PlayaEvent\<lparr>e_id := Some 10, e_year := Some 1, e_event_type := Some 1, e_creator := Some 9,
        e_all_day := Some True\<rparr>]\<rparr>"
  have erun: "event_create_or_update ?enew (Some ''2012'') None demo_db = (?eout, ?ed')"
    by code_simp
  have en: "event_create_or_update ?enew (Some ''2012'') None demo_db = (?eout, ?ed') \<and> is_success ?eout
      \<and> ''all_day'' \<in> set event_bool_keys"
    using erun by (simp add: is_success_def event_bool_keys_def)
  have epost: "(if req_method ?enew = ''PUT'' then ALL_OK else CREATED) = CREATED"
    by (simp add: demo_request_def)
  have epayload: "map_of (verb_data ?enew) ''all_day'' = Some ''TRUE''"
    by code_simp
  from boolean_coercion [THEN conjunct1, THEN mp, OF en] epost epayload words
  have m2: "\<exists>saved. get_row (\<lambda>e. e_id e = Some 10) (events ?ed') = Inr saved
      \<and> event_getattr_bool ''all_day'' saved = Some True"
    by (simp only: option.case simp_thms) auto
  from e1 e2 c1 c2 n2 m2 show ?thesis
    by (simp only: crun erun fst_conv snd_conv simp_thms)
qed

text \<open>
  C7. After a successful create or update of an event whose field map has a
  \<open>moderation\<close> text \<open>v\<close>: when \<open>v\<close> uppercased is one of \<open>U\<close>, \<open>A\<close>, \<open>R\<close> the stored
  moderation is that letter; otherwise it is the moderation the event had before the
  call (for a new event, the default). The text never makes the call fail: the response
  is the same whatever text the field carries (\<open>v'\<close> in its place), so an unrecognised
  text is answered exactly as a recognised one.
\<close>

theorem moderation_tolerant:
  "(event_create_or_update request year_year playa_event_id d = (out, d') \<and> is_success out
      \<and> map_of (verb_data request) ''moderation'' = Some v \<longrightarrow>
      (\<exists>pk saved.
          out = Response (if req_method request = ''PUT'' then ALL_OK else CREATED) (PkJson (Some pk))
        \<and> get_row (\<lambda>e. e_id e = Some pk) (events d') = Inr saved
        \<and> e_moderation saved =
            (if upper v \<in> set [''U'', ''A'', ''R''] then upper v
             else (case get_row (\<lambda>e. e_id e = Some pk) (events d) of
                     Inr old \<Rightarrow> e_moderation old
                   | Inl e \<Rightarrow> e_moderation new_PlayaEvent))))
   \<and> fst (event_create_or_update (request_with_moderation v' request) year_year playa_event_id d)
       = fst (event_create_or_update request year_year playa_event_id d)"
proof (intro conjI impI)
  assume "event_create_or_update request year_year playa_event_id d = (out, d') \<and> is_success out
      \<and> map_of (verb_data request) ''moderation'' = Some v"
  then have r: "event_create_or_update request year_year playa_event_id d = (out, d')"
    and ok: "is_success out" and given: "map_of (verb_data request) ''moderation'' = Some v"
    by simp_all
  from event_write_success [OF r ok] obtain obj data obj' pk where
    assign: "event_assign (strip_keys [''id'', ''pk''] data) d obj = Inr obj'" and
    out: "out = Response (if req_method request = ''PUT'' then ALL_OK else CREATED) (PkJson (Some pk))" and
    row: "get_row (\<lambda>e. e_id e = Some pk) (events d') = Inr (obj'\<lparr>e_id := Some pk\<rparr>)" and
    before: "if truthy playa_event_id
        then get_row (\<lambda>e. e_id e = Some pk) (events d) = Inr obj
           \<and> data = (if has_key (inject_year year_year (verb_data request)) ''year''
                      then delitem (inject_year year_year (verb_data request)) ''year''
                      else inject_year year_year (verb_data request))
        else get_row (\<lambda>e. e_id e = Some pk) (events d) = Inl DoesNotExist
           \<and> data = inject_year year_year (verb_data request)
           \<and> (\<exists>t. obj = new_PlayaEvent\<lparr>e_creator := Some (u_id (req_user request)), e_event_type := t\<rparr>)"
    by blast
  have payload: "map_of (strip_keys [''id'', ''pk''] data) ''moderation'' = Some v"
  proof (cases "truthy playa_event_id")
    case True
    with before have "data = (if has_key (inject_year year_year (verb_data request)) ''year''
                      then delitem (inject_year year_year (verb_data request)) ''year''
                      else inject_year year_year (verb_data request))"
      by simp
    then show ?thesis
      using map_of_payload(1) [of "''moderation''" "[''id'', ''pk'']" year_year "verb_data request"] given
      by simp
  next
    case False
    with before have "data = inject_year year_year (verb_data request)"
      by simp
    then show ?thesis
      using map_of_payload(2) [of "''moderation''" "[''id'', ''pk'']" year_year "verb_data request"] given
      by simp
  qed
  have old: "(case get_row (\<lambda>e. e_id e = Some pk) (events d) of
                Inr old \<Rightarrow> e_moderation old
              | Inl e \<Rightarrow> e_moderation new_PlayaEvent) = e_moderation obj"
  proof (cases "truthy playa_event_id")
    case True
    with before show ?thesis by simp
  next
    case False
    with before obtain t where
      "get_row (\<lambda>e. e_id e = Some pk) (events d) = Inl DoesNotExist"
      "obj = new_PlayaEvent\<lparr>e_creator := Some (u_id (req_user request)), e_event_type := t\<rparr>"
      by auto
    then show ?thesis by simp
  qed
  have "e_moderation (obj'\<lparr>e_id := Some pk\<rparr>) = e_moderation obj'"
    by simp
  also have "\<dots> = (if upper v \<in> set [''U'', ''A'', ''R''] then upper v else e_moderation obj)"
    using event_assign_Inr(3) [OF assign] by (simp only: payload option.case)
  finally have "e_moderation (obj'\<lparr>e_id := Some pk\<rparr>) =
      (if upper v \<in> set [''U'', ''A'', ''R''] then upper v
       else (case get_row (\<lambda>e. e_id e = Some pk) (events d) of
               Inr old \<Rightarrow> e_moderation old
             | Inl e \<Rightarrow> e_moderation new_PlayaEvent))"
    by (simp only: old)
  with out row show "\<exists>pk saved.
          out = Response (if req_method request = ''PUT'' then ALL_OK else CREATED) (PkJson (Some pk))
        \<and> get_row (\<lambda>e. e_id e = Some pk) (events d') = Inr saved
        \<and> e_moderation saved =
            (if upper v \<in> set [''U'', ''A'', ''R''] then upper v
             else (case get_row (\<lambda>e. e_id e = Some pk) (events d) of
                     Inr old \<Rightarrow> e_moderation old
                   | Inl e \<Rightarrow> e_moderation new_PlayaEvent))"
    by blast
next
  show "fst (event_create_or_update (request_with_moderation v' request) year_year playa_event_id d)
       = fst (event_create_or_update request year_year playa_event_id d)"
    by (rule event_write_with_moderation)
qed

theorem moderation_tolerant_witness:
  "(\<exists>saved.
      get_row (\<lambda>e. e_id e = Some 8) (events (snd (event_create_or_update
          (demo_request\<lparr>req_PUT := [(''moderation'', ''a'')]\<rparr>) (Some ''2012'') (Some ''8'') demo_db)))
        = Inr saved
      \<and> e_moderation saved = ''A'')
   \<and> (\<exists>saved.
      get_row (\<lambda>e. e_id e = Some 8) (events (snd (event_create_or_update
          (demo_request\<lparr>req_PUT := [(''moderation'', ''accepted'')]\<rparr>) (Some ''2012'') (Some ''8'') demo_db)))
        = Inr saved
      \<and> e_moderation saved = ''R'')
   \<and> fst (event_create_or_update
          (request_with_moderation ''accepted'' (demo_request\<lparr>req_PUT := [(''moderation'', ''a'')]\<rparr>))
          (Some ''2012'') (Some ''8'') demo_db)
     = Response ALL_OK (PkJson (Some 8))"
proof -
  let ?req = "demo_request\<lparr>req_PUT := [(''moderation'', ''a'')]\<rparr>"
  let ?bad = "demo_request\<lparr>req_PUT := [(''moderation'', ''accepted'')]\<rparr>"
  let ?out = "Response ALL_OK (PkJson (Some 8))"
  let ?d' = "demo_db\<lparr>events := [accepted_event, rejected_event\<lparr>e_moderation := ''A''\<rparr>, unlisted_event]\<rparr>"
  have run: "event_create_or_update ?req (Some ''2012'') (Some ''8'') demo_db = (?out, ?d')"
    by code_simp
  have bad_run: "event_create_or_update ?bad (Some ''2012'') (Some ''8'') demo_db = (?out, demo_db)"
    by code_simp
  have ok: "is_success ?out"
    by (simp add: is_success_def)
  have put: "req_method ?req = ''PUT''" "req_method ?bad = ''PUT''"
    by (simp_all add: demo_request_def)
  have payload: "map_of (verb_data ?req) ''moderation'' = Some ''a''"
    "map_of (verb_data ?bad) ''moderation'' = Some ''accepted''"
    by code_simp+
  have letters: "upper ''a'' = ''A''" "upper ''a'' \<in> set [''U'', ''A'', ''R'']"
    "upper ''accepted'' \<notin> set [''U'', ''A'', ''R'']"
    by code_simp+
  have old: "get_row (\<lambda>e. e_id e = Some 8) (events demo_db) = Inr rejected_event"
    "e_moderation rejected_event = ''R''"
    by code_simp+
  from moderation_tolerant [where request = ?req and year_year = "Some ''2012''"
      and playa_event_id = "Some ''8''" and d = demo_db and out = ?out and d' = ?d' and v = "''a''",
      THEN conjunct1, THEN mp] run ok payload(1) letters put
  have 1: "\<exists>saved. get_row (\<lambda>e. e_id e = Some 8) (events ?d') = Inr saved \<and> e_moderation saved = ''A''"
    by (simp only: simp_thms if_True) auto
  from moderation_tolerant [where request = ?bad and year_year = "Some ''2012''"
      and playa_event_id = "Some ''8''" and d = demo_db and out = ?out and d' = demo_db
      and v = "''accepted''", THEN conjunct1, THEN mp] bad_run ok payload(2) letters old put
  have 2: "\<exists>saved. get_row (\<lambda>e. e_id e = Some 8) (events demo_db) = Inr saved \<and> e_moderation saved = ''R''"
    by (simp only: simp_thms if_False) auto
  from moderation_tolerant [where request = ?req and year_year = "Some ''2012''"
      and playa_event_id = "Some ''8''" and d = demo_db and v' = "''accepted''", THEN conjunct2] run
  have 3: "fst (event_create_or_update (request_with_moderation ''accepted'' ?req)
      (Some ''2012'') (Some ''8'') demo_db) = ?out"
    by simp
  from 1 2 3 show ?thesis
    by (simp only: run bad_run snd_conv simp_thms)
qed

text \<open>
  C9. A camp whose row exists with \<open>list_online\<close> false is out of reach of the write
  path, which looks camps up through \<open>ThemeCamp.objects\<close>: an update by its id and a
  delete by its id answer not found and change nothing, and an event write whose field
  map names it as \<open>hosted_by_camp\<close> answers \<open>No such camp\<close> and changes nothing as soon
  as the steps before the camp lookup have passed (the target resolves and the year, if
  any, is known).
\<close>

theorem hidden_camp_unreachable:
  "(u_api_allowed (req_user request) \<and> (req_method request = ''PUT'' \<or> req_method request = ''POST'')
      \<and> inject_year year_year (verb_data request) \<noteq> []
      \<and> py_int cid = Some k \<and> filter (\<lambda>c. c_id c = Some k) (camps d) = [camp]
      \<and> \<not> c_list_online camp \<longrightarrow>
      camp_create_or_update request year_year (Some cid) d
        = (rc_response NOT_HERE (''ThemeCamp not found #'' @ cid), d))
   \<and> (u_api_allowed (req_user request)
      \<and> py_int cid = Some k \<and> filter (\<lambda>c. c_id c = Some k) (camps d) = [camp]
      \<and> \<not> c_list_online camp \<longrightarrow>
      camp_delete request year_year (Some cid) d
        = (rc_response NOT_HERE (''Camp not found #'' @ cid), d))
   \<and> (u_api_allowed (req_user request) \<and> (req_method request = ''PUT'' \<or> req_method request = ''POST'')
      \<and> inject_year year_year (verb_data request) \<noteq> []
      \<and> event_target request playa_event_id (inject_year year_year (verb_data request)) d = Inr (obj, data)
      \<and> event_set_year (strip_keys [''id'', ''pk''] data) d obj = Inr obj1
      \<and> map_of (verb_data request) ''hosted_by_camp'' = Some cid
      \<and> py_int cid = Some k \<and> filter (\<lambda>c. c_id c = Some k) (camps d) = [camp]
      \<and> \<not> c_list_online camp \<longrightarrow>
      event_create_or_update request year_year playa_event_id d
        = (rc_response NOT_HERE (''No such camp: '' @ cid), d))"
proof (intro conjI impI)
  assume h: "u_api_allowed (req_user request) \<and> (req_method request = ''PUT'' \<or> req_method request = ''POST'')
      \<and> inject_year year_year (verb_data request) \<noteq> []
      \<and> py_int cid = Some k \<and> filter (\<lambda>c. c_id c = Some k) (camps d) = [camp]
      \<and> \<not> c_list_online camp"
  then have miss: "get_pk c_id cid (ThemeCamp_objects d) = Inl DoesNotExist"
    using hidden_camp_lookup by blast
  from h have given: "truthy (Some cid)"
    using py_int_truthy by blast
  from h miss given show "camp_create_or_update request year_year (Some cid) d
        = (rc_response NOT_HERE (''ThemeCamp not found #'' @ cid), d)"
    by (auto simp: camp_create_or_update_def camp_target_def Let_def except_DoesNotExist_def)
next
  assume h: "u_api_allowed (req_user request)
      \<and> py_int cid = Some k \<and> filter (\<lambda>c. c_id c = Some k) (camps d) = [camp]
      \<and> \<not> c_list_online camp"
  then have miss: "get_pk c_id cid (ThemeCamp_objects d) = Inl DoesNotExist"
    using hidden_camp_lookup by blast
  from h have given: "truthy (Some cid)"
    using py_int_truthy by blast
  from h miss given show "camp_delete request year_year (Some cid) d
        = (rc_response NOT_HERE (''Camp not found #'' @ cid), d)"
    by (auto simp: camp_delete_def Let_def except_DoesNotExist_def)
next
  assume h: "u_api_allowed (req_user request) \<and> (req_method request = ''PUT'' \<or> req_method request = ''POST'')
      \<and> inject_year year_year (verb_data request) \<noteq> []
      \<and> event_target request playa_event_id (inject_year year_year (verb_data request)) d = Inr (obj, data)
      \<and> event_set_year (strip_keys [''id'', ''pk''] data) d obj = Inr obj1
      \<and> map_of (verb_data request) ''hosted_by_camp'' = Some cid
      \<and> py_int cid = Some k \<and> filter (\<lambda>c. c_id c = Some k) (camps d) = [camp]
      \<and> \<not> c_list_online camp"
  then have miss: "get_pk c_id cid (ThemeCamp_objects d) = Inl DoesNotExist"
    using hidden_camp_lookup by blast
  from h have target: "event_target request playa_event_id (inject_year year_year (verb_data request)) d
      = Inr (obj, data)"
    by simp
  have "map_of data ''hosted_by_camp'' = map_of (inject_year year_year (verb_data request)) ''hosted_by_camp''"
    by (rule event_target_keeps [OF target]) simp
  with h have key: "map_of (strip_keys [''id'', ''pk''] data) ''hosted_by_camp'' = Some cid"
    by (simp add: map_of_strip_keys map_of_inject_year)
  have camp: "event_set_camp (strip_keys [''id'', ''pk''] data) d ob
      = Inl (rc_response NOT_HERE (''No such camp: '' @ cid))" for ob
    by (simp add: event_set_camp_def key miss except_DoesNotExist_def)
  from h have "event_assign (strip_keys [''id'', ''pk''] data) d obj
      = Inl (rc_response NOT_HERE (''No such camp: '' @ cid))"
    by (simp add: event_assign_def camp)
  with h target show "event_create_or_update request year_year playa_event_id d
        = (rc_response NOT_HERE (''No such camp: '' @ cid), d)"
    by (auto simp: event_create_or_update_def Let_def)
qed

theorem hidden_camp_unreachable_witness:
  "hidden_camp \<in> set (camps demo_db)
   \<and> camp_create_or_update (demo_request\<lparr>req_PUT := [(''name'', ''Camp Loud'')]\<rparr>)
        (Some ''2012'') (Some ''4'') demo_db
     = (Response NOT_HERE (Message ''ThemeCamp not found #4''), demo_db)
   \<and> camp_delete demo_request (Some ''2012'') (Some ''4'') demo_db
     = (Response NOT_HERE (Message ''Camp not found #4''), demo_db)
   \<and> event_create_or_update (demo_request\<lparr>req_PUT := [(''hosted_by_camp'', ''4'')]\<rparr>)
        (Some ''2012'') (Some ''7'') demo_db
     = (Response NOT_HERE (Message ''No such camp: 4''), demo_db)"
proof -
  let ?put = "demo_request\<lparr>req_PUT := [(''name'', ''Camp Loud'')]\<rparr>"
  let ?host = "demo_request\<lparr>req_PUT := [(''hosted_by_camp'', ''4'')]\<rparr>"
  have row: "hidden_camp \<in> set (camps demo_db)"
    by (simp add: demo_db_def)
  have h1: "u_api_allowed (req_user ?put) \<and> (req_method ?put = ''PUT'' \<or> req_method ?put = ''POST'')
      \<and> inject_year (Some ''2012'') (verb_data ?put) \<noteq> []
      \<and> py_int ''4'' = Some 4 \<and> filter (\<lambda>c. c_id c = Some 4) (camps demo_db) = [hidden_camp]
      \<and> \<not> c_list_online hidden_camp"
    by code_simp
  have h2: "u_api_allowed (req_user demo_request)
      \<and> py_int ''4'' = Some 4 \<and> filter (\<lambda>c. c_id c = Some 4) (camps demo_db) = [hidden_camp]
      \<and> \<not> c_list_online hidden_camp"
    by code_simp
  have h3: "u_api_allowed (req_user ?host) \<and> (req_method ?host = ''PUT'' \<or> req_method ?host = ''POST'')
      \<and> inject_year (Some ''2012'') (verb_data ?host) \<noteq> []
      \<and> event_target ?host (Some ''7'') (inject_year (Some ''2012'') (verb_data ?host)) demo_db
          = Inr (accepted_event, [(''hosted_by_camp'', ''4'')])
      \<and> event_set_year (strip_keys [''id'', ''pk''] [(''hosted_by_camp'', ''4'')]) demo_db accepted_event
          = Inr accepted_event
      \<and> map_of (verb_data ?host) ''hosted_by_camp'' = Some ''4''
      \<and> py_int ''4'' = Some 4 \<and> filter (\<lambda>c. c_id c = Some 4) (camps demo_db) = [hidden_camp]
      \<and> \<not> c_list_online hidden_camp"
    by code_simp
  from hidden_camp_unreachable [THEN conjunct1, THEN mp, OF h1]
    hidden_camp_unreachable [THEN conjunct2, THEN conjunct1, THEN mp, OF h2]
    hidden_camp_unreachable [THEN conjunct2, THEN conjunct2, THEN mp, OF h3]
    row
  show ?thesis
    by (simp add: rc_response_def)
qed

text \<open>
  C10. Updates and deletes resolve their target by primary key alone. The result of an
  update (response and database) is the same whatever year the path names, and
  \<open>delete\<close> does not look at the year of the path at all. So whenever the key names a
  row (for a camp, a row listed online), the entity is found whatever its own year is:
  an update whose references resolve stores the assigned object in its place and
  answers with the key, a delete stores the entity marked rejected (or deleted) and
  answers with the deletion message.
\<close>

theorem resolved_by_primary_key_alone:
  "(pid \<noteq> [] \<and> y \<noteq> [] \<and> y' \<noteq> [] \<longrightarrow>
      event_create_or_update request (Some y) (Some pid) d
        = event_create_or_update request (Some y') (Some pid) d)
   \<and> (cid \<noteq> [] \<and> y \<noteq> [] \<and> y' \<noteq> [] \<longrightarrow>
      camp_create_or_update request (Some y) (Some cid) d
        = camp_create_or_update request (Some y') (Some cid) d)
   \<and> event_delete request year_year playa_event_id d = event_delete request year_year' playa_event_id d
   \<and> camp_delete request year_year camp_id d = camp_delete request year_year' camp_id d
   \<and> (u_api_allowed (req_user request) \<and> (req_method request = ''PUT'' \<or> req_method request = ''POST'')
      \<and> y \<noteq> [] \<and> py_int pid = Some k \<and> filter (\<lambda>e. e_id e = Some k) (events d) = [obj]
      \<and> e_year obj \<noteq> None
      \<and> event_assign (strip_keys [''id'', ''pk''] (delitem (verb_data request) ''year'')) d obj = Inr obj' \<longrightarrow>
      event_create_or_update request (Some y) (Some pid) d
        = (Response (if req_method request = ''PUT'' then ALL_OK else CREATED) (PkJson (Some k)),
           d\<lparr>events := map (\<lambda>r. if e_id r = Some k then obj' else r) (events d)\<rparr>))
   \<and> (u_api_allowed (req_user request) \<and> (req_method request = ''PUT'' \<or> req_method request = ''POST'')
      \<and> y \<noteq> [] \<and> py_int cid = Some k \<and> filter (\<lambda>c. c_id c = Some k) (camps d) = [camp]
      \<and> c_list_online camp \<and> c_year camp \<noteq> None
      \<and> camp_assign (strip_keys [''id'', ''pk'', ''bm_fm_id'', ''deleted'']
            (delitem (verb_data request) ''year'')) d camp = Inr camp' \<longrightarrow>
      camp_create_or_update request (Some y) (Some cid) d
        = (Response (if req_method request = ''PUT'' then ALL_OK else CREATED) (PkJson (Some k)),
           d\<lparr>camps := map (\<lambda>r. if c_id r = Some k then camp' else r) (camps d)\<rparr>))
   \<and> (u_api_allowed (req_user request)
      \<and> py_int pid = Some k \<and> filter (\<lambda>e. e_id e = Some k) (events d) = [obj]
      \<and> e_year obj \<noteq> None \<longrightarrow>
      event_delete request year_year (Some pid) d
        = (rc_response DELETED (''Event rejected #'' @ pid),
           d\<lparr>events := map (\<lambda>r. if e_id r = Some k then obj\<lparr>e_moderation := ''R''\<rparr> else r) (events d)\<rparr>))
   \<and> (u_api_allowed (req_user request)
      \<and> py_int cid = Some k \<and> filter (\<lambda>c. c_id c = Some k) (camps d) = [camp]
      \<and> c_list_online camp \<and> c_year camp \<noteq> None \<longrightarrow>
      camp_delete request year_year (Some cid) d
        = (rc_response DELETED (''Camp deleted #'' @ cid),
           d\<lparr>camps := map (\<lambda>r. if c_id r = Some k then camp\<lparr>c_deleted := Some True\<rparr> else r) (camps d)\<rparr>))"
proof (intro conjI impI)
  assume "pid \<noteq> [] \<and> y \<noteq> [] \<and> y' \<noteq> []"
  then have given: "pid \<noteq> []" "y \<noteq> []" "y' \<noteq> []"
    by simp_all
  show "event_create_or_update request (Some y) (Some pid) d
        = event_create_or_update request (Some y') (Some pid) d"
    unfolding event_update_by_pk [OF given(1,2)] event_update_by_pk [OF given(1,3)] ..
next
  assume "cid \<noteq> [] \<and> y \<noteq> [] \<and> y' \<noteq> []"
  then have given: "cid \<noteq> []" "y \<noteq> []" "y' \<noteq> []"
    by simp_all
  show "camp_create_or_update request (Some y) (Some cid) d
        = camp_create_or_update request (Some y') (Some cid) d"
    unfolding camp_update_by_pk [OF given(1,2)] camp_update_by_pk [OF given(1,3)] ..
next
  show "event_delete request year_year playa_event_id d = event_delete request year_year' playa_event_id d"
    by (simp add: event_delete_def)
next
  show "camp_delete request year_year camp_id d = camp_delete request year_year' camp_id d"
    by (simp add: camp_delete_def)
next
  assume h: "u_api_allowed (req_user request) \<and> (req_method request = ''PUT'' \<or> req_method request = ''POST'')
      \<and> y \<noteq> [] \<and> py_int pid = Some k \<and> filter (\<lambda>e. e_id e = Some k) (events d) = [obj]
      \<and> e_year obj \<noteq> None
      \<and> event_assign (strip_keys [''id'', ''pk''] (delitem (verb_data request) ''year'')) d obj = Inr obj'"
  then have row: "filter (\<lambda>e. e_id e = Some k) (events d) = [obj]"
    and assign: "event_assign (strip_keys [''id'', ''pk''] (delitem (verb_data request) ''year'')) d obj = Inr obj'"
    by simp_all
  from h have found: "get_pk e_id pid (PlayaEvent_objects d) = Inr obj"
    using event_pk_lookup by blast
  from h have given: "pid \<noteq> []"
    using py_int_Nil by auto
  have no_year: "map_of (strip_keys [''id'', ''pk''] (delitem (verb_data request) ''year'')) ''year'' = None"
    by (simp add: map_of_strip_keys map_of_delitem)
  from filter_single_mem [OF row] have "e_id obj = Some k"
    by simp
  with event_assign_Inr(1) [OF assign] event_assign_Inr(2) [OF assign no_year] h
  have k': "e_id obj' = Some k" and year': "e_year obj' \<noteq> None"
    by simp_all
  note saved = save_event_replaces [OF year' k' row]
  from h given show "event_create_or_update request (Some y) (Some pid) d
        = (Response (if req_method request = ''PUT'' then ALL_OK else CREATED) (PkJson (Some k)),
           d\<lparr>events := map (\<lambda>r. if e_id r = Some k then obj' else r) (events d)\<rparr>)"
    by (auto simp: event_update_by_pk found assign saved k')
next
  assume h: "u_api_allowed (req_user request) \<and> (req_method request = ''PUT'' \<or> req_method request = ''POST'')
      \<and> y \<noteq> [] \<and> py_int cid = Some k \<and> filter (\<lambda>c. c_id c = Some k) (camps d) = [camp]
      \<and> c_list_online camp \<and> c_year camp \<noteq> None
      \<and> camp_assign (strip_keys [''id'', ''pk'', ''bm_fm_id'', ''deleted'']
            (delitem (verb_data request) ''year'')) d camp = Inr camp'"
  then have row: "filter (\<lambda>c. c_id c = Some k) (camps d) = [camp]"
    and assign: "camp_assign (strip_keys [''id'', ''pk'', ''bm_fm_id'', ''deleted'']
            (delitem (verb_data request) ''year'')) d camp = Inr camp'"
    by simp_all
  from h have found: "get_pk c_id cid (ThemeCamp_objects d) = Inr camp"
    using listed_camp_lookup by blast
  from h have given: "cid \<noteq> []"
    using py_int_Nil by auto
  have no_year: "map_of (strip_keys [''id'', ''pk'', ''bm_fm_id'', ''deleted'']
      (delitem (verb_data request) ''year'')) ''year'' = None"
    by (simp add: map_of_strip_keys map_of_delitem)
  from filter_single_mem [OF row] have "c_id camp = Some k"
    by simp
  with camp_assign_Inr(1) [OF assign] camp_assign_Inr(2) [OF assign no_year] h
  have k': "c_id camp' = Some k" and year': "c_year camp' \<noteq> None"
    by simp_all
  note saved = save_camp_replaces [OF year' k' row]
  from h given show "camp_create_or_update request (Some y) (Some cid) d
        = (Response (if req_method request = ''PUT'' then ALL_OK else CREATED) (PkJson (Some k)),
           d\<lparr>camps := map (\<lambda>r. if c_id r = Some k then camp' else r) (camps d)\<rparr>)"
    by (auto simp: camp_update_by_pk found assign saved k')
next
  assume h: "u_api_allowed (req_user request)
      \<and> py_int pid = Some k \<and> filter (\<lambda>e. e_id e = Some k) (events d) = [obj]
      \<and> e_year obj \<noteq> None"
  then have row: "filter (\<lambda>e. e_id e = Some k) (events d) = [obj]"
    by simp
  from h have found: "get_pk e_id pid (PlayaEvent_objects d) = Inr obj"
    using event_pk_lookup by blast
  from h have given: "truthy (Some pid)"
    using py_int_truthy by blast
  from filter_single_mem [OF row] have k': "e_id (obj\<lparr>e_moderation := ''R''\<rparr>) = Some k"
    by simp
  from h have year': "e_year (obj\<lparr>e_moderation := ''R''\<rparr>) \<noteq> None"
    by simp
  note saved = save_event_replaces [OF year' k' row]
  from h given show "event_delete request year_year (Some pid) d
        = (rc_response DELETED (''Event rejected #'' @ pid),
           d\<lparr>events := map (\<lambda>r. if e_id r = Some k then obj\<lparr>e_moderation := ''R''\<rparr> else r) (events d)\<rparr>)"
    by (simp add: event_delete_def found saved)
next
  assume h: "u_api_allowed (req_user request)
      \<and> py_int cid = Some k \<and> filter (\<lambda>c. c_id c = Some k) (camps d) = [camp]
      \<and> c_list_online camp \<and> c_year camp \<noteq> None"
  then have row: "filter (\<lambda>c. c_id c = Some k) (camps d) = [camp]"
    by simp
  from h have found: "get_pk c_id cid (ThemeCamp_objects d) = Inr camp"
    using listed_camp_lookup by blast
  from h have given: "truthy (Some cid)"
    using py_int_truthy by blast
  from filter_single_mem [OF row] have k': "c_id (camp\<lparr>c_deleted := Some True\<rparr>) = Some k"
    by simp
  from h have year': "c_year (camp\<lparr>c_deleted := Some True\<rparr>) \<noteq> None"
    by simp
  note saved = save_camp_replaces [OF year' k' row]
  from h given show "camp_delete request year_year (Some cid) d
        = (rc_response DELETED (''Camp deleted #'' @ cid),
           d\<lparr>camps := map (\<lambda>r. if c_id r = Some k then camp\<lparr>c_deleted := Some True\<rparr> else r) (camps d)\<rparr>)"
    by (simp add: camp_delete_def found saved)
qed

theorem resolved_by_primary_key_alone_witness:
  "e_year accepted_event = Some 1 \<and> c_year listed_camp = Some 1
   \<and> map (\<lambda>y. (y_id y, y_year y)) (years demo_db) = [(1, ''2012''), (2, ''2011'')]
   \<and> event_create_or_update (demo_request\<lparr>req_PUT := [(''slug'', ''moved'')]\<rparr>)
        (Some ''2011'') (Some ''7'') demo_db
     = (Response ALL_OK (PkJson (Some 7)),
        demo_db\<lparr>events := [accepted_event\<lparr>e_slug := ''moved''\<rparr>, rejected_event, unlisted_event]\<rparr>)
   \<and> camp_create_or_update (demo_request\<lparr>req_PUT := [(''name'', ''Camp Loud'')]\<rparr>)
        (Some ''2011'') (Some ''3'') demo_db
     = (Response ALL_OK (PkJson (Some 3)),
        demo_db\<lparr>camps := [listed_camp\<lparr>c_name := ''Camp Loud''\<rparr>, hidden_camp]\<rparr>)
   \<and> event_delete demo_request (Some ''2011'') (Some ''7'') demo_db
     = (Response DELETED (Message ''Event rejected #7''),
        demo_db\<lparr>events := [accepted_event\<lparr>e_moderation := ''R''\<rparr>, rejected_event, unlisted_event]\<rparr>)
   \<and> camp_delete demo_request (Some ''2011'') (Some ''3'') demo_db
     = (Response DELETED (Message ''Camp deleted #3''),
        demo_db\<lparr>camps := [listed_camp\<lparr>c_deleted := Some True\<rparr>, hidden_camp]\<rparr>)"
proof -
  let ?slug = "demo_request\<lparr>req_PUT := [(''slug'', ''moved'')]\<rparr>"
  let ?name = "demo_request\<lparr>req_PUT := [(''name'', ''Camp Loud'')]\<rparr>"
  have facts: "e_year accepted_event = Some 1 \<and> c_year listed_camp = Some 1
      \<and> map (\<lambda>y. (y_id y, y_year y)) (years demo_db) = [(1, ''2012''), (2, ''2011'')]"
    by code_simp
  have h5: "u_api_allowed (req_user ?slug) \<and> (req_method ?slug = ''PUT'' \<or> req_method ?slug = ''POST'')
      \<and> ''2011'' \<noteq> [] \<and> py_int ''7'' = Some 7
      \<and> filter (\<lambda>e. e_id e = Some 7) (events demo_db) = [accepted_event]
      \<and> e_year accepted_event \<noteq> None
      \<and> event_assign (strip_keys [''id'', ''pk''] (delitem (verb_data ?slug) ''year'')) demo_db accepted_event
          = Inr (accepted_event\<lparr>e_slug := ''moved''\<rparr>)"
    by code_simp
  have h6: "u_api_allowed (req_user ?name) \<and> (req_method ?name = ''PUT'' \<or> req_method ?name = ''POST'')
      \<and> ''2011'' \<noteq> [] \<and> py_int ''3'' = Some 3
      \<and> filter (\<lambda>c. c_id c = Some 3) (camps demo_db) = [listed_camp]
      \<and> c_list_online listed_camp \<and> c_year listed_camp \<noteq> None
      \<and> camp_assign (strip_keys [''id'', ''pk'', ''bm_fm_id'', ''deleted'']
            (delitem (verb_data ?name) ''year'')) demo_db listed_camp
          = Inr (listed_camp\<lparr>c_name := ''Camp Loud''\<rparr>)"
    by code_simp
  have h7: "u_api_allowed (req_user demo_request) \<and> py_int ''7'' = Some 7
      \<and> filter (\<lambda>e. e_id e = Some 7) (events demo_db) = [accepted_event]
      \<and> e_year accepted_event \<noteq> None"
    by code_simp
  have h8: "u_api_allowed (req_user demo_request) \<and> py_int ''3'' = Some 3
      \<and> filter (\<lambda>c. c_id c = Some 3) (camps demo_db) = [listed_camp]
      \<and> c_list_online listed_camp \<and> c_year listed_camp \<noteq> None"
    by code_simp
  have maps:
    "map (\<lambda>r. if e_id r = Some 7 then accepted_event\<lparr>e_slug := ''moved''\<rparr> else r) (events demo_db)
       = [accepted_event\<lparr>e_slug := ''moved''\<rparr>, rejected_event, unlisted_event]"
    "map (\<lambda>r. if c_id r = Some 3 then listed_camp\<lparr>c_name := ''Camp Loud''\<rparr> else r) (camps demo_db)
       = [listed_camp\<lparr>c_name := ''Camp Loud''\<rparr>, hidden_camp]"
    "map (\<lambda>r. if e_id r = Some 7 then accepted_event\<lparr>e_moderation := ''R''\<rparr> else r) (events demo_db)
       = [accepted_event\<lparr>e_moderation := ''R''\<rparr>, rejected_event, unlisted_event]"
    "map (\<lambda>r. if c_id r = Some 3 then listed_camp\<lparr>c_deleted := Some True\<rparr> else r) (camps demo_db)
       = [listed_camp\<lparr>c_deleted := Some True\<rparr>, hidden_camp]"
    by code_simp+
  have put: "req_method ?slug = ''PUT''" "req_method ?name = ''PUT''"
    by (simp_all add: demo_request_def)
  note t = resolved_by_primary_key_alone [THEN conjunct2, THEN conjunct2, THEN conjunct2, THEN conjunct2]
  from t [THEN conjunct1, THEN mp, OF h5]
    t [THEN conjunct2, THEN conjunct1, THEN mp, OF h6]
    t [THEN conjunct2, THEN conjunct2, THEN conjunct1, THEN mp, OF h7]
    t [THEN conjunct2, THEN conjunct2, THEN conjunct2, THEN mp, OF h8]
    facts
  show ?thesis
    by (simp only: maps put rc_response_def if_True append.simps simp_thms)
qed

section \<open>The cached listings\<close>

text \<open>
  C8. \<open>get_and_cache\<close> of each of the three managers (the events, the camps listed
  online, all camps): on a cache hit the cached list is returned unchanged and the cache
  is left as it is; on a miss the result of the query (the filtered rows of the manager
  when keyword arguments are given, all rows of the manager otherwise) is stored as a
  list under the key of the manager for 24 hours (\<open>60 * 60 * 24\<close> seconds) and
  returned. Consequently a second call with the same parameters returns the list of the
  first call, whatever the rows of the database are by then (\<open>d'\<close>): after a miss when it
  comes less than 24 hours after the first call, after a hit when the entry that was hit
  has not expired.
\<close>

theorem get_and_cache_round_trip:
  fixes c :: "playa_event list cache" and cc :: "theme_camp list cache" and ca :: "theme_camp list cache"
  shows
  "(cache_get c now (cache_key ''PlayaEvent'' ''all'' kw) = Inr v \<longrightarrow>
      PlayaEventManager_get_and_cache matches d kw now c = (v, c))
   \<and> (cache_get c now (cache_key ''PlayaEvent'' ''all'' kw) = Inl NotCachedError \<longrightarrow>
      PlayaEventManager_get_and_cache matches d kw now c =
        ((if kw \<noteq> [] then filter (matches kw) (events d) else events d),
         cache_set c now (cache_key ''PlayaEvent'' ''all'' kw)
           (if kw \<noteq> [] then filter (matches kw) (events d) else events d)
           (60 * 60 * 24)))
   \<and> (cache_get c now (cache_key ''PlayaEvent'' ''all'' kw) = Inl NotCachedError
      \<and> now' < now + 60 * 60 * 24 \<longrightarrow>
      fst (PlayaEventManager_get_and_cache matches d' kw now' (snd (PlayaEventManager_get_and_cache matches d kw now c)))
        = fst (PlayaEventManager_get_and_cache matches d kw now c))
   \<and> (c (cache_key ''PlayaEvent'' ''all'' kw) = Some (v, expires) \<and> now < expires \<and> now' < expires \<longrightarrow>
      fst (PlayaEventManager_get_and_cache matches d' kw now' (snd (PlayaEventManager_get_and_cache matches d kw now c)))
        = fst (PlayaEventManager_get_and_cache matches d kw now c))
   \<and> (cache_get cc now (cache_key ''ThemeCamp'' ''all'' kw) = Inr cv \<longrightarrow>
      ThemeCampManager_get_and_cache cmatches d kw now cc = (cv, cc))
   \<and> (cache_get cc now (cache_key ''ThemeCamp'' ''all'' kw) = Inl NotCachedError \<longrightarrow>
      ThemeCampManager_get_and_cache cmatches d kw now cc =
        ((if kw \<noteq> [] then filter (cmatches kw) (filter c_list_online (camps d)) else filter c_list_online (camps d)),
         cache_set cc now (cache_key ''ThemeCamp'' ''all'' kw)
           (if kw \<noteq> [] then filter (cmatches kw) (filter c_list_online (camps d)) else filter c_list_online (camps d))
           (60 * 60 * 24)))
   \<and> (cache_get cc now (cache_key ''ThemeCamp'' ''all'' kw) = Inl NotCachedError
      \<and> now' < now + 60 * 60 * 24 \<longrightarrow>
      fst (ThemeCampManager_get_and_cache cmatches d' kw now' (snd (ThemeCampManager_get_and_cache cmatches d kw now cc)))
        = fst (ThemeCampManager_get_and_cache cmatches d kw now cc))
   \<and> (cc (cache_key ''ThemeCamp'' ''all'' kw) = Some (cv, expires) \<and> now < expires \<and> now' < expires \<longrightarrow>
      fst (ThemeCampManager_get_and_cache cmatches d' kw now' (snd (ThemeCampManager_get_and_cache cmatches d kw now cc)))
        = fst (ThemeCampManager_get_and_cache cmatches d kw now cc))
   \<and> (cache_get ca now (cache_key ''ThemeCampAll'' ''all'' kw) = Inr av \<longrightarrow>
      ThemeCampAllManager_get_and_cache cmatches d kw now ca = (av, ca))
   \<and> (cache_get ca now (cache_key ''ThemeCampAll'' ''all'' kw) = Inl NotCachedError \<longrightarrow>
      ThemeCampAllManager_get_and_cache cmatches d kw now ca =
        ((if kw \<noteq> [] then filter (cmatches kw) (camps d) else camps d),
         cache_set ca now (cache_key ''ThemeCampAll'' ''all'' kw)
           (if kw \<noteq> [] then filter (cmatches kw) (camps d) else camps d)
           (60 * 60 * 24)))
   \<and> (cache_get ca now (cache_key ''ThemeCampAll'' ''all'' kw) = Inl NotCachedError
      \<and> now' < now + 60 * 60 * 24 \<longrightarrow>
      fst (ThemeCampAllManager_get_and_cache cmatches d' kw now' (snd (ThemeCampAllManager_get_and_cache cmatches d kw now ca)))
        = fst (ThemeCampAllManager_get_and_cache cmatches d kw now ca))
   \<and> (ca (cache_key ''ThemeCampAll'' ''all'' kw) = Some (av, expires) \<and> now < expires \<and> now' < expires \<longrightarrow>
      fst (ThemeCampAllManager_get_and_cache cmatches d' kw now' (snd (ThemeCampAllManager_get_and_cache cmatches d kw now ca)))
        = fst (ThemeCampAllManager_get_and_cache cmatches d kw now ca))"
  unfolding PlayaEventManager_get_and_cache_def ThemeCampManager_get_and_cache_def
    ThemeCampAllManager_get_and_cache_def PlayaEvent_objects_def ThemeCamp_objects_def
    ThemeCamp_all_objects_def
  by (intro conjI get_and_cache_cases [THEN conjunct1] get_and_cache_cases [THEN conjunct2, THEN conjunct1]
      get_and_cache_cases [THEN conjunct2, THEN conjunct2, THEN conjunct1]
      get_and_cache_cases [THEN conjunct2, THEN conjunct2, THEN conjunct2])


theorem get_and_cache_round_trip_witness:
  "fst (PlayaEventManager_get_and_cache event_kwargs demo_db [(''moderation'', ''A'')] 0 (\<lambda>k. None)) = [accepted_event, unlisted_event]
   \<and> fst (PlayaEventManager_get_and_cache event_kwargs (demo_db\<lparr>events := [rejected_event]\<rparr>) [(''moderation'', ''A'')] 3600 (snd (PlayaEventManager_get_and_cache event_kwargs demo_db [(''moderation'', ''A'')] 0 (\<lambda>k. None)))) = [accepted_event, unlisted_event]
   \<and> fst (ThemeCampManager_get_and_cache camp_kwargs demo_db [] 0 (\<lambda>k. None)) = [listed_camp]
   \<and> fst (ThemeCampManager_get_and_cache camp_kwargs (demo_db\<lparr>camps := []\<rparr>) [] 86399 (snd (ThemeCampManager_get_and_cache camp_kwargs demo_db [] 0 (\<lambda>k. None)))) = [listed_camp]
   \<and> fst (ThemeCampAllManager_get_and_cache camp_kwargs demo_db [(''name'', ''Camp Quiet'')] 0 (\<lambda>k. None)) = [hidden_camp]
   \<and> fst (ThemeCampAllManager_get_and_cache camp_kwargs (demo_db\<lparr>camps := []\<rparr>) [(''name'', ''Camp Quiet'')] 7200 (snd (ThemeCampAllManager_get_and_cache camp_kwargs demo_db [(''name'', ''Camp Quiet'')] 0 (\<lambda>k. None)))) = [hidden_camp]"
proof -
  have miss1: "cache_get (\<lambda>k. None :: (playa_event list \<times> nat) option) 0 (cache_key ''PlayaEvent'' ''all'' [(''moderation'', ''A'')])
      = Inl NotCachedError"
    by (simp add: cache_get_def)
  have near1: "(3600 :: nat) < 0 + 60 * 60 * 24"
    by simp
  have rows1: "(if [(''moderation'', ''A'')] \<noteq> [] then filter (event_kwargs [(''moderation'', ''A'')]) (events demo_db) else events demo_db) = [accepted_event, unlisted_event]"
    by code_simp
  from get_and_cache_round_trip [where c = "\<lambda>k. None" and now = 0 and kw = "[(''moderation'', ''A'')]" and matches = event_kwargs and d = demo_db and d' = "demo_db\<lparr>events := [rejected_event]\<rparr>" and now' = 3600, THEN conjunct2, THEN conjunct1, THEN mp, OF miss1]
  have first1: "fst (PlayaEventManager_get_and_cache event_kwargs demo_db [(''moderation'', ''A'')] 0 (\<lambda>k. None)) = [accepted_event, unlisted_event]"
    by (simp only: fst_conv rows1)
  from get_and_cache_round_trip [where c = "\<lambda>k. None" and now = 0 and kw = "[(''moderation'', ''A'')]" and matches = event_kwargs and d = demo_db and d' = "demo_db\<lparr>events := [rejected_event]\<rparr>" and now' = 3600, THEN conjunct2, THEN conjunct2, THEN conjunct1, THEN mp, OF conjI [OF miss1 near1]]
  have second1: "fst (PlayaEventManager_get_and_cache event_kwargs (demo_db\<lparr>events := [rejected_event]\<rparr>) [(''moderation'', ''A'')] 3600 (snd (PlayaEventManager_get_and_cache event_kwargs demo_db [(''moderation'', ''A'')] 0 (\<lambda>k. None)))) = [accepted_event, unlisted_event]"
    by (simp only: first1)
  have miss2: "cache_get (\<lambda>k. None :: (theme_camp list \<times> nat) option) 0 (cache_key ''ThemeCamp'' ''all'' [])
      = Inl NotCachedError"
    by (simp add: cache_get_def)
  have near2: "(86399 :: nat) < 0 + 60 * 60 * 24"
    by simp
  have rows2: "(if [] \<noteq> [] then filter (camp_kwargs []) (filter c_list_online (camps demo_db)) else filter c_list_online (camps demo_db)) = [listed_camp]"
    by code_simp
  from get_and_cache_round_trip [where cc = "\<lambda>k. None" and now = 0 and kw = "[]" and cmatches = camp_kwargs and d = demo_db and d' = "demo_db\<lparr>camps := []\<rparr>" and now' = 86399, THEN conjunct2, THEN conjunct2, THEN conjunct2, THEN conjunct2, THEN conjunct2, THEN conjunct1, THEN mp, OF miss2]
  have first2: "fst (ThemeCampManager_get_and_cache camp_kwargs demo_db [] 0 (\<lambda>k. None)) = [listed_camp]"
    by (simp only: fst_conv rows2)
  from get_and_cache_round_trip [where cc = "\<lambda>k. None" and now = 0 and kw = "[]" and cmatches = camp_kwargs and d = demo_db and d' = "demo_db\<lparr>camps := []\<rparr>" and now' = 86399, THEN conjunct2, THEN conjunct2, THEN conjunct2, THEN conjunct2, THEN conjunct2, THEN conjunct2, THEN conjunct1, THEN mp, OF conjI [OF miss2 near2]]
  have second2: "fst (ThemeCampManager_get_and_cache camp_kwargs (demo_db\<lparr>camps := []\<rparr>) [] 86399 (snd (ThemeCampManager_get_and_cache camp_kwargs demo_db [] 0 (\<lambda>k. None)))) = [listed_camp]"
    by (simp only: first2)
  have miss3: "cache_get (\<lambda>k. None :: (theme_camp list \<times> nat) option) 0 (cache_key ''ThemeCampAll'' ''all'' [(''name'', ''Camp Quiet'')])
      = Inl NotCachedError"
    by (simp add: cache_get_def)
  have near3: "(7200 :: nat) < 0 + 60 * 60 * 24"
    by simp
  have rows3: "(if [(''name'', ''Camp Quiet'')] \<noteq> [] then filter (camp_kwargs [(''name'', ''Camp Quiet'')]) (camps demo_db) else camps demo_db) = [hidden_camp]"
    by code_simp
  from get_and_cache_round_trip [where ca = "\<lambda>k. None" and now = 0 and kw = "[(''name'', ''Camp Quiet'')]" and cmatches = camp_kwargs and d = demo_db and d' = "demo_db\<lparr>camps := []\<rparr>" and now' = 7200, THEN conjunct2, THEN conjunct2, THEN conjunct2, THEN conjunct2, THEN conjunct2, THEN conjunct2, THEN conjunct2, THEN conjunct2, THEN conjunct2, THEN conjunct1, THEN mp, OF miss3]
  have first3: "fst (ThemeCampAllManager_get_and_cache camp_kwargs demo_db [(''name'', ''Camp Quiet'')] 0 (\<lambda>k. None)) = [hidden_camp]"
    by (simp only: fst_conv rows3)
  from get_and_cache_round_trip [where ca = "\<lambda>k. None" and now = 0 and kw = "[(''name'', ''Camp Quiet'')]" and cmatches = camp_kwargs and d = demo_db and d' = "demo_db\<lparr>camps := []\<rparr>" and now' = 7200, THEN conjunct2, THEN conjunct2, THEN conjunct2, THEN conjunct2, THEN conjunct2, THEN conjunct2, THEN conjunct2, THEN conjunct2, THEN conjunct2, THEN conjunct2, THEN conjunct1, THEN mp, OF conjI [OF miss3 near3]]
  have second3: "fst (ThemeCampAllManager_get_and_cache camp_kwargs (demo_db\<lparr>camps := []\<rparr>) [(''name'', ''Camp Quiet'')] 7200 (snd (ThemeCampAllManager_get_and_cache camp_kwargs demo_db [(''name'', ''Camp Quiet'')] 0 (\<lambda>k. None)))) = [hidden_camp]"
    by (simp only: first3)
  from first1 second1 first2 second2 first3 second3 show ?thesis
    by (intro conjI)
qed

end
